theory Spec2Isabelle
  imports Complex_Main
begin

section \<open>Numbers\<close>

text \<open>
  The source computes with IEEE floating-point numbers: tensors hold 32-bit floats, plain
  JavaScript numbers are 64-bit floats. A number is a finite real, one of the two
  infinities, or NaN. The two zeros are not told apart; a zero divisor counts as \<open>+0\<close>.

  A \<open>rounding\<close> maps the exact result of an operation to the value the format stores,
  or to \<open>None\<close> when the result is too large for the format, in which case the operation
  yields the infinity of that sign. The roundings of the two formats are parameters of
  every function that computes (\<open>arith\<close>): the backends differ in how they round, and
  each theorem below holds for every arithmetic, the IEEE arithmetic \<open>ieee\<close> among them.
\<close>

datatype number = Fin real | PInf | NInf | NaN

type_synonym rounding = "real \<Rightarrow> real option"

record arith =
  float32 :: rounding
  float64 :: rounding

definition round_to :: "rounding \<Rightarrow> real \<Rightarrow> number" where
  "round_to r x = (case r x of Some y \<Rightarrow> Fin y | None \<Rightarrow> if 0 < x then PInf else NInf)"

fun is_negative :: "number \<Rightarrow> bool" where
  "is_negative (Fin x) = (x < 0)"
| "is_negative NInf = True"
| "is_negative _ = False"

fun is_zero :: "number \<Rightarrow> bool" where
  "is_zero (Fin x) = (x = 0)"
| "is_zero _ = False"

fun num_neg :: "number \<Rightarrow> number" where
  "num_neg (Fin a) = Fin (- a)"
| "num_neg PInf = NInf"
| "num_neg NInf = PInf"
| "num_neg NaN = NaN"

fun num_add :: "rounding \<Rightarrow> number \<Rightarrow> number \<Rightarrow> number" where
  "num_add r (Fin a) (Fin b) = round_to r (a + b)"
| "num_add r NaN _ = NaN"
| "num_add r _ NaN = NaN"
| "num_add r PInf NInf = NaN"
| "num_add r NInf PInf = NaN"
| "num_add r PInf _ = PInf"
| "num_add r _ PInf = PInf"
| "num_add r NInf _ = NInf"
| "num_add r _ NInf = NInf"

definition num_sub :: "rounding \<Rightarrow> number \<Rightarrow> number \<Rightarrow> number" where
  "num_sub r a b = num_add r a (num_neg b)"

definition num_mul :: "rounding \<Rightarrow> number \<Rightarrow> number \<Rightarrow> number" where
  "num_mul r a b =
     (case (a, b) of
        (Fin x, Fin y) \<Rightarrow> round_to r (x * y)
      | _ \<Rightarrow> if a = NaN \<or> b = NaN \<or> is_zero a \<or> is_zero b then NaN
             else if is_negative a = is_negative b then PInf else NInf)"

definition num_div :: "rounding \<Rightarrow> number \<Rightarrow> number \<Rightarrow> number" where
  "num_div r a b =
     (case (a, b) of
        (Fin x, Fin y) \<Rightarrow>
          if y = 0 then (if x = 0 then NaN else if 0 < x then PInf else NInf)
          else round_to r (x / y)
      | (Fin x, PInf) \<Rightarrow> Fin 0
      | (Fin x, NInf) \<Rightarrow> Fin 0
      | (_, Fin y) \<Rightarrow> if a = NaN then NaN else if is_negative a = (y < 0) then PInf else NInf
      | _ \<Rightarrow> NaN)"

fun num_abs :: "number \<Rightarrow> number" where
  "num_abs (Fin a) = Fin \<bar>a\<bar>"
| "num_abs PInf = PInf"
| "num_abs NInf = PInf"
| "num_abs NaN = NaN"

text \<open>Storing a number in a format: finite values are rounded, the others are kept.\<close>

fun store :: "rounding \<Rightarrow> number \<Rightarrow> number" where
  "store r (Fin x) = round_to r x"
| "store r v = v"

text \<open>
  The rounding of the IEEE 754 binary formats, to the nearest value with ties to the even
  one: \<open>p\<close> is the precision in bits, \<open>emin\<close> and \<open>emax\<close> are the least and the
  greatest exponent. A nonzero \<open>x\<close> with \<open>2^e \<le> \<bar>x\<bar> < 2^(e+1)\<close> is rounded to a multiple
  of \<open>2^(e - p + 1)\<close>, or of \<open>2^(emin - p + 1)\<close> when \<open>e < emin\<close>; a result of magnitude
  \<open>2^(emax + 1)\<close> or more is too large for the format. \<open>ieee\<close> is the arithmetic of
  32-bit tensors and 64-bit JavaScript numbers; the runs shown below are runs under
  \<open>ieee\<close>.
\<close>

definition round_even :: "real \<Rightarrow> int" where
  "round_even q =
     (let n = \<lfloor>q\<rfloor>
      in if q - of_int n < 1 / 2 then n
         else if 1 / 2 < q - of_int n then n + 1
         else if even n then n else n + 1)"

definition ieee_round :: "nat \<Rightarrow> int \<Rightarrow> int \<Rightarrow> rounding" where
  "ieee_round p emin emax x =
     (if x = 0 then Some 0
      else let e = max emin \<lfloor>log 2 \<bar>x\<bar>\<rfloor>;
               u = 2 powr of_int (e - int p + 1);
               y = of_int (round_even (x / u)) * u
           in if \<bar>y\<bar> < 2 powr of_int (emax + 1) then Some y else None)"

definition ieee :: arith where
  "ieee = \<lparr>float32 = ieee_round 24 (- 126) 127, float64 = ieee_round 53 (- 1022) 1023\<rparr>"

text \<open>Reading component \<open>i\<close> of a JavaScript array; a missing component is
  \<open>undefined\<close>, which every use below feeds into arithmetic, where it counts as NaN.\<close>

definition component :: "number list \<Rightarrow> nat \<Rightarrow> number" where
  "component xs i = (if i < length xs then xs ! i else NaN)"

section \<open>Tensor values of the numeric backend\<close>

text \<open>
  A tensor value is its shape and its values in row-major order, as the backend stores
  them. The operations below follow the backend's documented behaviour for the calls the
  source makes; a failed shape or argument assertion is an error value.
\<close>

record tensor =
  shape :: "nat list"
  vals :: "number list"

datatype error =
    TensorDisposed      \<comment> \<open>a released tensor was used\<close>
  | UnknownTensor       \<comment> \<open>a handle the engine never issued\<close>
  | ShapeMismatch       \<comment> \<open>a shape or rank assertion of the backend failed\<close>
  | InvalidArgument     \<comment> \<open>an argument assertion of the backend failed\<close>
  | TypeError           \<comment> \<open>a property or method of \<open>null\<close> was used\<close>

definition scalar :: "number \<Rightarrow> tensor" where
  "scalar x = \<lparr>shape = [], vals = [x]\<rparr>"

definition tensor1d :: "number list \<Rightarrow> tensor" where
  "tensor1d xs = \<lparr>shape = [length xs], vals = xs\<rparr>"

definition tensor2d :: "number list \<Rightarrow> nat \<times> nat \<Rightarrow> error + tensor" where
  "tensor2d xs shp =
     (if length xs = fst shp * snd shp then Inr \<lparr>shape = [fst shp, snd shp], vals = xs\<rparr>
      else Inl ShapeMismatch)"

text \<open>A tensor given as plain JavaScript numbers is converted to 32-bit floats.\<close>

definition to_float32 :: "arith \<Rightarrow> tensor \<Rightarrow> tensor" where
  "to_float32 ar t = t\<lparr>vals := map (store (float32 ar)) (vals t)\<rparr>"

definition wf_tensor :: "tensor \<Rightarrow> bool" where
  "wf_tensor t = (length (vals t) = prod_list (shape t))"

subsection \<open>Slicing\<close>

text \<open>\<open>tf.slice(x, begin, size)\<close> on a rank-2 tensor. A size of \<open>-1\<close> means
  "to the end of the axis"; any other negative size is rejected, and so is a slice that
  would run over the axis.\<close>

definition slice_extent :: "nat \<Rightarrow> nat \<Rightarrow> int \<Rightarrow> int" where
  "slice_extent n b sz = (if 0 \<le> sz then sz else int n - int b)"

definition slice :: "tensor \<Rightarrow> nat \<times> nat \<Rightarrow> int \<times> int \<Rightarrow> error + tensor" where
  "slice x begin sz =
     (case shape x of
        [r, c] \<Rightarrow>
          (let b0 = fst begin; b1 = snd begin;
               s0 = slice_extent r b0 (fst sz); s1 = slice_extent c b1 (snd sz)
           in if fst sz < -1 \<or> snd sz < -1 \<or> s0 < 0 \<or> s1 < 0
                 \<or> int b0 + s0 > int r \<or> int b1 + s1 > int c
              then Inl ShapeMismatch
              else Inr \<lparr>shape = [nat s0, nat s1],
                        vals = concat (map (\<lambda>i. take (nat s1) (drop (i * c + b1) (vals x)))
                                           [b0 ..< b0 + nat s0])\<rparr>)
      | _ \<Rightarrow> Inl ShapeMismatch)"

subsection \<open>Concatenation of rank-2 tensors\<close>

definition rows_of :: "tensor \<Rightarrow> nat" where
  "rows_of t = (case shape t of r # _ \<Rightarrow> r | [] \<Rightarrow> 0)"

definition cols_of :: "tensor \<Rightarrow> nat" where
  "cols_of t = (case shape t of [_, c] \<Rightarrow> c | _ \<Rightarrow> 0)"

definition row :: "tensor \<Rightarrow> nat \<Rightarrow> number list" where
  "row t i = take (cols_of t) (drop (i * cols_of t) (vals t))"

definition concat2d :: "tensor list \<Rightarrow> nat \<Rightarrow> error + tensor" where
  "concat2d ts axis =
     (case ts of
        [] \<Rightarrow> Inl InvalidArgument
      | t # _ \<Rightarrow>
          if \<exists>u \<in> set ts. length (shape u) \<noteq> 2 then Inl ShapeMismatch
          else if axis = 0 then
            (if \<exists>u \<in> set ts. cols_of u \<noteq> cols_of t then Inl ShapeMismatch
             else Inr \<lparr>shape = [sum_list (map rows_of ts), cols_of t],
                       vals = concat (map vals ts)\<rparr>)
          else if axis = 1 then
            (if \<exists>u \<in> set ts. rows_of u \<noteq> rows_of t then Inl ShapeMismatch
             else Inr \<lparr>shape = [rows_of t, sum_list (map cols_of ts)],
                       vals = concat (map (\<lambda>i. concat (map (\<lambda>u. row u i) ts))
                                          [0 ..< rows_of t])\<rparr>)
          else Inl InvalidArgument)"

subsection \<open>Transposition\<close>

text \<open>\<open>x.transpose()\<close> without a permutation reverses the axes. The source applies it
  only to the result of \<open>concat2d\<close>, which has rank 2.\<close>

definition transpose2d :: "tensor \<Rightarrow> error + tensor" where
  "transpose2d x =
     (case shape x of
        [r, c] \<Rightarrow>
          Inr \<lparr>shape = [c, r],
               vals = concat (map (\<lambda>j. concat (map (\<lambda>i. take 1 (drop (i * c + j) (vals x)))
                                                    [0 ..< r]))
                                  [0 ..< c])\<rparr>
      | _ \<Rightarrow> Inl ShapeMismatch)"

subsection \<open>Elementwise arithmetic with broadcasting\<close>

text \<open>Shapes are aligned at their last axes; two extents are compatible when they are
  equal or one of them is 1.\<close>

fun broadcast_rev :: "nat list \<Rightarrow> nat list \<Rightarrow> nat list option" where
  "broadcast_rev [] ys = Some ys"
| "broadcast_rev xs [] = Some xs"
| "broadcast_rev (a # xs) (b # ys) =
     (case broadcast_rev xs ys of
        None \<Rightarrow> None
      | Some zs \<Rightarrow>
          if a = 1 then Some (b # zs)
          else if b = 1 then Some (a # zs)
          else if a \<noteq> b then None
          else Some (a # zs))"

definition broadcast_shape :: "nat list \<Rightarrow> nat list \<Rightarrow> nat list option" where
  "broadcast_shape xs ys = map_option rev (broadcast_rev (rev xs) (rev ys))"

text \<open>\<open>expand shp target vs\<close> lays the values \<open>vs\<close> of a tensor of shape \<open>shp\<close>
  out over the shape \<open>target\<close> it is broadcast to.\<close>

fun expand :: "nat list \<Rightarrow> nat list \<Rightarrow> number list \<Rightarrow> number list" where
  "expand shp [] vs = vs"
| "expand shp (t # ts) vs =
     (if length shp < Suc (length ts) then concat (replicate t (expand shp ts vs))
      else (case shp of
              [] \<Rightarrow> vs
            | d # ds \<Rightarrow>
                if d = t
                then concat (map (\<lambda>i. expand ds ts (take (prod_list ds) (drop (i * prod_list ds) vs)))
                                 [0 ..< t])
                else concat (replicate t (expand ds ts vs))))"

definition binop :: "(number \<Rightarrow> number \<Rightarrow> number) \<Rightarrow> tensor \<Rightarrow> tensor \<Rightarrow> error + tensor" where
  "binop f a b =
     (case broadcast_shape (shape a) (shape b) of
        None \<Rightarrow> Inl ShapeMismatch
      | Some out \<Rightarrow>
          Inr \<lparr>shape = out,
               vals = map2 f (expand (shape a) out (vals a)) (expand (shape b) out (vals b))\<rparr>)"

section \<open>The engine: tensor handles, allocation and release\<close>

text \<open>
  The source works on tensor handles. A handle is an index into the engine's table of
  tensors; releasing a tensor marks its entry, it does not remove it (the shape stays
  readable, the values do not). Handles are never reused. An operation runs in a state of
  the engine and returns its result, or the failure it raised, together with the new
  state.
\<close>

record slot =
  content :: tensor
  isDisposed :: bool

type_synonym engine = "slot list"

type_synonym 'a tf = "engine \<Rightarrow> (error + 'a) \<times> engine"

definition tf_return :: "'a \<Rightarrow> 'a tf" where
  "tf_return x = (\<lambda>s. (Inr x, s))"

definition tf_throw :: "error \<Rightarrow> 'a tf" where
  "tf_throw e = (\<lambda>s. (Inl e, s))"

definition tf_lift :: "error + 'a \<Rightarrow> 'a tf" where
  "tf_lift r = (\<lambda>s. (r, s))"

definition tf_bind :: "'a tf \<Rightarrow> ('a \<Rightarrow> 'b tf) \<Rightarrow> 'b tf" where
  "tf_bind m f = (\<lambda>s. case m s of (Inl e, s') \<Rightarrow> (Inl e, s') | (Inr x, s') \<Rightarrow> f x s')"

text \<open>An operand of an operation: a tensor handle, the tensor that the backend makes of a
  plain array or number for the duration of the operation, or \<open>null\<close>.\<close>

datatype arg = Ref nat | Lit tensor | Null

definition deref :: "arg \<Rightarrow> tensor tf" where
  "deref a = (\<lambda>s.
     case a of
       Null \<Rightarrow> (Inl InvalidArgument, s)
     | Lit t \<Rightarrow> (Inr t, s)
     | Ref i \<Rightarrow>
         if i < length s
         then (if isDisposed (s ! i) then (Inl TensorDisposed, s) else (Inr (content (s ! i)), s))
         else (Inl UnknownTensor, s))"

fun deref_all :: "arg list \<Rightarrow> tensor list tf" where
  "deref_all [] = tf_return []"
| "deref_all (a # as) =
     tf_bind (deref a) (\<lambda>t. tf_bind (deref_all as) (\<lambda>ts. tf_return (t # ts)))"

definition alloc :: "tensor \<Rightarrow> nat tf" where
  "alloc t = (\<lambda>s. (Inr (length s), s @ [\<lparr>content = t, isDisposed = False\<rparr>]))"

definition dispose :: "nat \<Rightarrow> unit tf" where
  "dispose i = (\<lambda>s. (Inr (), if i < length s then s[i := (s ! i)\<lparr>isDisposed := True\<rparr>] else s))"

definition dataSync :: "nat \<Rightarrow> number list tf" where
  "dataSync i = tf_bind (deref (Ref i)) (\<lambda>t. tf_return (vals t))"

text \<open>The \<open>shape\<close> property of a handle is readable after release as well.\<close>

definition shapeOf :: "nat \<Rightarrow> nat list tf" where
  "shapeOf i = (\<lambda>s. if i < length s then (Inr (shape (content (s ! i))), s)
                     else (Inl UnknownTensor, s))"

definition tf_binop :: "(number \<Rightarrow> number \<Rightarrow> number) \<Rightarrow> arg \<Rightarrow> arg \<Rightarrow> nat tf" where
  "tf_binop f a b =
     tf_bind (deref a) (\<lambda>x. tf_bind (deref b) (\<lambda>y. tf_bind (tf_lift (binop f x y)) alloc))"

definition tf_add :: "arith \<Rightarrow> arg \<Rightarrow> arg \<Rightarrow> nat tf" where
  "tf_add ar = tf_binop (num_add (float32 ar))"

definition tf_sub :: "arith \<Rightarrow> arg \<Rightarrow> arg \<Rightarrow> nat tf" where
  "tf_sub ar = tf_binop (num_sub (float32 ar))"

definition tf_mul :: "arith \<Rightarrow> arg \<Rightarrow> arg \<Rightarrow> nat tf" where
  "tf_mul ar = tf_binop (num_mul (float32 ar))"

definition tf_div :: "arith \<Rightarrow> arg \<Rightarrow> arg \<Rightarrow> nat tf" where
  "tf_div ar = tf_binop (num_div (float32 ar))"

definition tf_slice :: "arg \<Rightarrow> nat \<times> nat \<Rightarrow> int \<times> int \<Rightarrow> nat tf" where
  "tf_slice a begin sz = tf_bind (deref a) (\<lambda>x. tf_bind (tf_lift (slice x begin sz)) alloc)"

definition tf_concat2d :: "arg list \<Rightarrow> nat \<Rightarrow> nat tf" where
  "tf_concat2d as axis =
     tf_bind (deref_all as) (\<lambda>ts. tf_bind (tf_lift (concat2d ts axis)) alloc)"

definition tf_transpose :: "arg \<Rightarrow> nat tf" where
  "tf_transpose a = tf_bind (deref a) (\<lambda>x. tf_bind (tf_lift (transpose2d x)) alloc)"

definition tf_tensor2d :: "arith \<Rightarrow> number list \<Rightarrow> nat \<times> nat \<Rightarrow> nat tf" where
  "tf_tensor2d ar xs shp =
     tf_bind (tf_lift (tensor2d xs shp)) (\<lambda>t. alloc (to_float32 ar t))"

text \<open>
  \<open>tf.image.cropAndResize(image, boxes, boxInd, cropSize)\<close>: the backend checks its
  arguments and returns a tensor of shape \<open>[numBoxes, cropHeight, cropWidth, depth]\<close>.
  The resampled values are left to the parameter \<open>sampler\<close>, which receives exactly
  what the primitive is handed.
\<close>

type_synonym sampler = "tensor \<Rightarrow> tensor \<Rightarrow> nat list \<Rightarrow> int \<times> int \<Rightarrow> number list"

definition cropAndResize ::
  "sampler \<Rightarrow> arg \<Rightarrow> arg \<Rightarrow> nat list \<Rightarrow> int \<times> int \<Rightarrow> nat tf" where
  "cropAndResize sampler image' boxes boxInd cropSize =
     tf_bind (deref image') (\<lambda>img. tf_bind (deref boxes) (\<lambda>bxs.
       if length (shape img) \<noteq> 4 then tf_throw ShapeMismatch
       else if \<not> (length (shape bxs) = 2 \<and> shape bxs ! 1 = 4) then tf_throw ShapeMismatch
       else if length boxInd \<noteq> shape bxs ! 0 then tf_throw ShapeMismatch
       else if \<not> (fst cropSize \<ge> 1 \<and> snd cropSize \<ge> 1) then tf_throw InvalidArgument
       else alloc \<lparr>shape = [shape bxs ! 0, nat (fst cropSize), nat (snd cropSize), shape img ! 3],
                   vals = sampler img bxs boxInd cropSize\<rparr>))"

text \<open>
  \<open>tf.tidy(fn)\<close> runs \<open>fn\<close> and then releases every tensor allocated during the
  run, except the tensors of the result. When \<open>fn\<close> fails, all of them are released and
  the failure is passed on.
\<close>

definition sweep :: "nat \<Rightarrow> nat list \<Rightarrow> engine \<Rightarrow> engine" where
  "sweep from kept s =
     map (\<lambda>i. if from \<le> i \<and> i \<notin> set kept then (s ! i)\<lparr>isDisposed := True\<rparr> else s ! i)
         [0 ..< length s]"

definition tidy :: "('a \<Rightarrow> nat list) \<Rightarrow> 'a tf \<Rightarrow> 'a tf" where
  "tidy tensors_in body = (\<lambda>s.
     case body s of
       (Inl e, s') \<Rightarrow> (Inl e, sweep (length s) [] s')
     | (Inr x, s') \<Rightarrow> (Inr x, sweep (length s) (tensors_in x) s'))"

section \<open>The bounding box (box.ts)\<close>

text \<open>
  \<open>Box\<close> holds handles. \<open>disposeBox\<close> tests \<open>startPoint\<close> against \<open>null\<close>, so
  that field may be absent; \<open>landmarks\<close> is optional and of no fixed type. No function
  of the source assigns to a field of a Box, so a Box is a value here.
\<close>

text \<open>The fields of \<open>cpuBox\<close> carry the prefix \<open>host\<close>, which keeps them apart from
  the fields of \<open>Box\<close>.\<close>

record cpuBox =
  hostStartPoint :: "number \<times> number"
  hostEndPoint :: "number \<times> number"
  hostLandmarks :: "(number \<times> number) list option"

record 'l Box =
  startPoint :: "nat option"
  endPoint :: nat
  startEndTensor :: nat
  landmarks :: "'l option"

definition opt_ref :: "nat option \<Rightarrow> arg" where
  "opt_ref h = (case h of None \<Rightarrow> Null | Some i \<Rightarrow> Ref i)"

definition box_tensors :: "'l Box \<Rightarrow> nat list" where
  "box_tensors b = (case startPoint b of None \<Rightarrow> [] | Some p \<Rightarrow> [p]) @ [endPoint b, startEndTensor b]"

definition disposeBox :: "'l Box option \<Rightarrow> unit tf" where
  "disposeBox box =
     (case box of
        None \<Rightarrow> tf_return ()
      | Some b \<Rightarrow>
          (case startPoint b of
             None \<Rightarrow> tf_return ()
           | Some p \<Rightarrow>
               tf_bind (dispose (startEndTensor b)) (\<lambda>_.
               tf_bind (dispose p) (\<lambda>_.
               dispose (endPoint b)))))"

definition createBox :: "nat \<Rightarrow> nat option \<Rightarrow> nat option \<Rightarrow> 'l Box tf" where
  "createBox startEndTensor' startPoint' endPoint' =
     tf_bind (case startPoint' of
                Some p \<Rightarrow> tf_return p
              | None \<Rightarrow> tf_slice (Ref startEndTensor') (0, 0) (-1, 2)) (\<lambda>p.
     tf_bind (case endPoint' of
                Some q \<Rightarrow> tf_return q
              | None \<Rightarrow> tf_slice (Ref startEndTensor') (0, 2) (-1, 2)) (\<lambda>q.
     tf_return \<lparr>startPoint = Some p, endPoint = q, startEndTensor = startEndTensor',
                landmarks = None\<rparr>))"

text \<open>The factor of \<open>scaleBoxCoordinates\<close> is a rank-1 tensor or a pair of numbers.\<close>

datatype factor = FactorTensor nat | FactorPair number number

definition factor_arg :: "arith \<Rightarrow> factor \<Rightarrow> arg" where
  "factor_arg ar f =
     (case f of
        FactorTensor i \<Rightarrow> Ref i
      | FactorPair a b \<Rightarrow> Lit (to_float32 ar (tensor1d [a, b])))"

definition scaleBoxCoordinates :: "arith \<Rightarrow> 'l Box \<Rightarrow> factor \<Rightarrow> 'm Box tf" where
  "scaleBoxCoordinates ar box f =
     tf_bind (tf_mul ar (opt_ref (startPoint box)) (factor_arg ar f)) (\<lambda>newStart.
     tf_bind (tf_mul ar (Ref (endPoint box)) (factor_arg ar f)) (\<lambda>newEnd.
     tf_bind (tf_concat2d [Ref newStart, Ref newEnd] 1) (\<lambda>c.
     createBox c None None)))"

definition getBoxSize :: "arith \<Rightarrow> cpuBox \<Rightarrow> number \<times> number" where
  "getBoxSize ar box =
     (num_abs (num_sub (float64 ar) (fst (hostEndPoint box)) (fst (hostStartPoint box))),
      num_abs (num_sub (float64 ar) (snd (hostEndPoint box)) (snd (hostStartPoint box))))"

definition getBoxCenter :: "arith \<Rightarrow> cpuBox \<Rightarrow> number \<times> number" where
  "getBoxCenter ar box =
     (num_add (float64 ar) (fst (hostStartPoint box))
        (num_div (float64 ar)
           (num_sub (float64 ar) (fst (hostEndPoint box)) (fst (hostStartPoint box))) (Fin 2)),
      num_add (float64 ar) (snd (hostStartPoint box))
        (num_div (float64 ar)
           (num_sub (float64 ar) (snd (hostEndPoint box)) (snd (hostStartPoint box))) (Fin 2)))"

text \<open>A shape component as a number; a component the shape does not have is
  \<open>undefined\<close>.\<close>

definition shape_component :: "nat list \<Rightarrow> nat \<Rightarrow> number" where
  "shape_component shp i = (if i < length shp then Fin (real (shp ! i)) else NaN)"

definition cutBoxFromImageAndResize ::
  "arith \<Rightarrow> sampler \<Rightarrow> 'l Box \<Rightarrow> nat \<Rightarrow> int \<times> int \<Rightarrow> nat tf" where
  "cutBoxFromImageAndResize ar sampler box image' cropSize =
     tf_bind (shapeOf image') (\<lambda>shp.
       let height = shape_component shp 1;
           width = shape_component shp 2;
           xyxy = startEndTensor box
       in tidy (\<lambda>r. [r])
            (tf_bind (tf_slice (Ref xyxy) (0, 1) (-1, 1)) (\<lambda>y0.
             tf_bind (tf_slice (Ref xyxy) (0, 0) (-1, 1)) (\<lambda>x0.
             tf_bind (tf_slice (Ref xyxy) (0, 3) (-1, 1)) (\<lambda>y1.
             tf_bind (tf_slice (Ref xyxy) (0, 2) (-1, 1)) (\<lambda>x1.
             tf_bind (tf_concat2d [Ref y0, Ref x0, Ref y1, Ref x1] 0) (\<lambda>yxyx.
             tf_bind (tf_transpose (Ref yxyx)) (\<lambda>yxyxT.
             tf_bind (tf_div ar (Ref yxyxT)
                        (Lit (to_float32 ar (tensor1d [height, width, height, width]))))
               (\<lambda>roundedCoords.
             cropAndResize sampler (Ref image') (Ref roundedCoords) [0] cropSize)))))))))"

text \<open>\<open>dataSync()\<close> yields the values as an array, which the source reads as a pair.\<close>

definition as_pair :: "number list \<Rightarrow> number \<times> number" where
  "as_pair xs = (component xs 0, component xs 1)"

definition enlargeBox :: "arith \<Rightarrow> 'l Box \<Rightarrow> number option \<Rightarrow> 'm Box tf" where
  "enlargeBox ar box factor' =
     (let factor = (case factor' of None \<Rightarrow> Fin 1.5 | Some f \<Rightarrow> f)
      in tidy box_tensors
           (case startPoint box of
              None \<Rightarrow> tf_throw TypeError
            | Some sp \<Rightarrow>
                tf_bind (dataSync sp) (\<lambda>s.
                tf_bind (dataSync (endPoint box)) (\<lambda>e.
                  let boxCPU = \<lparr>hostStartPoint = as_pair s, hostEndPoint = as_pair e,
                                 hostLandmarks = None\<rparr>;
                      center = getBoxCenter ar boxCPU;
                      sz = getBoxSize ar boxCPU
                  in tf_bind (tf_tensor2d ar [fst sz, snd sz] (1, 2)) (\<lambda>size'.
                     tf_bind (tf_div ar (Ref size') (Lit (to_float32 ar (scalar (Fin 2))))) (\<lambda>half.
                     tf_bind (tf_mul ar (Ref half) (Lit (to_float32 ar (scalar factor)))) (\<lambda>newSize.
                     tf_bind (tf_sub ar (Lit (to_float32 ar (tensor1d [fst center, snd center])))
                                (Ref newSize))
                       (\<lambda>newStart.
                     tf_bind (tf_add ar (Lit (to_float32 ar (tensor1d [fst center, snd center])))
                                (Ref newSize))
                       (\<lambda>newEnd.
                     tf_bind (tf_concat2d [Ref newStart, Ref newEnd] 1) (\<lambda>c.
                     createBox c (Some newStart) (Some newEnd)))))))))))"

section \<open>Notions used in the statements\<close>

text \<open>\<open>holds s i t\<close>: in the engine state \<open>s\<close>, handle \<open>i\<close> is allocated, not
  released, and its tensor is \<open>t\<close>. \<open>fresh t\<close> is the table entry of a newly allocated
  tensor.\<close>

definition holds :: "engine \<Rightarrow> nat \<Rightarrow> tensor \<Rightarrow> bool" where
  "holds s i t = (i < length s \<and> \<not> isDisposed (s ! i) \<and> content (s ! i) = t)"

definition fresh :: "tensor \<Rightarrow> slot" where
  "fresh t = \<lparr>content = t, isDisposed = False\<rparr>"

text \<open>\<open>live s i\<close>: handle \<open>i\<close> is allocated and not released in \<open>s\<close>.\<close>

definition live :: "engine \<Rightarrow> nat \<Rightarrow> bool" where
  "live s i = (i < length s \<and> \<not> isDisposed (s ! i))"

text \<open>The entry in row \<open>i\<close> and column \<open>j\<close> of a rank-2 tensor.\<close>

definition entry :: "tensor \<Rightarrow> nat \<Rightarrow> nat \<Rightarrow> number" where
  "entry t i j = component (vals t) (i * cols_of t + j)"

text \<open>A number that is not below zero: a finite one from 0 on, or \<open>+\<infinity>\<close>. NaN is not.\<close>

fun is_nonneg :: "number \<Rightarrow> bool" where
  "is_nonneg (Fin x) = (0 \<le> x)"
| "is_nonneg PInf = True"
| "is_nonneg NInf = False"
| "is_nonneg NaN = False"


text \<open>
  A Box whose fields are mutually consistent in the state \<open>s\<close>: the combined buffer has
  four columns, and \<open>startPoint\<close> and \<open>endPoint\<close> hold its first two and its last two
  columns, as \<open>createBox\<close> derives them.
\<close>

definition consistent :: "engine \<Rightarrow> 'l Box \<Rightarrow> bool" where
  "consistent s b =
     (case startPoint b of
        None \<Rightarrow> False
      | Some p \<Rightarrow>
          (let x = content (s ! startEndTensor b)
           in live s (startEndTensor b) \<and> wf_tensor x \<and> length (shape x) = 2 \<and> cols_of x = 4
              \<and> live s p \<and> slice x (0, 0) (-1, 2) = Inr (content (s ! p))
              \<and> live s (endPoint b) \<and> slice x (0, 2) (-1, 2) = Inr (content (s ! endPoint b))))"

text \<open>The table entry of a tensor that has been released.\<close>

definition released :: "tensor \<Rightarrow> slot" where
  "released t = \<lparr>content = t, isDisposed = True\<rparr>"

text \<open>The factor of \<open>scaleBoxCoordinates\<close> converts to the tensor \<open>t\<close> in state \<open>s\<close>.\<close>

definition factor_holds :: "arith \<Rightarrow> engine \<Rightarrow> factor \<Rightarrow> tensor \<Rightarrow> bool" where
  "factor_holds ar s f t =
     (case f of
        FactorPair a b \<Rightarrow> t = to_float32 ar (tensor1d [a, b])
      | FactorTensor i \<Rightarrow> holds s i t)"

text \<open>
  The host-memory copy of a Box, read as \<open>enlargeBox\<close> reads it: the first two values of
  \<open>startPoint\<close> and of \<open>endPoint\<close>, provided both tensors are readable.
\<close>

definition hostBox :: "engine \<Rightarrow> 'l Box \<Rightarrow> cpuBox option" where
  "hostBox s b =
     (case startPoint b of
        None \<Rightarrow> None
      | Some p \<Rightarrow>
          if live s p \<and> live s (endPoint b)
          then Some \<lparr>hostStartPoint = as_pair (vals (content (s ! p))),
                     hostEndPoint = as_pair (vals (content (s ! endPoint b))),
                     hostLandmarks = None\<rparr>
          else None)"

text \<open>
  \<open>preserved s s'\<close>: the state \<open>s'\<close> begins with \<open>s\<close>, so every handle of \<open>s\<close> has
  in \<open>s'\<close> the tensor and the release mark it had in \<open>s\<close>. \<open>fresh_in s s' i\<close>: handle
  \<open>i\<close> does not exist in \<open>s\<close>, exists in \<open>s'\<close> and is not released there.
  \<open>preserves m\<close>: the operation \<open>m\<close> preserves every state it runs in.
\<close>

definition preserved :: "engine \<Rightarrow> engine \<Rightarrow> bool" where
  "preserved s s' = (length s \<le> length s' \<and> take (length s) s' = s)"

definition fresh_in :: "engine \<Rightarrow> engine \<Rightarrow> nat \<Rightarrow> bool" where
  "fresh_in s s' i = (length s \<le> i \<and> i < length s' \<and> \<not> isDisposed (s' ! i))"

definition preserves :: "'a tf \<Rightarrow> bool" where
  "preserves m = (\<forall>s. preserved s (snd (m s)))"

text \<open>A finite number in the interval from 0 to 1.\<close>

fun in_unit :: "number \<Rightarrow> bool" where
  "in_unit (Fin x) = (0 \<le> x \<and> x \<le> 1)"
| "in_unit _ = False"

text \<open>
  \<open>exact_on r xs\<close>: the rounding \<open>r\<close> leaves each of the values \<open>xs\<close> as it is, so an
  operation whose exact result is one of them does not round. \<open>keeps_unit r\<close>: rounding
  a value between 0 and 1 gives a value between 0 and 1, as every rounding does that
  keeps the order of values and stores 0 and 1 exactly.
\<close>

definition exact_on :: "rounding \<Rightarrow> real list \<Rightarrow> bool" where
  "exact_on r xs = list_all (\<lambda>x. r x = Some x) xs"

definition keeps_unit :: "rounding \<Rightarrow> bool" where
  "keeps_unit r = (\<forall>q. 0 \<le> q \<and> q \<le> 1 \<longrightarrow> (\<exists>u. r q = Some u \<and> 0 \<le> u \<and> u \<le> 1))"

text \<open>
  What \<open>enlargeBox\<close> subtracts from and adds to the center on one axis: half the size
  times the factor, computed on 32-bit floats.
\<close>

definition newSize :: "arith \<Rightarrow> number \<Rightarrow> number \<Rightarrow> number" where
  "newSize ar sz k =
     num_mul (float32 ar)
       (num_div (float32 ar) (store (float32 ar) sz) (store (float32 ar) (Fin 2)))
       (store (float32 ar) k)"

text \<open>
  The exact results of the arithmetic steps that \<open>enlargeBox\<close> makes on one axis with
  start \<open>a\<close>, end \<open>b\<close> and factor \<open>k\<close>, followed by the steps of \<open>getBoxSize\<close> and
  \<open>getBoxCenter\<close> on its result. On 64-bit floats: the difference, its half and the
  center of the input; the difference of the new end and start, and its half. On 32-bit
  floats: the size, the literal 2, the half size, the factor, their product, the center,
  and the new start and end.
\<close>

definition enlarge_steps64 :: "real \<Rightarrow> real \<Rightarrow> real \<Rightarrow> real list" where
  "enlarge_steps64 a b k =
     [b - a, (b - a) / 2, a + (b - a) / 2, 2 * (\<bar>b - a\<bar> / 2 * k), \<bar>b - a\<bar> / 2 * k]"

definition enlarge_steps32 :: "real \<Rightarrow> real \<Rightarrow> real \<Rightarrow> real list" where
  "enlarge_steps32 a b k =
     [\<bar>b - a\<bar>, 2, \<bar>b - a\<bar> / 2, k, \<bar>b - a\<bar> / 2 * k, a + (b - a) / 2,
      a + (b - a) / 2 - \<bar>b - a\<bar> / 2 * k, a + (b - a) / 2 + \<bar>b - a\<bar> / 2 * k]"

section \<open>Running the operations of the engine\<close>

lemma holds_append: "holds s i t \<Longrightarrow> holds (s @ xs) i t"
  by (simp add: holds_def nth_append)

lemma holds_fresh: "holds (s @ fresh t # xs) (length s) t"
  by (simp add: holds_def fresh_def)

lemma deref_holds: "holds s i t \<Longrightarrow> deref (Ref i) s = (Inr t, s)"
  by (simp add: holds_def deref_def)

lemma deref_Lit: "deref (Lit t) s = (Inr t, s)"
  by (simp add: deref_def)

lemma alloc_fresh: "alloc t s = (Inr (length s), s @ [fresh t])"
  by (simp add: alloc_def fresh_def)

lemma tf_slice_run:
  "deref a s = (Inr x, s) \<Longrightarrow> slice x b z = Inr t \<Longrightarrow>
   tf_slice a b z s = (Inr (length s), s @ [fresh t])"
  by (simp add: tf_slice_def tf_bind_def tf_lift_def alloc_fresh)

lemma tf_binop_run:
  "deref a s = (Inr x, s) \<Longrightarrow> deref b s = (Inr y, s) \<Longrightarrow> binop f x y = Inr t \<Longrightarrow>
   tf_binop f a b s = (Inr (length s), s @ [fresh t])"
  by (simp add: tf_binop_def tf_bind_def tf_lift_def alloc_fresh)

lemma tf_concat2d_run:
  "deref_all as s = (Inr ts, s) \<Longrightarrow> concat2d ts axis = Inr t \<Longrightarrow>
   tf_concat2d as axis s = (Inr (length s), s @ [fresh t])"
  by (simp add: tf_concat2d_def tf_bind_def tf_lift_def alloc_fresh)

lemma tf_transpose_run:
  "deref a s = (Inr x, s) \<Longrightarrow> transpose2d x = Inr t \<Longrightarrow>
   tf_transpose a s = (Inr (length s), s @ [fresh t])"
  by (simp add: tf_transpose_def tf_bind_def tf_lift_def alloc_fresh)

lemma deref_all_Nil: "deref_all [] s = (Inr [], s)"
  by (simp add: tf_return_def)

lemma deref_all_Cons:
  "deref a s = (Inr t, s) \<Longrightarrow> deref_all as s = (Inr ts, s) \<Longrightarrow>
   deref_all (a # as) s = (Inr (t # ts), s)"
  by (simp add: tf_bind_def tf_return_def)

lemma slice_cols:
  "shape x = [n, c] \<Longrightarrow> b + w \<le> c \<Longrightarrow>
   slice x (0, b) (-1, int w)
     = Inr \<lparr>shape = [n, w],
            vals = concat (map (\<lambda>i. take w (drop (i * c + b) (vals x))) [0 ..< n])\<rparr>"
  by (simp add: slice_def slice_extent_def)

lemma createBox_derive:
  assumes "holds s ste x" "slice x (0, 0) (-1, 2) = Inr a" "slice x (0, 2) (-1, 2) = Inr b"
  shows "createBox ste None None s
           = (Inr \<lparr>startPoint = Some (length s), endPoint = Suc (length s),
                    startEndTensor = ste, landmarks = None\<rparr>,
              s @ [fresh a, fresh b])"
proof -
  have 1: "tf_slice (Ref ste) (0, 0) (-1, 2) s = (Inr (length s), s @ [fresh a])"
    using assms by (simp add: tf_slice_run deref_holds)
  have "holds (s @ [fresh a]) ste x"
    using assms(1) by (rule holds_append)
  then have 2: "tf_slice (Ref ste) (0, 2) (-1, 2) (s @ [fresh a])
                  = (Inr (Suc (length s)), s @ [fresh a, fresh b])"
    using assms(3) tf_slice_run [of "Ref ste" "s @ [fresh a]" x "(0, 2)" "(-1, 2)" b]
    by (simp add: deref_holds)
  show ?thesis
    unfolding createBox_def by (simp add: tf_bind_def 1 2 tf_return_def)
qed

section \<open>Slicing and concatenating columns\<close>

lemma length_concat_uniform:
  "\<forall>x \<in> set xss. length x = k \<Longrightarrow> length (concat xss) = length xss * k"
  by (induction xss) auto

lemma block_of_concat:
  "\<forall>x \<in> set xss. length x = k \<Longrightarrow> i < length xss \<Longrightarrow>
   take k (drop (i * k) (concat xss)) = xss ! i"
proof (induction xss arbitrary: i)
  case Nil
  then show ?case by simp
next
  case (Cons x xss)
  show ?case
  proof (cases i)
    case 0
    with Cons.prems show ?thesis by simp
  next
    case (Suc m)
    with Cons.prems have "m < length xss" by simp
    with Cons have "take k (drop (m * k) (concat xss)) = xss ! m" by simp
    with Suc Cons.prems show ?thesis by simp
  qed
qed

lemma concat_blocks:
  "concat (map (\<lambda>i. take c (drop (i * c) v)) [0 ..< n]) = take (n * c) v"
proof (induction n)
  case 0
  then show ?case by simp
next
  case (Suc n)
  have "take (n * c) v @ take c (drop (n * c) v) = take (n * c + c) v"
    by (simp add: take_add)
  with Suc show ?case by (simp add: add.commute)
qed

lemma length_block:
  "length v = n * c \<Longrightarrow> i < n \<Longrightarrow> b + w \<le> c \<Longrightarrow> length (take w (drop (i * c + b) v)) = w"
proof -
  assume a: "length v = n * c" "i < n" "b + w \<le> c"
  have "Suc i * c \<le> n * c" using a(2) by (intro mult_le_mono1) simp
  then have "i * c + c \<le> n * c" by simp
  with a show ?thesis by simp
qed

lemma slice_block:
  assumes "length v = n * c" "b + w \<le> c" "i < n"
  shows "take w (drop (i * w) (concat (map (\<lambda>i. take w (drop (i * c + b) v)) [0 ..< n])))
           = take w (drop (i * c + b) v)"
proof -
  let ?xss = "map (\<lambda>i. take w (drop (i * c + b) v)) [0 ..< n]"
  have "\<forall>x \<in> set ?xss. length x = w"
  proof
    fix x assume "x \<in> set ?xss"
    then obtain m where "m < n" "x = take w (drop (m * c + b) v)" by auto
    then show "length x = w"
      using length_block [OF assms(1) _ assms(2), of m] by blast
  qed
  moreover have "i < length ?xss" using assms(3) by simp
  ultimately have "take w (drop (i * w) (concat ?xss)) = ?xss ! i"
    by (rule block_of_concat)
  with assms(3) show ?thesis by simp
qed

lemma concat2d_of_slices:
  assumes "wf_tensor x" "shape x = [n, 4]"
    and "slice x (0, 0) (-1, 2) = Inr a" "slice x (0, 2) (-1, 2) = Inr b"
  shows "concat2d [a, b] 1 = Inr x"
proof -
  let ?v = "vals x"
  have len: "length ?v = n * 4" using assms(1,2) by (simp add: wf_tensor_def)
  have a: "a = \<lparr>shape = [n, 2], vals = concat (map (\<lambda>i. take 2 (drop (i * 4 + 0) ?v)) [0 ..< n])\<rparr>"
    using assms(3) slice_cols [OF assms(2), of 0 2] by simp
  have b: "b = \<lparr>shape = [n, 2], vals = concat (map (\<lambda>i. take 2 (drop (i * 4 + 2) ?v)) [0 ..< n])\<rparr>"
    using assms(4) slice_cols [OF assms(2), of 2 2] by simp
  have ra: "row a i = take 2 (drop (i * 4) ?v)" if "i < n" for i
    using slice_block [OF len, of 0 2 i] that by (simp add: a row_def cols_of_def)
  have rb: "row b i = take 2 (drop (i * 4 + 2) ?v)" if "i < n" for i
    using slice_block [OF len, of 2 2 i] that by (simp add: b row_def cols_of_def)
  have "row a i @ row b i = take 4 (drop (i * 4) ?v)" if "i < n" for i
  proof -
    have "take (2 + 2) (drop (i * 4) ?v) = take 2 (drop (i * 4) ?v) @ take 2 (drop 2 (drop (i * 4) ?v))"
      by (rule take_add)
    then show ?thesis using that by (simp add: ra rb add.commute)
  qed
  then have "map (\<lambda>i. concat (map (\<lambda>u. row u i) [a, b])) [0 ..< n]
               = map (\<lambda>i. take 4 (drop (i * 4) ?v)) [0 ..< n]"
    by (intro map_cong refl) simp
  then have "concat (map (\<lambda>i. concat (map (\<lambda>u. row u i) [a, b])) [0 ..< n])
               = concat (map (\<lambda>i. take 4 (drop (i * 4) ?v)) [0 ..< n])"
    by (rule arg_cong)
  also have "\<dots> = take (n * 4) ?v" by (rule concat_blocks)
  also have "\<dots> = ?v" using len by simp
  finally have v: "concat (map (\<lambda>i. concat (map (\<lambda>u. row u i) [a, b])) [0 ..< n]) = ?v" .
  have shp: "shape a = [n, 2]" "shape b = [n, 2]" by (simp_all add: a b)
  have "concat2d [a, b] 1 = Inr \<lparr>shape = [n, 4], vals = ?v\<rparr>"
    unfolding concat2d_def using v by (simp add: shp rows_of_def cols_of_def)
  then show ?thesis using assms(2) by simp
qed

lemma entry_in_range:
  "i < n \<Longrightarrow> j < (c::nat) \<Longrightarrow> i * c + j < n * c"
proof -
  assume a: "i < n" "j < c"
  have "Suc i * c \<le> n * c" using a(1) by (intro mult_le_mono1) simp
  with a(2) show ?thesis by simp
qed

lemma entry_slice_cols:
  assumes "wf_tensor x" "shape x = [n, c]" "b + w \<le> c"
    and "slice x (0, b) (-1, int w) = Inr a" "i < n" "j < w"
  shows "entry a i j = entry x i (b + j)"
proof -
  let ?v = "vals x"
  let ?xss = "map (\<lambda>i. take w (drop (i * c + b) ?v)) [0 ..< n]"
  have len: "length ?v = n * c" using assms(1,2) by (simp add: wf_tensor_def)
  have a: "a = \<lparr>shape = [n, w], vals = concat ?xss\<rparr>"
    using assms(4) slice_cols [OF assms(2,3)] by simp
  have all: "\<forall>y \<in> set ?xss. length y = w"
  proof
    fix y assume "y \<in> set ?xss"
    then obtain m where "m < n" "y = take w (drop (m * c + b) ?v)" by auto
    then show "length y = w"
      using length_block [OF len _ assms(3), of m] by blast
  qed
  then have "length (concat ?xss) = length ?xss * w" by (rule length_concat_uniform)
  then have la: "length (vals a) = n * w" by (simp add: a)
  have in_a: "i * w + j < n * w" using assms(5,6) by (rule entry_in_range)
  have "b + j < c" using assms(3,6) by simp
  then have in_x: "i * c + (b + j) < n * c" using assms(5) entry_in_range by blast
  have "i * w \<le> n * w" using assms(5) by (intro mult_le_mono1) simp
  then have "i * w \<le> length (vals a)" using la by (simp only:)
  then have "vals a ! (i * w + j) = take w (drop (i * w) (vals a)) ! j"
    using assms(6) by simp
  also have "take w (drop (i * w) (vals a)) = take w (drop (i * c + b) ?v)"
    using slice_block [OF len assms(3,5)] by (simp add: a)
  also have "\<dots> ! j = ?v ! (i * c + (b + j))"
    using assms(6) in_x len by (simp add: add.assoc)
  finally show ?thesis
    using in_a in_x la len assms(2) by (simp add: entry_def component_def a cols_of_def)
qed

lemma wf_slice_cols:
  assumes "wf_tensor x" "shape x = [n, c]" "b + w \<le> c"
    and "slice x (0, b) (-1, int w) = Inr a"
  shows "wf_tensor a \<and> shape a = [n, w]"
proof -
  let ?v = "vals x"
  let ?xss = "map (\<lambda>i. take w (drop (i * c + b) ?v)) [0 ..< n]"
  have len: "length ?v = n * c" using assms(1,2) by (simp add: wf_tensor_def)
  have a: "a = \<lparr>shape = [n, w], vals = concat ?xss\<rparr>"
    using assms(4) slice_cols [OF assms(2,3)] by simp
  have "\<forall>y \<in> set ?xss. length y = w"
  proof
    fix y assume "y \<in> set ?xss"
    then obtain m where "m < n" "y = take w (drop (m * c + b) ?v)" by auto
    then show "length y = w"
      using length_block [OF len _ assms(3), of m] by blast
  qed
  then have "length (concat ?xss) = length ?xss * w" by (rule length_concat_uniform)
  then show ?thesis by (simp add: a wf_tensor_def)
qed

lemma entry_literal:
  "entry \<lparr>shape = [r, c], vals = v\<rparr> i j = component v (i * c + j)"
  by (simp add: entry_def cols_of_def)

lemma createBox_consistent:
  assumes "holds s ste x" "wf_tensor x" "shape x = [n, 4]"
  shows "\<exists>(b :: 'l Box) s'. createBox ste None None s = (Inr b, s') \<and> consistent s' b"
proof -
  obtain a where a: "slice x (0, 0) (-1, 2) = Inr a"
    using slice_cols [OF assms(3), of 0 2] by simp
  obtain c where c: "slice x (0, 2) (-1, 2) = Inr c"
    using slice_cols [OF assms(3), of 2 2] by simp
  let ?b = "\<lparr>startPoint = Some (length s), endPoint = Suc (length s),
                    startEndTensor = ste, landmarks = None :: 'l option\<rparr>"
  have run: "createBox ste None None s = (Inr ?b, s @ [fresh a, fresh c])"
    using assms(1) a c by (rule createBox_derive)
  have "consistent (s @ [fresh a, fresh c]) ?b"
    using assms a c
    by (simp add: consistent_def holds_def live_def nth_append fresh_def cols_of_def)
  with run show ?thesis by blast
qed

section \<open>Small tensors\<close>

lemma small_ranges:
  "[0 ..< 1] = [0]" "[0 ..< 2] = [0, 1]" "[0 ..< 4] = [0, 1, 2, 3]"
  "replicate 2 x = [x, x]" "replicate 4 x = [x, x, x, x]"
  by (simp_all add: upt_rec numeral_eq_Suc)

lemma binop_12_2:
  "binop f \<lparr>shape = [1, 2], vals = [a, b]\<rparr> (tensor1d [x, y])
     = Inr \<lparr>shape = [1, 2], vals = [f a x, f b y]\<rparr>"
  by (simp add: binop_def broadcast_shape_def tensor1d_def small_ranges)

lemma binop_2_12:
  "binop f (tensor1d [x, y]) \<lparr>shape = [1, 2], vals = [a, b]\<rparr>
     = Inr \<lparr>shape = [1, 2], vals = [f x a, f y b]\<rparr>"
  by (simp add: binop_def broadcast_shape_def tensor1d_def small_ranges)

lemma binop_12_scalar:
  "binop f \<lparr>shape = [1, 2], vals = [a, b]\<rparr> (scalar x)
     = Inr \<lparr>shape = [1, 2], vals = [f a x, f b x]\<rparr>"
  by (simp add: binop_def broadcast_shape_def scalar_def small_ranges)

lemma binop_14_4:
  "binop f \<lparr>shape = [1, 4], vals = [a, b, c, d]\<rparr> (tensor1d [x, y, z, w])
     = Inr \<lparr>shape = [1, 4], vals = [f a x, f b y, f c z, f d w]\<rparr>"
  by (simp add: binop_def broadcast_shape_def tensor1d_def small_ranges)

lemma concat2d_12_12:
  "concat2d [\<lparr>shape = [1, 2], vals = [a, b]\<rparr>, \<lparr>shape = [1, 2], vals = [c, d]\<rparr>] 1
     = Inr \<lparr>shape = [1, 4], vals = [a, b, c, d]\<rparr>"
  by (simp add: concat2d_def rows_of_def cols_of_def row_def)

lemma slice_14_start:
  "slice \<lparr>shape = [1, 4], vals = [a, b, c, d]\<rparr> (0, 0) (-1, 2) = Inr \<lparr>shape = [1, 2], vals = [a, b]\<rparr>"
  by (simp add: slice_def slice_extent_def)

lemma slice_14_end:
  "slice \<lparr>shape = [1, 4], vals = [a, b, c, d]\<rparr> (0, 2) (-1, 2) = Inr \<lparr>shape = [1, 2], vals = [c, d]\<rparr>"
  by (simp add: slice_def slice_extent_def)

lemma to_float32_tensor1d:
  "to_float32 ar (tensor1d xs) = tensor1d (map (store (float32 ar)) xs)"
  by (simp add: to_float32_def tensor1d_def)

lemma to_float32_scalar:
  "to_float32 ar (scalar x) = scalar (store (float32 ar) x)"
  by (simp add: to_float32_def scalar_def)

lemma deref_factor:
  "factor_holds ar s f t \<Longrightarrow> deref (factor_arg ar f) s = (Inr t, s)"
  by (cases f) (simp_all add: factor_holds_def factor_arg_def deref_holds deref_Lit)

lemma factor_holds_append: "factor_holds ar s f t \<Longrightarrow> factor_holds ar (s @ xs) f t"
  by (cases f) (simp_all add: factor_holds_def holds_append)

section \<open>Running enlargeBox\<close>

lemma sweep_append:
  "sweep (length s) kept (s @ xs)
     = s @ map (\<lambda>j. if length s + j \<notin> set kept then (xs ! j)\<lparr>isDisposed := True\<rparr> else xs ! j)
               [0 ..< length xs]"
proof (rule nth_equalityI)
  show "length (sweep (length s) kept (s @ xs))
          = length (s @ map (\<lambda>j. if length s + j \<notin> set kept then (xs ! j)\<lparr>isDisposed := True\<rparr> else xs ! j)
               [0 ..< length xs])"
    by (simp add: sweep_def)
next
  fix i assume "i < length (sweep (length s) kept (s @ xs))"
  then have i: "i < length s + length xs" by (simp add: sweep_def)
  show "sweep (length s) kept (s @ xs) ! i
          = (s @ map (\<lambda>j. if length s + j \<notin> set kept then (xs ! j)\<lparr>isDisposed := True\<rparr> else xs ! j)
               [0 ..< length xs]) ! i"
  proof (cases "i < length s")
    case True
    then show ?thesis using i by (simp add: sweep_def nth_append)
  next
    case False
    then have "i - length s < length xs" using i by simp
    with False i show ?thesis by (simp add: sweep_def nth_append)
  qed
qed

lemma dataSync_holds: "holds s i t \<Longrightarrow> dataSync i s = (Inr (vals t), s)"
  by (simp add: dataSync_def tf_bind_def deref_holds tf_return_def)

lemma tf_tensor2d_12:
  "tf_tensor2d ar [a, b] (1, 2) s
     = (Inr (length s),
        s @ [fresh \<lparr>shape = [1, 2], vals = [store (float32 ar) a, store (float32 ar) b]\<rparr>])"
  by (simp add: tf_tensor2d_def tensor2d_def tf_bind_def tf_lift_def alloc_fresh to_float32_def)

lemma deref_last: "deref (Ref (length s)) (s @ [fresh t]) = (Inr t, s @ [fresh t])"
  by (simp add: deref_def fresh_def)

lemma range6: "[0 ..< 6] = [0, 1, 2, 3, 4, 5]"
  by (simp add: upt_rec numeral_eq_Suc)

lemma enlargeBox_run:
  assumes "startPoint box = Some sp" "holds s sp ts" "holds s (endPoint box) te"
    and c: "c = \<lparr>hostStartPoint = as_pair (vals ts), hostEndPoint = as_pair (vals te),
                 hostLandmarks = None\<rparr>"
    and k: "k = (case factor' of None \<Rightarrow> Fin 1.5 | Some f \<Rightarrow> f)"
    and SZ: "SZ = \<lparr>shape = [1, 2], vals = [store (float32 ar) (fst (getBoxSize ar c)),
                                            store (float32 ar) (snd (getBoxSize ar c))]\<rparr>"
    and HF: "HF = \<lparr>shape = [1, 2],
                   vals = [num_div (float32 ar) (store (float32 ar) (fst (getBoxSize ar c)))
                             (store (float32 ar) (Fin 2)),
                           num_div (float32 ar) (store (float32 ar) (snd (getBoxSize ar c)))
                             (store (float32 ar) (Fin 2))]\<rparr>"
    and NS: "NS = \<lparr>shape = [1, 2], vals = [nx, ny]\<rparr>"
    and nx: "nx = num_mul (float32 ar)
                    (num_div (float32 ar) (store (float32 ar) (fst (getBoxSize ar c)))
                       (store (float32 ar) (Fin 2)))
                    (store (float32 ar) k)"
    and ny: "ny = num_mul (float32 ar)
                    (num_div (float32 ar) (store (float32 ar) (snd (getBoxSize ar c)))
                       (store (float32 ar) (Fin 2)))
                    (store (float32 ar) k)"
    and A: "A = \<lparr>shape = [1, 2],
                 vals = [num_sub (float32 ar) (store (float32 ar) (fst (getBoxCenter ar c))) nx,
                         num_sub (float32 ar) (store (float32 ar) (snd (getBoxCenter ar c))) ny]\<rparr>"
    and B: "B = \<lparr>shape = [1, 2],
                 vals = [num_add (float32 ar) (store (float32 ar) (fst (getBoxCenter ar c))) nx,
                         num_add (float32 ar) (store (float32 ar) (snd (getBoxCenter ar c))) ny]\<rparr>"
    and C: "C = \<lparr>shape = [1, 4], vals = vals A @ vals B\<rparr>"
  shows "enlargeBox ar box factor' s
           = (Inr \<lparr>startPoint = Some (length s + 3), endPoint = length s + 4,
                    startEndTensor = length s + 5, landmarks = None :: 'm option\<rparr>,
              s @ [released SZ, released HF, released NS, fresh A, fresh B, fresh C])"
proof -
  let ?n = "length s"
  let ?two = "Lit (to_float32 ar (scalar (Fin 2)))"
  let ?kl = "Lit (to_float32 ar (scalar k))"
  let ?cen = "Lit (to_float32 ar (tensor1d [fst (getBoxCenter ar c), snd (getBoxCenter ar c)]))"
  let ?sa = "s @ [fresh SZ]"
  let ?sb = "?sa @ [fresh HF]"
  let ?sc = "?sb @ [fresh NS]"
  let ?sd = "?sc @ [fresh A]"
  let ?se = "?sd @ [fresh B]"
  let ?sf = "?se @ [fresh C]"
  let ?b = "\<lparr>startPoint = Some (?n + 3), endPoint = ?n + 4,
                    startEndTensor = ?n + 5, landmarks = None :: 'm option\<rparr>"
  have d1: "dataSync sp s = (Inr (vals ts), s)" using assms(2) by (rule dataSync_holds)
  have d2: "dataSync (endPoint box) s = (Inr (vals te), s)" using assms(3) by (rule dataSync_holds)
  have l2: "deref ?two t = (Inr (scalar (store (float32 ar) (Fin 2))), t)" for t
    unfolding to_float32_scalar by (rule deref_Lit)
  have lk: "deref ?kl t = (Inr (scalar (store (float32 ar) k)), t)" for t
    unfolding to_float32_scalar by (rule deref_Lit)
  have lc: "deref ?cen t
              = (Inr (tensor1d [store (float32 ar) (fst (getBoxCenter ar c)),
                                store (float32 ar) (snd (getBoxCenter ar c))]), t)" for t
    unfolding to_float32_tensor1d list.map by (rule deref_Lit)
  have 1: "tf_tensor2d ar [fst (getBoxSize ar c), snd (getBoxSize ar c)] (1, 2) s = (Inr ?n, ?sa)"
    unfolding SZ by (rule tf_tensor2d_12)
  have "tf_div ar (Ref (length s)) ?two ?sa = (Inr (length ?sa), ?sb)"
    unfolding tf_div_def SZ HF
    by (rule tf_binop_run [OF deref_last l2 binop_12_scalar])
  then have 2: "tf_div ar (Ref ?n) ?two ?sa = (Inr (?n + 1), ?sb)" by simp
  have "tf_mul ar (Ref (length ?sa)) ?kl ?sb = (Inr (length ?sb), ?sc)"
    unfolding tf_mul_def HF NS nx ny
    by (rule tf_binop_run [OF deref_last lk binop_12_scalar])
  then have 3: "tf_mul ar (Ref (?n + 1)) ?kl ?sb = (Inr (?n + 2), ?sc)" by simp
  have "tf_sub ar ?cen (Ref (length ?sb)) ?sc = (Inr (length ?sc), ?sd)"
    unfolding tf_sub_def NS A
    by (rule tf_binop_run [OF lc deref_last binop_2_12])
  then have 4: "tf_sub ar ?cen (Ref (?n + 2)) ?sc = (Inr (?n + 3), ?sd)" by simp
  have h3: "holds ?sd (?n + 2) NS" by (simp add: holds_def fresh_def nth_append)
  have "tf_add ar ?cen (Ref (?n + 2)) ?sd = (Inr (length ?sd), ?se)"
    unfolding tf_add_def B
    by (rule tf_binop_run [OF lc deref_holds [OF h3]]) (unfold NS, rule binop_2_12)
  then have 5: "tf_add ar ?cen (Ref (?n + 2)) ?sd = (Inr (?n + 4), ?se)" by simp
  have hA: "holds ?se (?n + 3) A" by (simp add: holds_def fresh_def nth_append)
  have hB: "holds ?se (?n + 4) B" by (simp add: holds_def fresh_def nth_append)
  have da: "deref_all [Ref (?n + 3), Ref (?n + 4)] ?se = (Inr [A, B], ?se)"
    by (intro deref_all_Cons deref_all_Nil deref_holds hA hB)
  have cat: "concat2d [A, B] 1 = Inr C"
    unfolding C A B tensor.simps append.simps by (rule concat2d_12_12)
  have "tf_concat2d [Ref (?n + 3), Ref (?n + 4)] 1 ?se = (Inr (length ?se), ?sf)"
    by (rule tf_concat2d_run [OF da cat])
  then have 6: "tf_concat2d [Ref (?n + 3), Ref (?n + 4)] 1 ?se = (Inr (?n + 5), ?sf)" by simp
  have 7: "createBox (?n + 5) (Some (?n + 3)) (Some (?n + 4)) ?sf = (Inr ?b, ?sf)"
    by (simp add: createBox_def tf_bind_def tf_return_def)
  have sw: "sweep ?n (box_tensors ?b) ?sf
              = s @ [released SZ, released HF, released NS, fresh A, fresh B, fresh C]"
    using sweep_append [of s "box_tensors ?b" "[fresh SZ, fresh HF, fresh NS, fresh A, fresh B, fresh C]"]
    by (simp add: box_tensors_def range6 fresh_def released_def)
  show ?thesis
    unfolding enlargeBox_def
    by (simp only: Let_def k [symmetric] tidy_def assms(1) option.case tf_bind_def d1 d2
        prod.case sum.case c [symmetric] 1 2 3 4 5 6 7 sw)
qed

lemma as_pair_2: "as_pair [a, b] = (a, b)"
  by (simp add: as_pair_def component_def)

section \<open>Operations only add to the engine\<close>

lemma preserved_refl: "preserved s s"
  by (simp add: preserved_def)

lemma preserved_iff: "preserved s s' \<longleftrightarrow> (\<exists>xs. s' = s @ xs)"
proof
  assume "preserved s s'"
  then have "s' = s @ drop (length s) s'"
    by (metis append_take_drop_id preserved_def)
  then show "\<exists>xs. s' = s @ xs" ..
next
  assume "\<exists>xs. s' = s @ xs"
  then show "preserved s s'" by (auto simp: preserved_def)
qed

lemma preserved_trans: "preserved s s' \<Longrightarrow> preserved s' s'' \<Longrightarrow> preserved s s''"
  by (auto simp: preserved_iff)

lemma preserved_append: "preserved s (s @ xs)"
  by (simp add: preserved_def)

lemma preserved_nth: "preserved s s' \<Longrightarrow> i < length s \<Longrightarrow> s' ! i = s ! i"
  by (metis nth_take preserved_def)

lemma preserved_sweep: "preserved s s' \<Longrightarrow> preserved s (sweep (length s) kept s')"
proof -
  assume a: "preserved s s'"
  then obtain xs where "s' = s @ xs"
    by (metis append_take_drop_id preserved_def)
  then show ?thesis by (simp add: sweep_append preserved_append)
qed

lemma preserves_return: "preserves (tf_return x)"
  by (simp add: preserves_def tf_return_def preserved_refl)

lemma preserves_throw: "preserves (tf_throw e)"
  by (simp add: preserves_def tf_throw_def preserved_refl)

lemma preserves_lift: "preserves (tf_lift r)"
  by (simp add: preserves_def tf_lift_def preserved_refl)

lemma preserves_deref: "preserves (deref a)"
  by (auto simp: preserves_def deref_def preserved_refl split: arg.splits)

lemma preserves_alloc: "preserves (alloc t)"
  by (simp add: preserves_def alloc_def preserved_append)

lemma preserves_shapeOf: "preserves (shapeOf i)"
  by (simp add: preserves_def shapeOf_def preserved_refl)

lemma preserves_bind:
  assumes "preserves m" "\<And>x. preserves (f x)"
  shows "preserves (tf_bind m f)"
  unfolding preserves_def
proof
  fix s
  show "preserved s (snd (tf_bind m f s))"
  proof (cases "m s")
    case (Pair r s')
    have 1: "preserved s s'" using assms(1) Pair by (metis preserves_def snd_conv)
    show ?thesis
    proof (cases r)
      case (Inl e)
      with Pair 1 show ?thesis by (simp add: tf_bind_def)
    next
      case (Inr x)
      have "preserved s' (snd (f x s'))" using assms(2) by (simp add: preserves_def)
      with 1 have "preserved s (snd (f x s'))" by (rule preserved_trans)
      with Pair Inr show ?thesis by (simp add: tf_bind_def)
    qed
  qed
qed

lemma preserves_tidy:
  assumes "preserves body"
  shows "preserves (tidy k body)"
  unfolding preserves_def
proof
  fix s
  have "preserved s (snd (body s))" using assms by (simp add: preserves_def)
  then show "preserved s (snd (tidy k body s))"
    by (cases "body s") (auto simp: tidy_def preserved_sweep split: sum.splits)
qed

lemma preserves_deref_all: "preserves (deref_all as)"
  by (induction as) (simp_all add: preserves_return preserves_bind preserves_deref)

lemmas preserves_intros =
  preserves_bind preserves_return preserves_throw preserves_lift preserves_deref
  preserves_alloc preserves_shapeOf preserves_deref_all preserves_tidy

lemma preserves_binop: "preserves (tf_binop f a b)"
  unfolding tf_binop_def by (intro preserves_intros)

lemma preserves_slice: "preserves (tf_slice a b z)"
  unfolding tf_slice_def by (intro preserves_intros)

lemma preserves_concat2d: "preserves (tf_concat2d as axis)"
  unfolding tf_concat2d_def by (intro preserves_intros)

lemma preserves_transpose: "preserves (tf_transpose a)"
  unfolding tf_transpose_def by (intro preserves_intros)

lemma preserves_tensor2d: "preserves (tf_tensor2d ar xs shp)"
  unfolding tf_tensor2d_def by (intro preserves_intros)

lemma preserves_dataSync: "preserves (dataSync i)"
  unfolding dataSync_def by (intro preserves_intros)

lemma preserves_cropAndResize: "preserves (cropAndResize smp a b ind cs)"
  unfolding cropAndResize_def
  by (intro preserves_intros) (simp add: preserves_intros)

lemma preserves_createBox: "preserves (createBox c sp ep)"
  unfolding createBox_def
  by (intro preserves_intros; cases sp; cases ep; simp add: preserves_return preserves_slice)

lemma preserves_scaleBoxCoordinates: "preserves (scaleBoxCoordinates ar box f)"
  unfolding scaleBoxCoordinates_def tf_mul_def
  by (intro preserves_intros preserves_binop preserves_concat2d preserves_createBox)

lemma preserves_enlargeBox: "preserves (enlargeBox ar box k)"
  unfolding enlargeBox_def Let_def tf_mul_def tf_div_def tf_sub_def tf_add_def
  by (cases "startPoint box")
     (simp_all add: preserves_intros preserves_binop preserves_concat2d preserves_createBox
        preserves_dataSync preserves_tensor2d)

lemma preserves_cutBox: "preserves (cutBoxFromImageAndResize ar smp box img cs)"
  unfolding cutBoxFromImageAndResize_def Let_def tf_div_def
  by (intro preserves_intros preserves_binop preserves_concat2d preserves_slice
        preserves_transpose preserves_cropAndResize)

section \<open>What a successful run allocates\<close>

lemma tf_bind_InrE:
  assumes "tf_bind m f s = (Inr r, s'')"
  obtains x s' where "m s = (Inr x, s')" "f x s' = (Inr r, s'')"
  using assms by (auto simp: tf_bind_def split: prod.splits sum.splits)

lemma deref_state: "deref a s = (r, s') \<Longrightarrow> s' = s"
  by (auto simp: deref_def split: arg.splits if_splits)

lemma deref_all_state: "deref_all as s = (r, s') \<Longrightarrow> s' = s"
proof (induction as arbitrary: r s')
  case Nil
  then show ?case by (simp add: tf_return_def)
next
  case (Cons a as)
  show ?case
  proof (cases "deref a s")
    case (Pair r1 s1)
    then have s1: "s1 = s" by (rule deref_state)
    show ?thesis
    proof (cases r1)
      case (Inl e)
      with Cons.prems Pair s1 show ?thesis by (simp add: tf_bind_def)
    next
      case (Inr t)
      obtain r2 s2 where p2: "deref_all as s = (r2, s2)" by (cases "deref_all as s")
      then have "s2 = s" by (rule Cons.IH)
      with Cons.prems Pair s1 Inr p2 show ?thesis
        by (cases r2) (auto simp: tf_bind_def tf_return_def)
    qed
  qed
qed

lemma alloc_after:
  assumes "tf_bind m (\<lambda>x. tf_bind (tf_lift (g x)) alloc) s = (Inr i, s')"
    and "\<And>r s1. m s = (r, s1) \<Longrightarrow> s1 = s"
  shows "i = length s \<and> (\<exists>t. s' = s @ [fresh t])"
proof -
  from assms(1) obtain x s1 where 1: "m s = (Inr x, s1)"
    and 2: "tf_bind (tf_lift (g x)) alloc s1 = (Inr i, s')"
    by (rule tf_bind_InrE)
  from 1 have "s1 = s" by (rule assms(2))
  with 2 show ?thesis
    by (auto simp: tf_bind_def tf_lift_def alloc_fresh split: sum.splits)
qed

lemma tf_slice_InrD:
  "tf_slice a b z s = (Inr i, s') \<Longrightarrow> i = length s \<and> (\<exists>t. s' = s @ [fresh t])"
  unfolding tf_slice_def by (rule alloc_after) (auto dest: deref_state)

lemma tf_concat2d_InrD:
  "tf_concat2d as axis s = (Inr i, s') \<Longrightarrow> i = length s \<and> (\<exists>t. s' = s @ [fresh t])"
  unfolding tf_concat2d_def by (rule alloc_after) (auto dest: deref_all_state)

lemma tf_transpose_InrD:
  "tf_transpose a s = (Inr i, s') \<Longrightarrow> i = length s \<and> (\<exists>t. s' = s @ [fresh t])"
  unfolding tf_transpose_def by (rule alloc_after) (auto dest: deref_state)

lemma tf_tensor2d_InrD:
  "tf_tensor2d ar xs shp s = (Inr i, s') \<Longrightarrow> i = length s \<and> (\<exists>t. s' = s @ [fresh t])"
  by (auto simp: tf_tensor2d_def tf_bind_def tf_lift_def alloc_fresh split: sum.splits)

lemma tf_binop_InrD:
  assumes "tf_binop f a b s = (Inr i, s')"
  shows "i = length s \<and> (\<exists>t. s' = s @ [fresh t])"
proof -
  from assms obtain x s1 where 1: "deref a s = (Inr x, s1)"
    and 2: "tf_bind (deref b) (\<lambda>y. tf_bind (tf_lift (binop f x y)) alloc) s1 = (Inr i, s')"
    unfolding tf_binop_def by (rule tf_bind_InrE)
  from 1 have "s1 = s" by (rule deref_state)
  with 2 have "tf_bind (deref b) (\<lambda>y. tf_bind (tf_lift (binop f x y)) alloc) s = (Inr i, s')"
    by simp
  then show ?thesis by (rule alloc_after) (rule deref_state)
qed

lemma dataSync_InrD: "dataSync i s = (Inr v, s') \<Longrightarrow> s' = s"
  by (auto simp: dataSync_def tf_bind_def tf_return_def dest: deref_state split: prod.splits sum.splits)

lemma createBox_derived_InrD:
  assumes "createBox c None None s = (Inr b, s')"
  shows "\<exists>t u. b = \<lparr>startPoint = Some (length s), endPoint = Suc (length s),
                      startEndTensor = c, landmarks = None\<rparr>
               \<and> s' = s @ [fresh t, fresh u]"
proof -
  from assms obtain p s1 where 1: "tf_slice (Ref c) (0, 0) (-1, 2) s = (Inr p, s1)"
    and r: "tf_bind (tf_slice (Ref c) (0, 2) (-1, 2))
              (\<lambda>q. tf_return \<lparr>startPoint = Some p, endPoint = q, startEndTensor = c,
                                landmarks = None\<rparr>) s1 = (Inr b, s')"
    unfolding createBox_def option.case by (rule tf_bind_InrE)
  from r obtain q s2 where 2: "tf_slice (Ref c) (0, 2) (-1, 2) s1 = (Inr q, s2)"
    and 3: "tf_return \<lparr>startPoint = Some p, endPoint = q, startEndTensor = c,
                        landmarks = None\<rparr> s2 = (Inr b, s')"
    by (rule tf_bind_InrE)
  from 1 obtain t where "p = length s" "s1 = s @ [fresh t]" using tf_slice_InrD by blast
  moreover from 2 obtain u where "q = length s1" "s2 = s1 @ [fresh u]" using tf_slice_InrD by blast
  ultimately show ?thesis using 3 by (auto simp: tf_return_def)
qed

lemma scaleBoxCoordinates_InrD:
  assumes "scaleBoxCoordinates ar box f s = (Inr b, s')"
  shows "\<exists>t1 t2 t3 t4 t5.
           b = \<lparr>startPoint = Some (length s + 3), endPoint = length s + 4,
                 startEndTensor = length s + 2, landmarks = None\<rparr>
         \<and> s' = s @ [fresh t1, fresh t2, fresh t3, fresh t4, fresh t5]"
proof -
  from assms obtain i1 s1 where 1: "tf_mul ar (opt_ref (startPoint box)) (factor_arg ar f) s = (Inr i1, s1)"
    and r1: "tf_bind (tf_mul ar (Ref (endPoint box)) (factor_arg ar f)) (\<lambda>newEnd.
              tf_bind (tf_concat2d [Ref i1, Ref newEnd] 1) (\<lambda>c. createBox c None None)) s1
             = (Inr b, s')"
    unfolding scaleBoxCoordinates_def by (rule tf_bind_InrE)
  from r1 obtain i2 s2 where 2: "tf_mul ar (Ref (endPoint box)) (factor_arg ar f) s1 = (Inr i2, s2)"
    and r2: "tf_bind (tf_concat2d [Ref i1, Ref i2] 1) (\<lambda>c. createBox c None None) s2 = (Inr b, s')"
    by (rule tf_bind_InrE)
  from r2 obtain i3 s3 where 3: "tf_concat2d [Ref i1, Ref i2] 1 s2 = (Inr i3, s3)"
    and 4: "createBox i3 None None s3 = (Inr b, s')"
    by (rule tf_bind_InrE)
  from 1 obtain t1 where e1: "s1 = s @ [fresh t1]"
    unfolding tf_mul_def using tf_binop_InrD by blast
  from 2 obtain t2 where e2: "s2 = s1 @ [fresh t2]"
    unfolding tf_mul_def using tf_binop_InrD by blast
  from 3 obtain t3 where e3: "i3 = length s2" "s3 = s2 @ [fresh t3]"
    using tf_concat2d_InrD by blast
  from 4 obtain t4 t5 where e4: "b = \<lparr>startPoint = Some (length s3), endPoint = Suc (length s3),
                      startEndTensor = i3, landmarks = None\<rparr>" "s' = s3 @ [fresh t4, fresh t5]"
    using createBox_derived_InrD by blast
  from e1 e2 e3 e4 show ?thesis by auto
qed

lemma tidy_InrE:
  assumes "tidy k body s = (Inr x, s')"
  obtains s1 where "body s = (Inr x, s1)" "s' = sweep (length s) (k x) s1"
  using assms by (auto simp: tidy_def split: prod.splits sum.splits)

lemma enlargeBox_InrD:
  assumes "enlargeBox ar box k s = (Inr b, s')"
  shows "\<exists>t1 t2 t3 t4 t5 t6.
           b = \<lparr>startPoint = Some (length s + 3), endPoint = length s + 4,
                 startEndTensor = length s + 5, landmarks = None\<rparr>
         \<and> s' = s @ [released t1, released t2, released t3, fresh t4, fresh t5, fresh t6]"
proof (cases "startPoint box")
  case None
  with assms show ?thesis
    by (simp add: enlargeBox_def tidy_def tf_throw_def)
next
  case (Some sp)
  have "\<exists>s6. s' = sweep (length s) (box_tensors b) s6
           \<and> (\<exists>t1 t2 t3 t4 t5 t6.
                 b = \<lparr>startPoint = Some (length s + 3), endPoint = length s + 4,
                       startEndTensor = length s + 5, landmarks = None\<rparr>
               \<and> s6 = s @ [fresh t1, fresh t2, fresh t3, fresh t4, fresh t5, fresh t6])"
    using assms
    unfolding enlargeBox_def Let_def Some option.case tf_div_def tf_mul_def tf_sub_def tf_add_def
    by (elim tidy_InrE tf_bind_InrE,
        auto dest!: dataSync_InrD tf_tensor2d_InrD tf_binop_InrD tf_concat2d_InrD
             simp: createBox_def tf_bind_def tf_return_def,
        blast)
  then obtain s6 t1 t2 t3 t4 t5 t6 where sw: "s' = sweep (length s) (box_tensors b) s6"
    and b: "b = \<lparr>startPoint = Some (length s + 3), endPoint = length s + 4,
                 startEndTensor = length s + 5, landmarks = None\<rparr>"
    and s6: "s6 = s @ [fresh t1, fresh t2, fresh t3, fresh t4, fresh t5, fresh t6]"
    by blast
  have "s' = s @ [released t1, released t2, released t3, fresh t4, fresh t5, fresh t6]"
    unfolding sw s6
    using sweep_append [of s "box_tensors b" "[fresh t1, fresh t2, fresh t3, fresh t4, fresh t5, fresh t6]"]
    by (simp add: b box_tensors_def range6 fresh_def released_def)
  with b show ?thesis by blast
qed

section \<open>Running cutBoxFromImageAndResize\<close>

lemma concat2d_cols:
  "concat2d [\<lparr>shape = [1, 1], vals = [a]\<rparr>, \<lparr>shape = [1, 1], vals = [b]\<rparr>,
             \<lparr>shape = [1, 1], vals = [c]\<rparr>, \<lparr>shape = [1, 1], vals = [d]\<rparr>] 0
     = Inr \<lparr>shape = [4, 1], vals = [a, b, c, d]\<rparr>"
  by (simp add: concat2d_def rows_of_def cols_of_def)

lemma transpose2d_41:
  "transpose2d \<lparr>shape = [4, 1], vals = [a, b, c, d]\<rparr> = Inr \<lparr>shape = [1, 4], vals = [a, b, c, d]\<rparr>"
  by (simp add: transpose2d_def small_ranges)

lemma range8: "[0 ..< 8] = [0, 1, 2, 3, 4, 5, 6, 7]"
  by (simp add: upt_rec numeral_eq_Suc)

lemma cropAndResize_run:
  assumes "deref image' s = (Inr img, s)" "deref boxes s = (Inr bxs, s)"
    and "shape img = [nb, h, w, ch]" "shape bxs = [length boxInd, 4]"
    and "1 \<le> fst cropSize" "1 \<le> snd cropSize"
  shows "cropAndResize smp image' boxes boxInd cropSize s
           = (Inr (length s),
              s @ [fresh \<lparr>shape = [length boxInd, nat (fst cropSize), nat (snd cropSize), ch],
                          vals = smp img bxs boxInd cropSize\<rparr>])"
  using assms by (simp add: cropAndResize_def tf_bind_def alloc_fresh)

lemma range7: "[0 ..< 7] = [0, 1, 2, 3, 4, 5, 6]"
  by (simp add: upt_rec numeral_eq_Suc)

lemma cropAndResize_reject:
  assumes "deref image' s = (Inr img, s)" "deref boxes s = (Inr bxs, s)"
    and "shape img = [nb, h, w, ch]" "shape bxs = [length boxInd, 4]"
    and "\<not> (1 \<le> fst cropSize \<and> 1 \<le> snd cropSize)"
  shows "cropAndResize smp image' boxes boxInd cropSize s = (Inl InvalidArgument, s)"
  using assms by (auto simp: cropAndResize_def tf_bind_def tf_throw_def)

lemma cutBox_steps:
  assumes ste: "holds s (startEndTensor box) \<lparr>shape = [1, 4], vals = [x0, y0, x1, y1]\<rparr>"
    and img: "holds s image' img" "shape img = [1, h, w, ch]"
    and RC: "RC = \<lparr>shape = [1, 4],
                   vals = [num_div (float32 ar) y0 (store (float32 ar) (Fin (real h))),
                           num_div (float32 ar) x0 (store (float32 ar) (Fin (real w))),
                           num_div (float32 ar) y1 (store (float32 ar) (Fin (real h))),
                           num_div (float32 ar) x1 (store (float32 ar) (Fin (real w)))]\<rparr>"
    and sg: "sg = s @ [fresh \<lparr>shape = [1, 1], vals = [y0]\<rparr>,
                       fresh \<lparr>shape = [1, 1], vals = [x0]\<rparr>,
                       fresh \<lparr>shape = [1, 1], vals = [y1]\<rparr>,
                       fresh \<lparr>shape = [1, 1], vals = [x1]\<rparr>,
                       fresh \<lparr>shape = [4, 1], vals = [y0, x0, y1, x1]\<rparr>,
                       fresh \<lparr>shape = [1, 4], vals = [y0, x0, y1, x1]\<rparr>,
                       fresh RC]"
  shows "cutBoxFromImageAndResize ar smp box image' cropSize s
           = (case cropAndResize smp (Ref image') (Ref (length s + 6)) [0] cropSize sg of
                (Inl e, s') \<Rightarrow> (Inl e, sweep (length s) [] s')
              | (Inr r, s') \<Rightarrow> (Inr r, sweep (length s) [r] s'))"
    and "holds sg image' img" and "holds sg (length s + 6) RC"
proof -
  let ?n = "length s"
  let ?Bx = "\<lparr>shape = [1, 4], vals = [x0, y0, x1, y1]\<rparr>"
  let ?xyxy = "startEndTensor box"
  let ?Ya = "\<lparr>shape = [1, 1], vals = [y0]\<rparr>" and ?Xa = "\<lparr>shape = [1, 1], vals = [x0]\<rparr>"
  let ?Yb = "\<lparr>shape = [1, 1], vals = [y1]\<rparr>" and ?Xb = "\<lparr>shape = [1, 1], vals = [x1]\<rparr>"
  let ?C = "\<lparr>shape = [4, 1], vals = [y0, x0, y1, x1]\<rparr>"
  let ?T = "\<lparr>shape = [1, 4], vals = [y0, x0, y1, x1]\<rparr>"
  let ?hw = "Lit (to_float32 ar (tensor1d [Fin (real h), Fin (real w), Fin (real h), Fin (real w)]))"
  let ?sa = "s @ [fresh ?Ya]"
  let ?sb = "?sa @ [fresh ?Xa]"
  let ?sc = "?sb @ [fresh ?Yb]"
  let ?sd = "?sc @ [fresh ?Xb]"
  let ?se = "?sd @ [fresh ?C]"
  let ?sf = "?se @ [fresh ?T]"
  let ?sg = "?sf @ [fresh RC]"
  have sg': "sg = ?sg" by (simp add: sg)
  have sh: "shapeOf image' s = (Inr [1, h, w, ch], s)"
    using img by (simp add: shapeOf_def holds_def)
  have H: "shape_component [1, h, w, ch] 1 = Fin (real h)"
    and W: "shape_component [1, h, w, ch] 2 = Fin (real w)"
    by (simp_all add: shape_component_def)
  have lhw: "deref ?hw t
               = (Inr (tensor1d [store (float32 ar) (Fin (real h)), store (float32 ar) (Fin (real w)),
                                 store (float32 ar) (Fin (real h)), store (float32 ar) (Fin (real w))]), t)"
    for t
    unfolding to_float32_tensor1d list.map by (rule deref_Lit)
  have sl: "slice ?Bx (0, 1) (-1, 1) = Inr ?Ya" "slice ?Bx (0, 0) (-1, 1) = Inr ?Xa"
    "slice ?Bx (0, 3) (-1, 1) = Inr ?Yb" "slice ?Bx (0, 2) (-1, 1) = Inr ?Xb"
    by (simp_all add: slice_def slice_extent_def)
  have 1: "tf_slice (Ref ?xyxy) (0, 1) (-1, 1) s = (Inr ?n, ?sa)"
    by (rule tf_slice_run [OF deref_holds [OF ste] sl(1)])
  have "tf_slice (Ref ?xyxy) (0, 0) (-1, 1) ?sa = (Inr (length ?sa), ?sb)"
    by (rule tf_slice_run [OF deref_holds [OF holds_append [OF ste]] sl(2)])
  then have 2: "tf_slice (Ref ?xyxy) (0, 0) (-1, 1) ?sa = (Inr (?n + 1), ?sb)" by simp
  have "holds ?sb ?xyxy ?Bx" using holds_append [OF ste, of "[fresh ?Ya, fresh ?Xa]"] by simp
  then have "tf_slice (Ref ?xyxy) (0, 3) (-1, 1) ?sb = (Inr (length ?sb), ?sc)"
    by (rule tf_slice_run [OF deref_holds sl(3)])
  then have 3: "tf_slice (Ref ?xyxy) (0, 3) (-1, 1) ?sb = (Inr (?n + 2), ?sc)" by simp
  have "holds ?sc ?xyxy ?Bx" using holds_append [OF ste, of "[fresh ?Ya, fresh ?Xa, fresh ?Yb]"] by simp
  then have "tf_slice (Ref ?xyxy) (0, 2) (-1, 1) ?sc = (Inr (length ?sc), ?sd)"
    by (rule tf_slice_run [OF deref_holds sl(4)])
  then have 4: "tf_slice (Ref ?xyxy) (0, 2) (-1, 1) ?sc = (Inr (?n + 3), ?sd)" by simp
  have hh: "holds ?sd ?n ?Ya" "holds ?sd (?n + 1) ?Xa" "holds ?sd (?n + 2) ?Yb" "holds ?sd (?n + 3) ?Xb"
    by (simp_all add: holds_def fresh_def nth_append)
  have da: "deref_all [Ref ?n, Ref (?n + 1), Ref (?n + 2), Ref (?n + 3)] ?sd
              = (Inr [?Ya, ?Xa, ?Yb, ?Xb], ?sd)"
    by (intro deref_all_Cons deref_all_Nil deref_holds hh)
  have "tf_concat2d [Ref ?n, Ref (?n + 1), Ref (?n + 2), Ref (?n + 3)] 0 ?sd = (Inr (length ?sd), ?se)"
    by (rule tf_concat2d_run [OF da concat2d_cols])
  then have 5: "tf_concat2d [Ref ?n, Ref (?n + 1), Ref (?n + 2), Ref (?n + 3)] 0 ?sd = (Inr (?n + 4), ?se)"
    by (simp add: eval_nat_numeral)
  have "tf_transpose (Ref (length ?sd)) ?se = (Inr (length ?se), ?sf)"
    by (rule tf_transpose_run [OF deref_last transpose2d_41])
  then have 6: "tf_transpose (Ref (?n + 4)) ?se = (Inr (?n + 5), ?sf)"
    by (simp add: eval_nat_numeral)
  have "tf_div ar (Ref (length ?se)) ?hw ?sf = (Inr (length ?sf), ?sg)"
    unfolding tf_div_def RC
    by (rule tf_binop_run [OF deref_last lhw binop_14_4])
  then have 7: "tf_div ar (Ref (?n + 5)) ?hw ?sf = (Inr (?n + 6), ?sg)"
    by (simp add: eval_nat_numeral)
  show "cutBoxFromImageAndResize ar smp box image' cropSize s
           = (case cropAndResize smp (Ref image') (Ref (length s + 6)) [0] cropSize sg of
                (Inl e, s') \<Rightarrow> (Inl e, sweep (length s) [] s')
              | (Inr r, s') \<Rightarrow> (Inr r, sweep (length s) [r] s'))"
    unfolding cutBoxFromImageAndResize_def sg'
    by (simp only: tf_bind_def sh prod.case sum.case Let_def H W tidy_def 1 2 3 4 5 6 7)
  show "holds sg image' img"
    unfolding sg by (rule holds_append [OF img(1)])
  show "holds sg (length s + 6) RC"
    by (simp add: sg holds_def fresh_def nth_append)
qed

lemma cutBox_run:
  assumes ste: "holds s (startEndTensor box) \<lparr>shape = [1, 4], vals = [x0, y0, x1, y1]\<rparr>"
    and img: "holds s image' img" "shape img = [1, h, w, ch]"
    and cs: "1 \<le> fst cropSize" "1 \<le> snd cropSize"
    and RC: "RC = \<lparr>shape = [1, 4],
                   vals = [num_div (float32 ar) y0 (store (float32 ar) (Fin (real h))),
                           num_div (float32 ar) x0 (store (float32 ar) (Fin (real w))),
                           num_div (float32 ar) y1 (store (float32 ar) (Fin (real h))),
                           num_div (float32 ar) x1 (store (float32 ar) (Fin (real w)))]\<rparr>"
  shows "cutBoxFromImageAndResize ar smp box image' cropSize s
           = (Inr (length s + 7),
              s @ [released \<lparr>shape = [1, 1], vals = [y0]\<rparr>,
                   released \<lparr>shape = [1, 1], vals = [x0]\<rparr>,
                   released \<lparr>shape = [1, 1], vals = [y1]\<rparr>,
                   released \<lparr>shape = [1, 1], vals = [x1]\<rparr>,
                   released \<lparr>shape = [4, 1], vals = [y0, x0, y1, x1]\<rparr>,
                   released \<lparr>shape = [1, 4], vals = [y0, x0, y1, x1]\<rparr>,
                   released RC,
                   fresh \<lparr>shape = [1, nat (fst cropSize), nat (snd cropSize), ch],
                          vals = smp img RC [0] cropSize\<rparr>])"
proof -
  let ?xs = "[fresh \<lparr>shape = [1, 1], vals = [y0]\<rparr>,
                       fresh \<lparr>shape = [1, 1], vals = [x0]\<rparr>,
                       fresh \<lparr>shape = [1, 1], vals = [y1]\<rparr>,
                       fresh \<lparr>shape = [1, 1], vals = [x1]\<rparr>,
                       fresh \<lparr>shape = [4, 1], vals = [y0, x0, y1, x1]\<rparr>,
                       fresh \<lparr>shape = [1, 4], vals = [y0, x0, y1, x1]\<rparr>,
                       fresh RC]"
  let ?sg = "s @ ?xs"
  let ?O = "\<lparr>shape = [1, nat (fst cropSize), nat (snd cropSize), ch], vals = smp img RC [0] cropSize\<rparr>"
  note st = cutBox_steps [OF ste img RC refl]
  have "shape RC = [length [0::nat], 4]" by (simp add: RC)
  then have "cropAndResize smp (Ref image') (Ref (length s + 6)) [0] cropSize ?sg
          = (Inr (length ?sg),
             ?sg @ [fresh \<lparr>shape = [length [0::nat], nat (fst cropSize), nat (snd cropSize), ch],
                            vals = smp img RC [0] cropSize\<rparr>])"
    by (rule cropAndResize_run [OF deref_holds [OF st(2)] deref_holds [OF st(3)] img(2) _ cs])
  then have 8: "cropAndResize smp (Ref image') (Ref (length s + 6)) [0] cropSize ?sg
                  = (Inr (length s + 7), ?sg @ [fresh ?O])"
    by simp
  have sw: "sweep (length s) [length s + 7] (?sg @ [fresh ?O])
              = s @ [released \<lparr>shape = [1, 1], vals = [y0]\<rparr>,
                   released \<lparr>shape = [1, 1], vals = [x0]\<rparr>,
                   released \<lparr>shape = [1, 1], vals = [y1]\<rparr>,
                   released \<lparr>shape = [1, 1], vals = [x1]\<rparr>,
                   released \<lparr>shape = [4, 1], vals = [y0, x0, y1, x1]\<rparr>,
                   released \<lparr>shape = [1, 4], vals = [y0, x0, y1, x1]\<rparr>,
                   released RC, fresh ?O]"
    using sweep_append [of s "[length s + 7]" "?xs @ [fresh ?O]"]
    by (simp add: range8 fresh_def released_def)
  show ?thesis
    by (simp only: st(1) 8 prod.case sum.case sw)
qed

lemma cutBox_reject:
  assumes ste: "holds s (startEndTensor box) \<lparr>shape = [1, 4], vals = [x0, y0, x1, y1]\<rparr>"
    and img: "holds s image' img" "shape img = [1, h, w, ch]"
    and cs: "\<not> (1 \<le> fst cropSize \<and> 1 \<le> snd cropSize)"
    and RC: "RC = \<lparr>shape = [1, 4],
                   vals = [num_div (float32 ar) y0 (store (float32 ar) (Fin (real h))),
                           num_div (float32 ar) x0 (store (float32 ar) (Fin (real w))),
                           num_div (float32 ar) y1 (store (float32 ar) (Fin (real h))),
                           num_div (float32 ar) x1 (store (float32 ar) (Fin (real w)))]\<rparr>"
  shows "cutBoxFromImageAndResize ar smp box image' cropSize s
           = (Inl InvalidArgument,
              s @ [released \<lparr>shape = [1, 1], vals = [y0]\<rparr>,
                   released \<lparr>shape = [1, 1], vals = [x0]\<rparr>,
                   released \<lparr>shape = [1, 1], vals = [y1]\<rparr>,
                   released \<lparr>shape = [1, 1], vals = [x1]\<rparr>,
                   released \<lparr>shape = [4, 1], vals = [y0, x0, y1, x1]\<rparr>,
                   released \<lparr>shape = [1, 4], vals = [y0, x0, y1, x1]\<rparr>,
                   released RC])"
proof -
  let ?xs = "[fresh \<lparr>shape = [1, 1], vals = [y0]\<rparr>,
                       fresh \<lparr>shape = [1, 1], vals = [x0]\<rparr>,
                       fresh \<lparr>shape = [1, 1], vals = [y1]\<rparr>,
                       fresh \<lparr>shape = [1, 1], vals = [x1]\<rparr>,
                       fresh \<lparr>shape = [4, 1], vals = [y0, x0, y1, x1]\<rparr>,
                       fresh \<lparr>shape = [1, 4], vals = [y0, x0, y1, x1]\<rparr>,
                       fresh RC]"
  let ?sg = "s @ ?xs"
  note st = cutBox_steps [OF ste img RC refl]
  have "shape RC = [length [0::nat], 4]" by (simp add: RC)
  then have 8: "cropAndResize smp (Ref image') (Ref (length s + 6)) [0] cropSize ?sg
          = (Inl InvalidArgument, ?sg)"
    by (rule cropAndResize_reject [OF deref_holds [OF st(2)] deref_holds [OF st(3)] img(2) _ cs])
  have sw: "sweep (length s) [] ?sg
              = s @ [released \<lparr>shape = [1, 1], vals = [y0]\<rparr>,
                   released \<lparr>shape = [1, 1], vals = [x0]\<rparr>,
                   released \<lparr>shape = [1, 1], vals = [y1]\<rparr>,
                   released \<lparr>shape = [1, 1], vals = [x1]\<rparr>,
                   released \<lparr>shape = [4, 1], vals = [y0, x0, y1, x1]\<rparr>,
                   released \<lparr>shape = [1, 4], vals = [y0, x0, y1, x1]\<rparr>,
                   released RC]"
    using sweep_append [of s "[]" ?xs]
    by (simp add: range7 fresh_def released_def)
  show ?thesis
    by (simp only: st(1) 8 prod.case sum.case sw)
qed

section \<open>Rounding\<close>

lemma round_to_exact: "r x = Some y \<Longrightarrow> round_to r x = Fin y"
  by (simp add: round_to_def)

text \<open>
  IEEE rounding stores exactly every \<open>m * 2^j\<close> whose significand \<open>m\<close> fits the precision
  and whose exponent is in range, in particular the integers below \<open>2^24\<close> (32-bit) and
  \<open>2^53\<close> (64-bit); it maps the interval from 0 to 1 into itself; and it is computed
  from the exponent of its argument.
\<close>

lemma round_even_of_int [simp]: "round_even (of_int n) = n"
  by (simp add: round_even_def)

lemma round_even_nonneg: "0 \<le> q \<Longrightarrow> 0 \<le> round_even q"
  by (auto simp: round_even_def Let_def)

lemma round_even_le: "q \<le> of_int N \<Longrightarrow> round_even q \<le> N"
proof (cases "q = of_int N")
  case True
  then show ?thesis by simp
next
  case False
  assume "q \<le> of_int N"
  with False have "q < of_int N" by simp
  then have "\<lfloor>q\<rfloor> < N" by (simp add: floor_less_iff)
  then show ?thesis by (auto simp: round_even_def Let_def)
qed

lemma ieee_round_exact:
  assumes x: "x = of_int m * 2 powr of_int j"
    and m: "\<bar>m\<bar> < 2 ^ p"
    and j: "emin - int p + 1 \<le> j"
    and b: "\<bar>x\<bar> < 2 powr of_int (emax + 1)"
  shows "ieee_round p emin emax x = Some x"
proof (cases "x = 0")
  case True
  then show ?thesis by (simp add: ieee_round_def)
next
  case False
  define e where "e = max emin \<lfloor>log 2 \<bar>x\<bar>\<rfloor>"
  define k where "k = j - (e - int p + 1)"
  have "\<bar>x\<bar> = of_int \<bar>m\<bar> * 2 powr of_int j"
    by (simp add: x abs_mult)
  also have "\<dots> < 2 ^ p * 2 powr of_int j"
  proof -
    from m have "(of_int \<bar>m\<bar> :: real) < of_int (2 ^ p)" by (simp only: of_int_less_iff)
    then show ?thesis by simp
  qed
  also have "\<dots> = 2 powr (of_int (int p + j))"
    by (simp add: powr_add powr_realpow)
  finally have lt: "\<bar>x\<bar> < 2 powr (of_int (int p + j))" .
  from False have "0 < \<bar>x\<bar>" by simp
  with lt have "log 2 \<bar>x\<bar> < of_int (int p + j)"
    by (simp add: log_less_iff)
  then have "\<lfloor>log 2 \<bar>x\<bar>\<rfloor> < int p + j" by (simp only: floor_less_iff)
  with j have "e \<le> int p + j - 1" by (simp add: e_def)
  then have k0: "0 \<le> k" by (simp add: k_def)
  have "x / 2 powr of_int (e - int p + 1) = of_int m * 2 powr of_int k"
    by (simp add: x k_def powr_diff)
  also have "\<dots> = of_int (m * 2 ^ nat k)"
    using k0 by (simp add: powr_realpow [symmetric])
  finally have q: "x / 2 powr of_int (e - int p + 1) = of_int (m * 2 ^ nat k)" .
  have "of_int (round_even (x / 2 powr of_int (e - int p + 1))) * 2 powr of_int (e - int p + 1) = x"
    unfolding q round_even_of_int by (simp only: q [symmetric]) simp
  with b False show ?thesis
    by (simp add: ieee_round_def Let_def e_def [symmetric])
qed

lemma ieee_round_int:
  assumes "\<bar>n\<bar> < 2 ^ p" "emin \<le> int p - 1" "int p \<le> emax + 1"
  shows "ieee_round p emin emax (of_int n) = Some (of_int n)"
proof (rule ieee_round_exact [where m = n and j = 0])
  show "(of_int n :: real) = of_int n * 2 powr of_int 0" by simp
  show "\<bar>n\<bar> < 2 ^ p" by fact
  show "emin - int p + 1 \<le> 0" using assms(2) by simp
  have "\<bar>of_int n :: real\<bar> = of_int \<bar>n\<bar>" by simp
  also have "\<dots> < of_int (2 ^ p)" using assms(1) by (simp only: of_int_less_iff)
  also have "\<dots> = 2 powr of_int (int p)" by (simp add: powr_realpow)
  also have "\<dots> \<le> 2 powr of_int (emax + 1)" using assms(3) by simp
  finally show "\<bar>of_int n :: real\<bar> < 2 powr of_int (emax + 1)" .
qed

lemma float32_int: "\<bar>n\<bar> < 16777216 \<Longrightarrow> float32 ieee (of_int n) = Some (of_int n)"
  by (simp add: ieee_def ieee_round_int)

lemma float64_int: "\<bar>n\<bar> < 9007199254740992 \<Longrightarrow> float64 ieee (of_int n) = Some (of_int n)"
  by (simp add: ieee_def ieee_round_int)

lemma float32_numeral [simp]:
  "(numeral k :: int) < 16777216 \<Longrightarrow> float32 ieee (numeral k) = Some (numeral k)"
  "(numeral k :: int) < 16777216 \<Longrightarrow> float32 ieee (- numeral k) = Some (- numeral k)"
  "float32 ieee 0 = Some 0" "float32 ieee 1 = Some 1" "float32 ieee (- 1) = Some (- 1)"
  using float32_int [of "numeral k"] float32_int [of "- numeral k"]
    float32_int [of 0] float32_int [of 1] float32_int [of "- 1"]
  by simp_all

lemma float64_numeral [simp]:
  "(numeral k :: int) < 9007199254740992 \<Longrightarrow> float64 ieee (numeral k) = Some (numeral k)"
  "(numeral k :: int) < 9007199254740992 \<Longrightarrow> float64 ieee (- numeral k) = Some (- numeral k)"
  "float64 ieee 0 = Some 0" "float64 ieee 1 = Some 1" "float64 ieee (- 1) = Some (- 1)"
  using float64_int [of "numeral k"] float64_int [of "- numeral k"]
    float64_int [of 0] float64_int [of 1] float64_int [of "- 1"]
  by simp_all

lemma ieee_round_unit:
  assumes q: "0 \<le> q" "q \<le> 1" and p: "0 < p" and emin: "emin \<le> 0" and emax: "0 \<le> emax"
  shows "\<exists>u. ieee_round p emin emax q = Some u \<and> 0 \<le> u \<and> u \<le> 1"
proof (cases "q = 0")
  case True
  then show ?thesis by (simp add: ieee_round_def)
next
  case False
  with q have q0: "0 < q" by simp
  define e where "e = max emin \<lfloor>log 2 \<bar>q\<bar>\<rfloor>"
  define u :: real where "u = 2 powr of_int (e - int p + 1)"
  define y :: real where "y = of_int (round_even (q / u)) * u"
  have u0: "0 < u" by (simp add: u_def)
  from q0 q(2) have "log 2 \<bar>q\<bar> \<le> 0" by (simp add: log_le_zero_cancel_iff)
  then have "\<lfloor>log 2 \<bar>q\<bar>\<rfloor> \<le> 0" by (simp add: floor_le_zero) 
  with emin have e0: "e \<le> 0" by (simp add: e_def)
  define N :: int where "N = 2 ^ nat (int p - 1 - e)"
  have "1 / u = 2 powr of_int (int p - 1 - e)"
    by (simp add: u_def powr_minus [symmetric] divide_inverse algebra_simps)
  also have "\<dots> = of_int N"
    using e0 p by (simp add: N_def powr_realpow [symmetric])
  finally have N: "1 / u = of_int N" .
  from q(2) u0 have "q / u \<le> 1 / u" by (simp add: divide_right_mono)
  then have "round_even (q / u) \<le> N" unfolding N by (rule round_even_le)
  then have "of_int (round_even (q / u)) * u \<le> of_int N * u"
    using u0 by (simp add: mult_right_mono)
  also have "of_int N * u = 1" using N u0 by (simp add: field_simps)
  finally have y1: "y \<le> 1" by (simp add: y_def)
  from q0 u0 have "0 \<le> q / u" by simp
  then have "0 \<le> round_even (q / u)" by (rule round_even_nonneg)
  with u0 have y0: "0 \<le> y" by (simp add: y_def)
  have "(1 :: real) = 2 powr 0" by simp
  also have "\<dots> < 2 powr of_int (emax + 1)" using emax by simp
  finally have "\<bar>y\<bar> < 2 powr of_int (emax + 1)" using y0 y1 by simp
  then have "ieee_round p emin emax q = Some y"
    unfolding ieee_round_def Let_def e_def [symmetric] u_def [symmetric] y_def [symmetric]
    using False by simp
  with y0 y1 show ?thesis by simp
qed

lemma keeps_unit_float32: "keeps_unit (float32 ieee)"
  by (simp add: keeps_unit_def ieee_def ieee_round_unit)

lemma ieee_round_eval:
  assumes "2 powr of_int e \<le> \<bar>x\<bar>" "\<bar>x\<bar> < 2 powr of_int (e + 1)" "emin \<le> e"
  shows "ieee_round p emin emax x =
           (let u = 2 powr of_int (e - int p + 1); y = of_int (round_even (x / u)) * u
            in if \<bar>y\<bar> < 2 powr of_int (emax + 1) then Some y else None)"
proof -
  have "0 < (2 :: real) powr of_int e" by simp
  with assms(1) have x0: "0 < \<bar>x\<bar>" by linarith
  then have nz: "x \<noteq> 0" by simp
  from x0 assms(1) have "of_int e \<le> log 2 \<bar>x\<bar>" by (simp add: le_log_iff)
  moreover from x0 assms(2) have "log 2 \<bar>x\<bar> < of_int e + 1" by (simp add: log_less_iff)
  ultimately have "\<lfloor>log 2 \<bar>x\<bar>\<rfloor> = e" by (simp add: floor_eq_iff)
  with assms(3) have "max emin \<lfloor>log 2 \<bar>x\<bar>\<rfloor> = e" by simp
  with nz show ?thesis by (simp add: ieee_round_def)
qed

lemma float32_dyadic:
  assumes "\<bar>m\<bar> < 16777216" "k \<le> 149"
  shows "float32 ieee (of_int m / 2 ^ k) = Some (of_int m / 2 ^ k)"
proof -
  have x: "(of_int m / 2 ^ k :: real) = of_int m * 2 powr of_int (- int k)"
    by (simp add: powr_minus powr_realpow divide_inverse)
  have "\<bar>of_int m / 2 ^ k :: real\<bar> \<le> \<bar>of_int m\<bar>"
    by (simp add: abs_divide divide_le_eq mult_le_cancel_left1)
  also have "\<dots> = of_int \<bar>m\<bar>" by simp
  also have "\<dots> < of_int 16777216" using assms(1) by (simp only: of_int_less_iff)
  also have "\<dots> < 2 powr of_int (127 + 1)" by simp
  finally have b: "\<bar>of_int m / 2 ^ k :: real\<bar> < 2 powr of_int (127 + 1)" .
  have "ieee_round 24 (- 126) 127 (of_int m / 2 ^ k) = Some (of_int m / 2 ^ k)"
    using assms by (intro ieee_round_exact [OF x _ _ b]) simp_all
  then show ?thesis by (simp add: ieee_def)
qed

lemma float64_dyadic:
  assumes "\<bar>m\<bar> < 9007199254740992" "k \<le> 1074"
  shows "float64 ieee (of_int m / 2 ^ k) = Some (of_int m / 2 ^ k)"
proof -
  have x: "(of_int m / 2 ^ k :: real) = of_int m * 2 powr of_int (- int k)"
    by (simp add: powr_minus powr_realpow divide_inverse)
  have "\<bar>of_int m / 2 ^ k :: real\<bar> \<le> \<bar>of_int m\<bar>"
    by (simp add: abs_divide divide_le_eq mult_le_cancel_left1)
  also have "\<dots> = of_int \<bar>m\<bar>" by simp
  also have "\<dots> < of_int 9007199254740992" using assms(1) by (simp only: of_int_less_iff)
  also have "\<dots> < 2 powr of_int (1023 + 1)" by simp
  finally have b: "\<bar>of_int m / 2 ^ k :: real\<bar> < 2 powr of_int (1023 + 1)" .
  have "ieee_round 53 (- 1022) 1023 (of_int m / 2 ^ k) = Some (of_int m / 2 ^ k)"
    using assms by (intro ieee_round_exact [OF x _ _ b]) simp_all
  then show ?thesis by (simp add: ieee_def)
qed

lemma round_to_float32 [simp]:
  "(numeral k :: int) < 16777216 \<Longrightarrow> round_to (float32 ieee) (numeral k) = Fin (numeral k)"
  "(numeral k :: int) < 16777216 \<Longrightarrow> round_to (float32 ieee) (- numeral k) = Fin (- numeral k)"
  "round_to (float32 ieee) 0 = Fin 0" "round_to (float32 ieee) 1 = Fin 1"
  "round_to (float32 ieee) (- 1) = Fin (- 1)"
  by (simp_all add: round_to_def)

lemma round_to_float64 [simp]:
  "(numeral k :: int) < 9007199254740992 \<Longrightarrow> round_to (float64 ieee) (numeral k) = Fin (numeral k)"
  "(numeral k :: int) < 9007199254740992 \<Longrightarrow> round_to (float64 ieee) (- numeral k) = Fin (- numeral k)"
  "round_to (float64 ieee) 0 = Fin 0" "round_to (float64 ieee) 1 = Fin 1"
  "round_to (float64 ieee) (- 1) = Fin (- 1)"
  by (simp_all add: round_to_def)

lemma float32_eval:
  assumes "2 powr of_int e \<le> \<bar>x\<bar>" "\<bar>x\<bar> < 2 powr of_int (e + 1)" "- 126 \<le> e"
    and "y = of_int (round_even (x / 2 powr of_int (e - 23))) * 2 powr of_int (e - 23)"
    and "\<bar>y\<bar> < 2 powr 128"
  shows "round_to (float32 ieee) x = Fin y"
  using ieee_round_eval [OF assms(1,2,3), of 24 127] assms(4,5)
  by (simp add: ieee_def round_to_def Let_def)

lemma round_even_numeral [simp]: "round_even (numeral k) = numeral k"
  using round_even_of_int [of "numeral k"] by simp

lemma float64_overflow: "round_to (float64 ieee) (2 ^ 1024) = PInf"
proof -
  have "ieee_round 53 (- 1022) 1023 (2 ^ 1024) =
           (let u = 2 powr of_int (1024 - int 53 + 1);
                y = of_int (round_even (2 ^ 1024 / u)) * u
            in if \<bar>y\<bar> < 2 powr of_int (1023 + 1) then Some y else None)"
    by (rule ieee_round_eval) (simp_all add: powr_realpow [symmetric])
  then have "ieee_round 53 (- 1022) 1023 (2 ^ 1024) = None"
    by (simp add: Let_def)
  then show ?thesis by (simp add: ieee_def round_to_def)
qed

text \<open>
  The numbers 0.1, 0.2, 0.4 and 0.8 as 32-bit floats, and the roundings met when
  \<open>enlargeBox\<close> runs on them.
\<close>

lemma float32_tenths:
  "round_to (float32 ieee) (1 / 10) = Fin (13421773 / 134217728)"
  "round_to (float32 ieee) (2 / 10) = Fin (13421773 / 67108864)"
  "round_to (float32 ieee) (4 / 10) = Fin (13421773 / 33554432)"
  "round_to (float32 ieee) (8 / 10) = Fin (13421773 / 16777216)"
     apply (rule float32_eval [where e = "- 4"]; simp add: round_even_def Let_def powr_neg_numeral)
    apply (rule float32_eval [where e = "- 3"]; simp add: round_even_def Let_def powr_neg_numeral)
   apply (rule float32_eval [where e = "- 2"]; simp add: round_even_def Let_def powr_neg_numeral)
  apply (rule float32_eval [where e = "- 1"]; simp add: round_even_def Let_def powr_neg_numeral)
  done

lemma float32_size_x: "round_to (float32 ieee) (40265319 / 134217728) = Fin (5033165 / 16777216)"
  by (rule float32_eval [where e = "- 2"]) (simp_all add: round_even_def Let_def powr_neg_numeral)

lemma float32_center_x: "round_to (float32 ieee) (67108865 / 268435456) = Fin (1 / 4)"
  by (rule float32_eval [where e = "- 2"]) (simp_all add: round_even_def Let_def powr_neg_numeral)

lemma f32_exact:
  "round_to (float32 ieee) (5033165 / 33554432) = Fin (5033165 / 33554432)"
  "round_to (float32 ieee) (3355443 / 33554432) = Fin (3355443 / 33554432)"
  "round_to (float32 ieee) (13421773 / 33554432) = Fin (13421773 / 33554432)"
  "round_to (float32 ieee) (5033165 / 16777216) = Fin (5033165 / 16777216)"
  "round_to (float32 ieee) (3355443 / 16777216) = Fin (3355443 / 16777216)"
  "round_to (float32 ieee) (13421773 / 16777216) = Fin (13421773 / 16777216)"
  using float32_dyadic [of 5033165 25] float32_dyadic [of 3355443 25]
    float32_dyadic [of 13421773 25] float32_dyadic [of 5033165 24]
    float32_dyadic [of 3355443 24] float32_dyadic [of 13421773 24]
  by (simp_all add: round_to_def)

lemma f64_exact:
  "round_to (float64 ieee) (40265319 / 134217728) = Fin (40265319 / 134217728)"
  "round_to (float64 ieee) (40265319 / 268435456) = Fin (40265319 / 268435456)"
  "round_to (float64 ieee) (67108865 / 268435456) = Fin (67108865 / 268435456)"
  "round_to (float64 ieee) (40265319 / 67108864) = Fin (40265319 / 67108864)"
  "round_to (float64 ieee) (67108865 / 134217728) = Fin (67108865 / 134217728)"
  "round_to (float64 ieee) (5033165 / 16777216) = Fin (5033165 / 16777216)"
  "round_to (float64 ieee) (5033165 / 33554432) = Fin (5033165 / 33554432)"
  "round_to (float64 ieee) (5033165 / 8388608) = Fin (5033165 / 8388608)"
  "round_to (float64 ieee) (1 / 4) = Fin (1 / 4)"
  "round_to (float64 ieee) (1 / 2) = Fin (1 / 2)"
  using float64_dyadic [of 40265319 27] float64_dyadic [of 40265319 28]
    float64_dyadic [of 67108865 28] float64_dyadic [of 40265319 26]
    float64_dyadic [of 67108865 27] float64_dyadic [of 5033165 24]
    float64_dyadic [of 5033165 25] float64_dyadic [of 5033165 23]
    float64_dyadic [of 1 2] float64_dyadic [of 1 1]
  by (simp_all add: round_to_def)

lemma float32_size_y: "round_to (float32 ieee) (40265319 / 67108864) = Fin (5033165 / 8388608)"
  by (rule float32_eval [where e = "- 1"]) (simp_all add: round_even_def Let_def powr_neg_numeral)

lemma float32_center_y: "round_to (float32 ieee) (67108865 / 134217728) = Fin (1 / 2)"
  by (rule float32_eval [where e = "- 1"]) (simp_all add: round_even_def Let_def powr_neg_numeral)




text \<open>
  One axis of \<open>enlargeBox\<close> when no operation rounds: size, center, new start and new
  end are the exact values, and the center and size of the result follow.
\<close>

lemma enlarge_axis:
  assumes e64: "exact_on r64 (enlarge_steps64 a b k)"
    and e32: "exact_on r32 (enlarge_steps32 a b k)"
    and sz: "sz = num_abs (num_sub r64 (Fin b) (Fin a))"
    and cen: "cen = num_add r64 (Fin a) (num_div r64 (num_sub r64 (Fin b) (Fin a)) (Fin 2))"
    and n: "n = num_mul r32 (num_div r32 (store r32 sz) (store r32 (Fin 2))) (store r32 (Fin k))"
    and A: "A = num_sub r32 (store r32 cen) n"
    and B: "B = num_add r32 (store r32 cen) n"
  shows "sz = Fin \<bar>b - a\<bar>" "cen = Fin (a + (b - a) / 2)"
    and "A = Fin (a + (b - a) / 2 - \<bar>b - a\<bar> * k / 2)"
    and "B = Fin (a + (b - a) / 2 + \<bar>b - a\<bar> * k / 2)"
    and "num_add r64 A (num_div r64 (num_sub r64 B A) (Fin 2)) = Fin (a + (b - a) / 2)"
    and "num_abs (num_sub r64 B A) = Fin (\<bar>k\<bar> * \<bar>b - a\<bar>)"
proof -
  let ?d = "b - a" and ?w = "\<bar>b - a\<bar>" and ?c = "a + (b - a) / 2" and ?n = "\<bar>b - a\<bar> / 2 * k"
  from e64 have d: "round_to r64 ?d = Fin ?d" and d2: "round_to r64 (?d / 2) = Fin (?d / 2)"
    and c: "round_to r64 ?c = Fin ?c" and n2: "round_to r64 (2 * ?n) = Fin (2 * ?n)"
    and n64: "round_to r64 ?n = Fin ?n"
    by (simp_all add: exact_on_def enlarge_steps64_def round_to_exact)
  from e32 have w: "round_to r32 ?w = Fin ?w" and two: "round_to r32 2 = Fin 2"
    and w2: "round_to r32 (?w / 2) = Fin (?w / 2)" and k: "round_to r32 k = Fin k"
    and n32: "round_to r32 ?n = Fin ?n" and c32: "round_to r32 ?c = Fin ?c"
    and a32: "round_to r32 (?c - ?n) = Fin (?c - ?n)" and b32: "round_to r32 (?c + ?n) = Fin (?c + ?n)"
    by (simp_all add: exact_on_def enlarge_steps32_def round_to_exact)
  have sub: "num_sub r64 (Fin b) (Fin a) = Fin ?d"
    by (simp add: num_sub_def d)
  show 1: "sz = Fin ?w" by (simp add: sz sub)
  have "num_div r64 (Fin ?d) (Fin 2) = Fin (?d / 2)"
    by (simp add: num_div_def d2)
  then show 2: "cen = Fin ?c" by (simp add: cen sub c)
  have "num_div r32 (Fin ?w) (Fin 2) = Fin (?w / 2)" by (simp add: num_div_def w2)
  moreover from n32 have "round_to r32 (?w * k / 2) = Fin (?w * k / 2)" by simp
  ultimately have 3: "n = Fin ?n" by (simp add: n 1 w two k num_mul_def)
  from a32 have a32n: "round_to r32 (?c - ?w * k / 2) = Fin (?c - ?w * k / 2)" by simp
  from b32 have b32n: "round_to r32 (?c + ?w * k / 2) = Fin (?c + ?w * k / 2)" by simp
  have 4: "A = Fin (?c - ?n)" by (simp add: A 2 3 c32 num_sub_def a32n)
  have 5: "B = Fin (?c + ?n)" by (simp add: B 2 3 c32 b32n)
  show "A = Fin (?c - ?w * k / 2)" using 4 by simp
  show "B = Fin (?c + ?w * k / 2)" using 5 by simp
  have diff: "?c + ?n - (?c - ?n) = 2 * ?n" by simp
  have eq2: "?c + ?n + - (?c - ?n) = 2 * ?n" by simp
  have s64: "num_sub r64 B A = Fin (2 * ?n)"
    unfolding 4 5 num_sub_def num_neg.simps num_add.simps eq2 by (rule n2)
  have eq3: "2 * ?n / 2 = ?n" by simp
  have "num_div r64 (Fin (2 * ?n)) (Fin 2) = round_to r64 (2 * ?n / 2)"
    by (simp add: num_div_def)
  then have h64: "num_div r64 (Fin (2 * ?n)) (Fin 2) = Fin ?n"
    by (simp only: eq3 n64)
  have bk: "?c - ?n + ?n = ?c" by simp
  have "num_add r64 A (num_div r64 (num_sub r64 B A) (Fin 2)) = num_add r64 A (Fin ?n)"
    by (simp only: s64 h64)
  also have "\<dots> = Fin ?c"
    unfolding 4 num_add.simps bk by (rule c)
  finally show "num_add r64 A (num_div r64 (num_sub r64 B A) (Fin 2)) = Fin ?c" .
  have "\<bar>2 * ?n\<bar> = \<bar>k\<bar> * ?w" by (simp add: abs_mult)
  then show "num_abs (num_sub r64 B A) = Fin (\<bar>k\<bar> * ?w)"
    by (simp add: s64)
qed

lemma getBoxCenter_mk:
  "getBoxCenter ar \<lparr>hostStartPoint = (a, b), hostEndPoint = (c, d), hostLandmarks = l\<rparr>
     = (num_add (float64 ar) a (num_div (float64 ar) (num_sub (float64 ar) c a) (Fin 2)),
        num_add (float64 ar) b (num_div (float64 ar) (num_sub (float64 ar) d b) (Fin 2)))"
  by (simp add: getBoxCenter_def)

lemma getBoxSize_mk:
  "getBoxSize ar \<lparr>hostStartPoint = (a, b), hostEndPoint = (c, d), hostLandmarks = l\<rparr>
     = (num_abs (num_sub (float64 ar) c a), num_abs (num_sub (float64 ar) d b))"
  by (simp add: getBoxSize_def)

text \<open>A coordinate inside the image, divided by the image dimension.\<close>

lemma unit_quotient:
  assumes "keeps_unit r" "r (real n) = Some (real n)" "0 < n" "0 \<le> a" "a \<le> real n"
  shows "in_unit (num_div r (Fin a) (store r (Fin (real n))))"
proof -
  from assms(3,4,5) have "0 \<le> a / real n \<and> a / real n \<le> 1" by simp
  with assms(1) obtain u where "r (a / real n) = Some u" "0 \<le> u" "u \<le> 1"
    unfolding keeps_unit_def by blast
  with assms(2,3) show ?thesis
    by (simp add: num_div_def round_to_def)
qed

section \<open>BoxGeometry: size\<close>




text \<open>
  A difference too large for a 64-bit float: start \<open>[-2^1023, 0]\<close> and end
  \<open>[2^1023, 1]\<close> give the size \<open>[+Infinity, 1]\<close>, which is non-negative.
\<close>

lemma getBoxSize_overflow_example:
  "getBoxSize ieee \<lparr>hostStartPoint = (Fin (- (2 ^ 1023)), Fin 0),
                     hostEndPoint = (Fin (2 ^ 1023), Fin 1), hostLandmarks = None\<rparr>
     = (PInf, Fin 1)
   \<and> is_nonneg PInf"
proof -
  have "(2 :: real) ^ 1023 - - (2 ^ 1023) = 2 ^ 1024" by simp
  then show ?thesis
    by (simp add: getBoxSize_def num_sub_def float64_overflow del: power_numeral)
qed

section \<open>BoxFactory\<close>

text \<open>
  C6. Called with a combined buffer of \<open>n\<close> rows and four columns and no explicit
  points, \<open>createBox\<close> allocates two new tensors of two columns each: \<open>startPoint\<close>
  holds columns 0 and 1 of the buffer and \<open>endPoint\<close> holds columns 2 and 3. Explicit
  start and end arguments are used as they are; with both supplied nothing is allocated.
\<close>

theorem createBox_derives_points:
  "(holds s ste x \<and> wf_tensor x \<and> shape x = [n, 4] \<longrightarrow>
      (\<exists>a b. createBox ste None None s
                = (Inr \<lparr>startPoint = Some (length s), endPoint = Suc (length s),
                         startEndTensor = ste, landmarks = None :: 'l option\<rparr>,
                   s @ [fresh a, fresh b])
          \<and> shape a = [n, 2] \<and> shape b = [n, 2]
          \<and> (\<forall>i<n. \<forall>j<2. entry a i j = entry x i j \<and> entry b i j = entry x i (2 + j))))
   \<and> createBox ste (Some p) (Some q) s
       = (Inr \<lparr>startPoint = Some p, endPoint = q, startEndTensor = ste,
                landmarks = None :: 'l option\<rparr>, s)
   \<and> (\<forall>(r :: 'l Box) s'. createBox ste (Some p) eo s = (Inr r, s') \<longrightarrow> startPoint r = Some p)
   \<and> (\<forall>(r :: 'l Box) s'. createBox ste so (Some q) s = (Inr r, s') \<longrightarrow> endPoint r = q)"
proof (intro conjI impI allI)
  assume h: "holds s ste x \<and> wf_tensor x \<and> shape x = [n, 4]"
  then have shp: "shape x = [n, 4]" and wf: "wf_tensor x" and hs: "holds s ste x" by simp_all
  obtain a where a: "slice x (0, 0) (-1, 2) = Inr a"
    using slice_cols [OF shp, of 0 2] by simp
  obtain b where b: "slice x (0, 2) (-1, 2) = Inr b"
    using slice_cols [OF shp, of 2 2] by simp
  have run: "createBox ste None None s
           = (Inr \<lparr>startPoint = Some (length s), endPoint = Suc (length s),
                    startEndTensor = ste, landmarks = None :: 'l option\<rparr>,
              s @ [fresh a, fresh b])"
    using hs a b by (rule createBox_derive)
  have sa: "shape a = [n, 2]" using wf_slice_cols [OF wf shp, of 0 2 a] a by simp
  have sb: "shape b = [n, 2]" using wf_slice_cols [OF wf shp, of 2 2 b] b by simp
  have ea: "entry a i j = entry x i j" if "i < n" "j < 2" for i j
    using entry_slice_cols [OF wf shp, of 0 2 a i j] a that by simp
  have eb: "entry b i j = entry x i (2 + j)" if "i < n" "j < 2" for i j
    using entry_slice_cols [OF wf shp, of 2 2 b i j] b that by simp
  show "\<exists>a b. createBox ste None None s
                = (Inr \<lparr>startPoint = Some (length s), endPoint = Suc (length s),
                         startEndTensor = ste, landmarks = None :: 'l option\<rparr>,
                   s @ [fresh a, fresh b])
          \<and> shape a = [n, 2] \<and> shape b = [n, 2]
          \<and> (\<forall>i<n. \<forall>j<2. entry a i j = entry x i j \<and> entry b i j = entry x i (2 + j))"
    using run sa sb ea eb by blast
next
  show "createBox ste (Some p) (Some q) s
       = (Inr \<lparr>startPoint = Some p, endPoint = q, startEndTensor = ste,
                landmarks = None :: 'l option\<rparr>, s)"
    by (simp add: createBox_def tf_bind_def tf_return_def)
next
  fix r :: "'l Box" and s'
  assume "createBox ste (Some p) eo s = (Inr r, s')"
  then show "startPoint r = Some p"
    by (auto simp: createBox_def tf_bind_def tf_return_def split: prod.splits sum.splits)
next
  fix r :: "'l Box" and s'
  assume "createBox ste so (Some q) s = (Inr r, s')"
  then show "endPoint r = q"
    by (auto simp: createBox_def tf_bind_def tf_return_def split: prod.splits sum.splits)
qed

theorem createBox_derives_points_witness:
  "holds [fresh \<lparr>shape = [1, 4], vals = [Fin 0, Fin 0, Fin 10, Fin 10]\<rparr>] 0
         \<lparr>shape = [1, 4], vals = [Fin 0, Fin 0, Fin 10, Fin 10]\<rparr>
   \<and> wf_tensor \<lparr>shape = [1, 4], vals = [Fin 0, Fin 0, Fin 10, Fin 10]\<rparr>
   \<and> (\<exists>a b. createBox 0 None None [fresh \<lparr>shape = [1, 4], vals = [Fin 0, Fin 0, Fin 10, Fin 10]\<rparr>]
                = (Inr \<lparr>startPoint = Some 1, endPoint = 2, startEndTensor = 0,
                         landmarks = None :: unit option\<rparr>,
                   [fresh \<lparr>shape = [1, 4], vals = [Fin 0, Fin 0, Fin 10, Fin 10]\<rparr>, fresh a, fresh b])
          \<and> shape a = [1, 2] \<and> shape b = [1, 2]
          \<and> entry a 0 0 = Fin 0 \<and> entry a 0 1 = Fin 0 \<and> entry b 0 0 = Fin 10 \<and> entry b 0 1 = Fin 10)
   \<and> createBox 0 None None [fresh \<lparr>shape = [1, 4], vals = [Fin 0, Fin 0, Fin 10, Fin 10]\<rparr>]
       = (Inr \<lparr>startPoint = Some 1, endPoint = 2, startEndTensor = 0,
                landmarks = None :: unit option\<rparr>,
          [fresh \<lparr>shape = [1, 4], vals = [Fin 0, Fin 0, Fin 10, Fin 10]\<rparr>,
           fresh \<lparr>shape = [1, 2], vals = [Fin 0, Fin 0]\<rparr>,
           fresh \<lparr>shape = [1, 2], vals = [Fin 10, Fin 10]\<rparr>])
   \<and> createBox 0 (Some 7) (Some 8) [fresh \<lparr>shape = [1, 4], vals = [Fin 0, Fin 0, Fin 10, Fin 10]\<rparr>]
       = (Inr \<lparr>startPoint = Some 7, endPoint = 8, startEndTensor = 0,
                landmarks = None :: unit option\<rparr>,
          [fresh \<lparr>shape = [1, 4], vals = [Fin 0, Fin 0, Fin 10, Fin 10]\<rparr>])"
proof -
  let ?x = "\<lparr>shape = [1, 4], vals = [Fin 0, Fin 0, Fin 10, Fin 10]\<rparr>"
  have h: "holds [fresh ?x] 0 ?x \<and> wf_tensor ?x \<and> shape ?x = [1, 4]"
    by (simp add: holds_def fresh_def wf_tensor_def)
  note t = createBox_derives_points [where 'l = unit and s = "[fresh ?x]" and ste = 0 and x = ?x and n = 1
      and p = 7 and q = 8]
  from t h have "\<exists>a b. createBox 0 None None [fresh ?x]
                = (Inr \<lparr>startPoint = Some (length [fresh ?x]), endPoint = Suc (length [fresh ?x]),
                         startEndTensor = 0, landmarks = None :: unit option\<rparr>,
                   [fresh ?x] @ [fresh a, fresh b])
          \<and> shape a = [1, 2] \<and> shape b = [1, 2]
          \<and> (\<forall>i<1. \<forall>j<2. entry a i j = entry ?x i j \<and> entry b i j = entry ?x i (2 + j))"
    by blast
  then obtain a b where
    ab0: "createBox 0 None None [fresh ?x]
                = (Inr \<lparr>startPoint = Some (length [fresh ?x]), endPoint = Suc (length [fresh ?x]),
                         startEndTensor = 0, landmarks = None :: unit option\<rparr>,
                   [fresh ?x] @ [fresh a, fresh b])"
      and ab23: "shape a = [1, 2]" "shape b = [1, 2]"
      and ab4: "\<forall>i<1. \<forall>j<2. entry a i j = entry ?x i j \<and> entry b i j = entry ?x i (2 + j)"
    by blast
  from ab0 have ab1: "createBox 0 None None [fresh ?x]
                = (Inr \<lparr>startPoint = Some 1, endPoint = 2, startEndTensor = 0,
                         landmarks = None :: unit option\<rparr>, [fresh ?x, fresh a, fresh b])"
    by simp
  have es: "entry a 0 0 = Fin 0 \<and> entry a 0 1 = Fin 0 \<and> entry b 0 0 = Fin 10 \<and> entry b 0 1 = Fin 10"
    using ab4 [rule_format, of 0 0] ab4 [rule_format, of 0 1]
    by (simp add: entry_literal component_def)
  have run: "createBox 0 None None [fresh ?x]
       = (Inr \<lparr>startPoint = Some 1, endPoint = 2, startEndTensor = 0,
                landmarks = None :: unit option\<rparr>,
          [fresh ?x, fresh \<lparr>shape = [1, 2], vals = [Fin 0, Fin 0]\<rparr>,
           fresh \<lparr>shape = [1, 2], vals = [Fin 10, Fin 10]\<rparr>])"
    by (simp add: createBox_def tf_bind_def tf_return_def tf_slice_def tf_lift_def deref_def
        fresh_def alloc_def slice_def slice_extent_def)
  have both: "createBox 0 (Some 7) (Some 8) [fresh ?x]
       = (Inr \<lparr>startPoint = Some 7, endPoint = 8, startEndTensor = 0,
                landmarks = None :: unit option\<rparr>, [fresh ?x])"
    using t by blast
  show ?thesis
    using h ab1 ab23 es run both by blast
qed

text \<open>
  C4. For a Box whose fields are mutually consistent, concatenating \<open>startPoint\<close> and
  \<open>endPoint\<close> along the coordinate axis yields a tensor equal to \<open>startEndTensor\<close>;
  every Box that \<open>createBox\<close> builds from a four-column buffer alone is consistent.
\<close>

theorem consistent_box_roundtrip:
  "(consistent s b \<longrightarrow>
      tf_concat2d [opt_ref (startPoint b), Ref (endPoint b)] 1 s
        = (Inr (length s), s @ [fresh (content (s ! startEndTensor b))]))
   \<and> (holds s ste x \<and> wf_tensor x \<and> shape x = [n, 4] \<longrightarrow>
        (\<exists>(b' :: 'l Box) s'. createBox ste None None s = (Inr b', s') \<and> consistent s' b'))"
proof (intro conjI impI)
  assume c: "consistent s b"
  then obtain p where p: "startPoint b = Some p"
    by (auto simp: consistent_def split: option.splits)
  let ?x = "content (s ! startEndTensor b)"
  let ?a = "content (s ! p)"
  let ?c = "content (s ! endPoint b)"
  from c p have wf: "wf_tensor ?x" and rk: "length (shape ?x) = 2" and cl: "cols_of ?x = 4"
    and ha: "holds s p ?a" and hc: "holds s (endPoint b) ?c"
    and sa: "slice ?x (0, 0) (-1, 2) = Inr ?a" and sc: "slice ?x (0, 2) (-1, 2) = Inr ?c"
    by (simp_all add: consistent_def Let_def holds_def live_def)
  from rk cl obtain n where shp: "shape ?x = [n, 4]"
    by (cases "shape ?x" rule: list.exhaust; simp add: cols_of_def split: list.splits)
  have cat: "concat2d [?a, ?c] 1 = Inr ?x"
    using wf shp sa sc by (rule concat2d_of_slices)
  have "deref_all [Ref p, Ref (endPoint b)] s = (Inr [?a, ?c], s)"
    by (intro deref_all_Cons deref_all_Nil deref_holds ha hc)
  then show "tf_concat2d [opt_ref (startPoint b), Ref (endPoint b)] 1 s
        = (Inr (length s), s @ [fresh ?x])"
    using cat by (simp add: p opt_ref_def tf_concat2d_run)
next
  assume "holds s ste x \<and> wf_tensor x \<and> shape x = [n, 4]"
  then show "\<exists>(b' :: 'l Box) s'. createBox ste None None s = (Inr b', s') \<and> consistent s' b'"
    using createBox_consistent by blast
qed

theorem consistent_box_roundtrip_witness:
  "consistent [fresh \<lparr>shape = [1, 4], vals = [Fin 0, Fin 0, Fin 10, Fin 10]\<rparr>,
               fresh \<lparr>shape = [1, 2], vals = [Fin 0, Fin 0]\<rparr>,
               fresh \<lparr>shape = [1, 2], vals = [Fin 10, Fin 10]\<rparr>]
              \<lparr>startPoint = Some 1, endPoint = 2, startEndTensor = 0, landmarks = None :: unit option\<rparr>
   \<and> tf_concat2d [Ref 1, Ref 2] 1
        [fresh \<lparr>shape = [1, 4], vals = [Fin 0, Fin 0, Fin 10, Fin 10]\<rparr>,
         fresh \<lparr>shape = [1, 2], vals = [Fin 0, Fin 0]\<rparr>,
         fresh \<lparr>shape = [1, 2], vals = [Fin 10, Fin 10]\<rparr>]
       = (Inr 3,
          [fresh \<lparr>shape = [1, 4], vals = [Fin 0, Fin 0, Fin 10, Fin 10]\<rparr>,
           fresh \<lparr>shape = [1, 2], vals = [Fin 0, Fin 0]\<rparr>,
           fresh \<lparr>shape = [1, 2], vals = [Fin 10, Fin 10]\<rparr>,
           fresh \<lparr>shape = [1, 4], vals = [Fin 0, Fin 0, Fin 10, Fin 10]\<rparr>])
   \<and> holds [fresh \<lparr>shape = [1, 4], vals = [Fin 0, Fin 0, Fin 10, Fin 10]\<rparr>] 0
         \<lparr>shape = [1, 4], vals = [Fin 0, Fin 0, Fin 10, Fin 10]\<rparr>
   \<and> wf_tensor \<lparr>shape = [1, 4], vals = [Fin 0, Fin 0, Fin 10, Fin 10]\<rparr>
   \<and> (\<exists>(b' :: unit Box) s'.
         createBox 0 None None [fresh \<lparr>shape = [1, 4], vals = [Fin 0, Fin 0, Fin 10, Fin 10]\<rparr>]
           = (Inr b', s') \<and> consistent s' b')"
proof -
  let ?x = "\<lparr>shape = [1, 4], vals = [Fin 0, Fin 0, Fin 10, Fin 10]\<rparr>"
  let ?s = "[fresh ?x, fresh \<lparr>shape = [1, 2], vals = [Fin 0, Fin 0]\<rparr>,
             fresh \<lparr>shape = [1, 2], vals = [Fin 10, Fin 10]\<rparr>]"
  let ?b = "\<lparr>startPoint = Some 1, endPoint = 2, startEndTensor = 0, landmarks = None :: unit option\<rparr>"
  have c: "consistent ?s ?b"
    by (simp add: consistent_def holds_def live_def fresh_def wf_tensor_def cols_of_def slice_def
        slice_extent_def)
  have h: "holds [fresh ?x] 0 ?x \<and> wf_tensor ?x \<and> shape ?x = [1, 4]"
    by (simp add: holds_def fresh_def wf_tensor_def)
  have "tf_concat2d [opt_ref (startPoint ?b), Ref (endPoint ?b)] 1 ?s
          = (Inr (length ?s), ?s @ [fresh (content (?s ! startEndTensor ?b))])"
    using consistent_box_roundtrip [where 'l = unit and s = ?s and b = ?b] c by blast
  then have r: "tf_concat2d [Ref 1, Ref 2] 1 ?s = (Inr 3, ?s @ [fresh ?x])"
    by (simp add: opt_ref_def fresh_def)
  have "\<exists>(b' :: unit Box) s'. createBox 0 None None [fresh ?x] = (Inr b', s') \<and> consistent s' b'"
    using consistent_box_roundtrip [where 'l = unit and s = "[fresh ?x]" and ste = 0 and x = ?x and n = 1] h
    by blast
  with c r h show ?thesis by simp
qed

section \<open>Running scaleBoxCoordinates\<close>

lemma scaleBoxCoordinates_run:
  assumes "startPoint box = Some sp"
    and "holds s sp \<lparr>shape = [1, 2], vals = [a, b]\<rparr>"
    and "holds s (endPoint box) \<lparr>shape = [1, 2], vals = [c, d]\<rparr>"
    and "factor_holds ar s f (tensor1d [fx, fy])"
  shows "scaleBoxCoordinates ar box f s
           = (Inr \<lparr>startPoint = Some (length s + 3), endPoint = length s + 4,
                    startEndTensor = length s + 2, landmarks = None :: 'm option\<rparr>,
              s @ [fresh \<lparr>shape = [1, 2], vals = [num_mul (float32 ar) a fx, num_mul (float32 ar) b fy]\<rparr>,
                   fresh \<lparr>shape = [1, 2], vals = [num_mul (float32 ar) c fx, num_mul (float32 ar) d fy]\<rparr>,
                   fresh \<lparr>shape = [1, 4],
                          vals = [num_mul (float32 ar) a fx, num_mul (float32 ar) b fy, num_mul (float32 ar) c fx, num_mul (float32 ar) d fy]\<rparr>,
                   fresh \<lparr>shape = [1, 2], vals = [num_mul (float32 ar) a fx, num_mul (float32 ar) b fy]\<rparr>,
                   fresh \<lparr>shape = [1, 2], vals = [num_mul (float32 ar) c fx, num_mul (float32 ar) d fy]\<rparr>])"
proof -
  let ?A = "\<lparr>shape = [1, 2], vals = [num_mul (float32 ar) a fx, num_mul (float32 ar) b fy]\<rparr>"
  let ?B = "\<lparr>shape = [1, 2], vals = [num_mul (float32 ar) c fx, num_mul (float32 ar) d fy]\<rparr>"
  let ?C = "\<lparr>shape = [1, 4], vals = [num_mul (float32 ar) a fx, num_mul (float32 ar) b fy, num_mul (float32 ar) c fx, num_mul (float32 ar) d fy]\<rparr>"
  let ?sa = "s @ [fresh ?A]"
  let ?sb = "s @ [fresh ?A, fresh ?B]"
  let ?sc = "s @ [fresh ?A, fresh ?B, fresh ?C]"
  have sp: "opt_ref (startPoint box) = Ref sp"
    using assms(1) by (simp add: opt_ref_def)
  have 1: "tf_mul ar (opt_ref (startPoint box)) (factor_arg ar f) s = (Inr (length s), ?sa)"
    unfolding tf_mul_def sp
    by (rule tf_binop_run [OF deref_holds [OF assms(2)] deref_factor [OF assms(4)] binop_12_2])
  have h2: "holds ?sa (endPoint box) \<lparr>shape = [1, 2], vals = [c, d]\<rparr>"
    using assms(3) by (rule holds_append)
  have f2: "factor_holds ar ?sa f (tensor1d [fx, fy])"
    using assms(4) by (rule factor_holds_append)
  have "tf_mul ar (Ref (endPoint box)) (factor_arg ar f) ?sa = (Inr (length ?sa), ?sa @ [fresh ?B])"
    unfolding tf_mul_def
    by (rule tf_binop_run [OF deref_holds [OF h2] deref_factor [OF f2] binop_12_2])
  then have 2: "tf_mul ar (Ref (endPoint box)) (factor_arg ar f) ?sa = (Inr (Suc (length s)), ?sb)"
    by simp
  have "deref (Ref (length s)) ?sb = (Inr ?A, ?sb)"
    by (simp add: deref_def fresh_def)
  moreover have "deref (Ref (Suc (length s))) ?sb = (Inr ?B, ?sb)"
    by (simp add: deref_def fresh_def nth_append)
  ultimately have "deref_all [Ref (length s), Ref (Suc (length s))] ?sb = (Inr [?A, ?B], ?sb)"
    by (intro deref_all_Cons deref_all_Nil)
  then have 3: "tf_concat2d [Ref (length s), Ref (Suc (length s))] 1 ?sb
                  = (Inr (length s + 2), ?sc)"
    using tf_concat2d_run [of _ ?sb "[?A, ?B]" 1 ?C, OF _ concat2d_12_12] by simp
  have "holds ?sc (length s + 2) ?C"
    by (simp add: holds_def fresh_def nth_append)
  then have 4: "createBox (length s + 2) None None ?sc
           = (Inr \<lparr>startPoint = Some (length ?sc), endPoint = Suc (length ?sc),
                    startEndTensor = length s + 2, landmarks = None :: 'm option\<rparr>,
              ?sc @ [fresh ?A, fresh ?B])"
    by (rule createBox_derive [OF _ slice_14_start slice_14_end])
  have "(scaleBoxCoordinates ar box f s :: (error + 'm Box) \<times> engine)
          = createBox (length s + 2) None None ?sc"
    unfolding scaleBoxCoordinates_def
    by (simp only: tf_bind_def 1 2 3 prod.case sum.case)
  with 4 show ?thesis by simp
qed

section \<open>BoxScaler\<close>

text \<open>
  C5. For a Box whose \<open>startPoint\<close> is \<open>[a, b]\<close> and whose \<open>endPoint\<close> is
  \<open>[c, d]\<close> and a factor that converts to the 32-bit tensor \<open>[fx, fy]\<close>,
  \<open>scaleBoxCoordinates\<close> allocates the two scaled points, their concatenation, and the
  two slices that \<open>createBox\<close> derives from the concatenation; the returned Box refers to
  the concatenation and to the slices, whose values are the 32-bit products
  \<open>[a * fx, b * fy]\<close> and \<open>[c * fx, d * fy]\<close>. For the factor \<open>[2,2]\<close> on
  start \<open>[1,2]\<close> and end \<open>[3,4]\<close> the result has start \<open>[2,4]\<close> and end \<open>[6,8]\<close>.
\<close>

theorem scaleBoxCoordinates_scales:
  assumes "startPoint box = Some sp"
    and "holds s sp \<lparr>shape = [1, 2], vals = [a, b]\<rparr>"
    and "holds s (endPoint box) \<lparr>shape = [1, 2], vals = [c, d]\<rparr>"
    and "factor_holds ar s f (tensor1d [fx, fy])"
  shows "scaleBoxCoordinates ar box f s
           = (Inr \<lparr>startPoint = Some (length s + 3), endPoint = length s + 4,
                    startEndTensor = length s + 2, landmarks = None :: 'm option\<rparr>,
              s @ [fresh \<lparr>shape = [1, 2], vals = [num_mul (float32 ar) a fx, num_mul (float32 ar) b fy]\<rparr>,
                   fresh \<lparr>shape = [1, 2], vals = [num_mul (float32 ar) c fx, num_mul (float32 ar) d fy]\<rparr>,
                   fresh \<lparr>shape = [1, 4],
                          vals = [num_mul (float32 ar) a fx, num_mul (float32 ar) b fy, num_mul (float32 ar) c fx, num_mul (float32 ar) d fy]\<rparr>,
                   fresh \<lparr>shape = [1, 2], vals = [num_mul (float32 ar) a fx, num_mul (float32 ar) b fy]\<rparr>,
                   fresh \<lparr>shape = [1, 2], vals = [num_mul (float32 ar) c fx, num_mul (float32 ar) d fy]\<rparr>])"
  using assms by (rule scaleBoxCoordinates_run)

theorem scaleBoxCoordinates_scales_witness:
  "holds [fresh \<lparr>shape = [1, 2], vals = [Fin 1, Fin 2]\<rparr>,
          fresh \<lparr>shape = [1, 2], vals = [Fin 3, Fin 4]\<rparr>,
          fresh \<lparr>shape = [1, 4], vals = [Fin 1, Fin 2, Fin 3, Fin 4]\<rparr>] 0
         \<lparr>shape = [1, 2], vals = [Fin 1, Fin 2]\<rparr>
   \<and> holds [fresh \<lparr>shape = [1, 2], vals = [Fin 1, Fin 2]\<rparr>,
            fresh \<lparr>shape = [1, 2], vals = [Fin 3, Fin 4]\<rparr>,
            fresh \<lparr>shape = [1, 4], vals = [Fin 1, Fin 2, Fin 3, Fin 4]\<rparr>] 1
           \<lparr>shape = [1, 2], vals = [Fin 3, Fin 4]\<rparr>
   \<and> scaleBoxCoordinates ieee
         \<lparr>startPoint = Some 0, endPoint = 1, startEndTensor = 2, landmarks = None :: unit option\<rparr>
         (FactorPair (Fin 2) (Fin 2))
         [fresh \<lparr>shape = [1, 2], vals = [Fin 1, Fin 2]\<rparr>,
          fresh \<lparr>shape = [1, 2], vals = [Fin 3, Fin 4]\<rparr>,
          fresh \<lparr>shape = [1, 4], vals = [Fin 1, Fin 2, Fin 3, Fin 4]\<rparr>]
       = (Inr \<lparr>startPoint = Some 6, endPoint = 7, startEndTensor = 5,
                landmarks = None :: unit option\<rparr>,
          [fresh \<lparr>shape = [1, 2], vals = [Fin 1, Fin 2]\<rparr>,
           fresh \<lparr>shape = [1, 2], vals = [Fin 3, Fin 4]\<rparr>,
           fresh \<lparr>shape = [1, 4], vals = [Fin 1, Fin 2, Fin 3, Fin 4]\<rparr>,
           fresh \<lparr>shape = [1, 2], vals = [Fin 2, Fin 4]\<rparr>,
           fresh \<lparr>shape = [1, 2], vals = [Fin 6, Fin 8]\<rparr>,
           fresh \<lparr>shape = [1, 4], vals = [Fin 2, Fin 4, Fin 6, Fin 8]\<rparr>,
           fresh \<lparr>shape = [1, 2], vals = [Fin 2, Fin 4]\<rparr>,
           fresh \<lparr>shape = [1, 2], vals = [Fin 6, Fin 8]\<rparr>])"
proof -
  let ?s = "[fresh \<lparr>shape = [1, 2], vals = [Fin 1, Fin 2]\<rparr>,
          fresh \<lparr>shape = [1, 2], vals = [Fin 3, Fin 4]\<rparr>,
          fresh \<lparr>shape = [1, 4], vals = [Fin 1, Fin 2, Fin 3, Fin 4]\<rparr>]"
  let ?b = "\<lparr>startPoint = Some 0, endPoint = 1, startEndTensor = 2, landmarks = None :: unit option\<rparr>"
  have sp: "startPoint ?b = Some 0" by simp
  have hs: "holds ?s 0 \<lparr>shape = [1, 2], vals = [Fin 1, Fin 2]\<rparr>"
    and he: "holds ?s (endPoint ?b) \<lparr>shape = [1, 2], vals = [Fin 3, Fin 4]\<rparr>"
    by (simp_all add: holds_def fresh_def)
  have f: "factor_holds ieee ?s (FactorPair (Fin 2) (Fin 2)) (tensor1d [Fin 2, Fin 2])"
    by (simp add: factor_holds_def to_float32_tensor1d)
  show ?thesis
    using scaleBoxCoordinates_scales [where 'm = unit and ar = ieee, OF sp hs he f] hs he
    by (simp add: num_mul_def)
qed

section \<open>BoxEnlarger\<close>

text \<open>
  C1. For a Box whose \<open>startPoint\<close> and \<open>endPoint\<close> are readable and hold finite
  coordinates, and a finite factor \<open>k\<close> (1.5 when none is given), \<open>enlargeBox\<close>
  returns a Box with start \<open>center - newSize\<close> and end \<open>center + newSize\<close>, where
  \<open>center\<close> is the 64-bit center of the input stored as 32-bit floats, \<open>newSize\<close> is
  \<open>size / 2 * k\<close> computed on 32-bit floats, and the difference and the sum are rounded to
  32 bits. When none of these operations rounds (every value of \<open>enlarge_steps64\<close> and
  \<open>enlarge_steps32\<close> on both axes is stored exactly), the result has the center of the
  input, start \<open>center - size * k / 2\<close>, end \<open>center + size * k / 2\<close>, and its size is
  \<open>\<bar>k\<bar>\<close> times the size of the input (that is \<open>k\<close> times the size when \<open>k\<close> is not
  negative). The witness is the example of the specification under \<open>ieee\<close>: center
  \<open>[20,35]\<close>, size \<open>[20,30]\<close>, factor 2.
\<close>

theorem enlargeBox_keeps_center:
  assumes "hostBox s box = Some c"
    and "hostStartPoint c = (Fin x0, Fin y0)" "hostEndPoint c = (Fin x1, Fin y1)"
    and "(case factor' of None \<Rightarrow> Fin 1.5 | Some f \<Rightarrow> f) = Fin k"
  shows "\<exists>(b' :: 'm Box) s' c'.
           enlargeBox ar box factor' s = (Inr b', s') \<and> hostBox s' b' = Some c'
         \<and> hostStartPoint c'
             = (num_sub (float32 ar) (store (float32 ar) (fst (getBoxCenter ar c)))
                  (newSize ar (fst (getBoxSize ar c)) (Fin k)),
                num_sub (float32 ar) (store (float32 ar) (snd (getBoxCenter ar c)))
                  (newSize ar (snd (getBoxSize ar c)) (Fin k)))
         \<and> hostEndPoint c'
             = (num_add (float32 ar) (store (float32 ar) (fst (getBoxCenter ar c)))
                  (newSize ar (fst (getBoxSize ar c)) (Fin k)),
                num_add (float32 ar) (store (float32 ar) (snd (getBoxCenter ar c)))
                  (newSize ar (snd (getBoxSize ar c)) (Fin k)))
         \<and> (exact_on (float64 ar) (enlarge_steps64 x0 x1 k @ enlarge_steps64 y0 y1 k)
              \<and> exact_on (float32 ar) (enlarge_steps32 x0 x1 k @ enlarge_steps32 y0 y1 k) \<longrightarrow>
                getBoxCenter ar c = (Fin (x0 + (x1 - x0) / 2), Fin (y0 + (y1 - y0) / 2))
              \<and> getBoxSize ar c = (Fin \<bar>x1 - x0\<bar>, Fin \<bar>y1 - y0\<bar>)
              \<and> getBoxCenter ar c' = getBoxCenter ar c
              \<and> getBoxSize ar c' = (Fin (\<bar>k\<bar> * \<bar>x1 - x0\<bar>), Fin (\<bar>k\<bar> * \<bar>y1 - y0\<bar>))
              \<and> hostStartPoint c' = (Fin (x0 + (x1 - x0) / 2 - \<bar>x1 - x0\<bar> * k / 2),
                                      Fin (y0 + (y1 - y0) / 2 - \<bar>y1 - y0\<bar> * k / 2))
              \<and> hostEndPoint c' = (Fin (x0 + (x1 - x0) / 2 + \<bar>x1 - x0\<bar> * k / 2),
                                    Fin (y0 + (y1 - y0) / 2 + \<bar>y1 - y0\<bar> * k / 2)))"
proof -
  from assms(1) obtain sp where sp: "startPoint box = Some sp"
    by (auto simp: hostBox_def split: option.splits)
  let ?ts = "content (s ! sp)" and ?te = "content (s ! endPoint box)"
  from assms(1) sp have hs: "holds s sp ?ts" and he: "holds s (endPoint box) ?te"
    and c: "c = \<lparr>hostStartPoint = as_pair (vals ?ts), hostEndPoint = as_pair (vals ?te),
                  hostLandmarks = None\<rparr>"
    by (auto simp: hostBox_def holds_def live_def split: if_splits)
  let ?r = "float32 ar" and ?d = "float64 ar"
  let ?szx = "fst (getBoxSize ar c)" and ?szy = "snd (getBoxSize ar c)"
  let ?cx = "fst (getBoxCenter ar c)" and ?cy = "snd (getBoxCenter ar c)"
  let ?nx = "newSize ar ?szx (Fin k)" and ?ny = "newSize ar ?szy (Fin k)"
  let ?ax = "num_sub ?r (store ?r ?cx) ?nx" and ?ay = "num_sub ?r (store ?r ?cy) ?ny"
  let ?bx = "num_add ?r (store ?r ?cx) ?nx" and ?by = "num_add ?r (store ?r ?cy) ?ny"
  let ?A = "\<lparr>shape = [1, 2], vals = [?ax, ?ay]\<rparr>"
  let ?B = "\<lparr>shape = [1, 2], vals = [?bx, ?by]\<rparr>"
  let ?b = "\<lparr>startPoint = Some (length s + 3), endPoint = length s + 4,
                    startEndTensor = length s + 5, landmarks = None :: 'm option\<rparr>"
  let ?c' = "\<lparr>hostStartPoint = (?ax, ?ay), hostEndPoint = (?bx, ?by), hostLandmarks = None\<rparr>"
  obtain SZ HF NS C where run:
    "enlargeBox ar box factor' s
       = (Inr ?b, s @ [released SZ, released HF, released NS, fresh ?A, fresh ?B, fresh C])"
    using enlargeBox_run [where 'm = 'm and factor' = factor' and ar = ar,
        OF sp hs he c assms(4) [symmetric] refl refl refl refl refl refl refl refl]
    by (simp add: newSize_def)
  let ?s' = "s @ [released SZ, released HF, released NS, fresh ?A, fresh ?B, fresh C]"
  have cpu: "hostBox ?s' ?b = Some ?c'"
    by (simp add: hostBox_def live_def nth_append fresh_def as_pair_2)
  have szx: "?szx = num_abs (num_sub ?d (Fin x1) (Fin x0))"
    and szy: "?szy = num_abs (num_sub ?d (Fin y1) (Fin y0))"
    and cx: "?cx = num_add ?d (Fin x0) (num_div ?d (num_sub ?d (Fin x1) (Fin x0)) (Fin 2))"
    and cy: "?cy = num_add ?d (Fin y0) (num_div ?d (num_sub ?d (Fin y1) (Fin y0)) (Fin 2))"
    using assms(2,3) by (simp_all add: getBoxSize_def getBoxCenter_def)
  have nx: "?nx = num_mul ?r (num_div ?r (store ?r ?szx) (store ?r (Fin 2))) (store ?r (Fin k))"
    and ny: "?ny = num_mul ?r (num_div ?r (store ?r ?szy) (store ?r (Fin 2))) (store ?r (Fin k))"
    by (simp_all add: newSize_def)
  have ex: "getBoxCenter ar c = (Fin (x0 + (x1 - x0) / 2), Fin (y0 + (y1 - y0) / 2))
              \<and> getBoxSize ar c = (Fin \<bar>x1 - x0\<bar>, Fin \<bar>y1 - y0\<bar>)
              \<and> getBoxCenter ar ?c' = getBoxCenter ar c
              \<and> getBoxSize ar ?c' = (Fin (\<bar>k\<bar> * \<bar>x1 - x0\<bar>), Fin (\<bar>k\<bar> * \<bar>y1 - y0\<bar>))
              \<and> hostStartPoint ?c' = (Fin (x0 + (x1 - x0) / 2 - \<bar>x1 - x0\<bar> * k / 2),
                                      Fin (y0 + (y1 - y0) / 2 - \<bar>y1 - y0\<bar> * k / 2))
              \<and> hostEndPoint ?c' = (Fin (x0 + (x1 - x0) / 2 + \<bar>x1 - x0\<bar> * k / 2),
                                    Fin (y0 + (y1 - y0) / 2 + \<bar>y1 - y0\<bar> * k / 2))"
    if e: "exact_on ?d (enlarge_steps64 x0 x1 k @ enlarge_steps64 y0 y1 k)
              \<and> exact_on ?r (enlarge_steps32 x0 x1 k @ enlarge_steps32 y0 y1 k)"
  proof -
    from e have ex64: "exact_on ?d (enlarge_steps64 x0 x1 k)"
      and ey64: "exact_on ?d (enlarge_steps64 y0 y1 k)"
      and ex32: "exact_on ?r (enlarge_steps32 x0 x1 k)"
      and ey32: "exact_on ?r (enlarge_steps32 y0 y1 k)"
      by (simp_all add: exact_on_def)
    note X = enlarge_axis [OF ex64 ex32 szx cx nx refl refl]
    note Y = enlarge_axis [OF ey64 ey32 szy cy ny refl refl]
    have 1: "getBoxCenter ar c = (Fin (x0 + (x1 - x0) / 2), Fin (y0 + (y1 - y0) / 2))"
      using X(2) Y(2) by (simp add: prod_eq_iff)
    have 2: "getBoxSize ar c = (Fin \<bar>x1 - x0\<bar>, Fin \<bar>y1 - y0\<bar>)"
      using X(1) Y(1) by (simp add: prod_eq_iff)
    have "getBoxCenter ar ?c' = (Fin (x0 + (x1 - x0) / 2), Fin (y0 + (y1 - y0) / 2))"
      by (simp only: getBoxCenter_mk X(5) Y(5))
    then have 3: "getBoxCenter ar ?c' = getBoxCenter ar c"
      by (simp only: 1)
    have 4: "getBoxSize ar ?c' = (Fin (\<bar>k\<bar> * \<bar>x1 - x0\<bar>), Fin (\<bar>k\<bar> * \<bar>y1 - y0\<bar>))"
      by (simp only: getBoxSize_mk X(6) Y(6))
    have 5: "hostStartPoint ?c' = (Fin (x0 + (x1 - x0) / 2 - \<bar>x1 - x0\<bar> * k / 2),
                                      Fin (y0 + (y1 - y0) / 2 - \<bar>y1 - y0\<bar> * k / 2))"
      using X(3) Y(3) by simp
    have 6: "hostEndPoint ?c' = (Fin (x0 + (x1 - x0) / 2 + \<bar>x1 - x0\<bar> * k / 2),
                                    Fin (y0 + (y1 - y0) / 2 + \<bar>y1 - y0\<bar> * k / 2))"
      using X(4) Y(4) by simp
    from 1 2 3 4 5 6 show ?thesis by blast
  qed
  have st: "hostStartPoint ?c' = (?ax, ?ay)" and en: "hostEndPoint ?c' = (?bx, ?by)" by simp_all
  from ex have ex': "exact_on ?d (enlarge_steps64 x0 x1 k @ enlarge_steps64 y0 y1 k)
              \<and> exact_on ?r (enlarge_steps32 x0 x1 k @ enlarge_steps32 y0 y1 k) \<longrightarrow>
            getBoxCenter ar c = (Fin (x0 + (x1 - x0) / 2), Fin (y0 + (y1 - y0) / 2))
              \<and> getBoxSize ar c = (Fin \<bar>x1 - x0\<bar>, Fin \<bar>y1 - y0\<bar>)
              \<and> getBoxCenter ar ?c' = getBoxCenter ar c
              \<and> getBoxSize ar ?c' = (Fin (\<bar>k\<bar> * \<bar>x1 - x0\<bar>), Fin (\<bar>k\<bar> * \<bar>y1 - y0\<bar>))
              \<and> hostStartPoint ?c' = (Fin (x0 + (x1 - x0) / 2 - \<bar>x1 - x0\<bar> * k / 2),
                                      Fin (y0 + (y1 - y0) / 2 - \<bar>y1 - y0\<bar> * k / 2))
              \<and> hostEndPoint ?c' = (Fin (x0 + (x1 - x0) / 2 + \<bar>x1 - x0\<bar> * k / 2),
                                    Fin (y0 + (y1 - y0) / 2 + \<bar>y1 - y0\<bar> * k / 2))"
    by (rule impI)
  show ?thesis
    by (rule exI [of _ ?b], rule exI [of _ ?s'], rule exI [of _ ?c'])
       (rule conjI run cpu st en ex')+
qed

theorem enlargeBox_keeps_center_witness:
  "hostBox [fresh \<lparr>shape = [1, 2], vals = [Fin 10, Fin 20]\<rparr>,
           fresh \<lparr>shape = [1, 2], vals = [Fin 30, Fin 50]\<rparr>,
           fresh \<lparr>shape = [1, 4], vals = [Fin 10, Fin 20, Fin 30, Fin 50]\<rparr>]
          \<lparr>startPoint = Some 0, endPoint = 1, startEndTensor = 2, landmarks = None :: unit option\<rparr>
     = Some \<lparr>hostStartPoint = (Fin 10, Fin 20), hostEndPoint = (Fin 30, Fin 50), hostLandmarks = None\<rparr>
   \<and> exact_on (float64 ieee) (enlarge_steps64 10 30 2 @ enlarge_steps64 20 50 2)
   \<and> exact_on (float32 ieee) (enlarge_steps32 10 30 2 @ enlarge_steps32 20 50 2)
   \<and> getBoxCenter ieee \<lparr>hostStartPoint = (Fin 10, Fin 20), hostEndPoint = (Fin 30, Fin 50),
                    hostLandmarks = None\<rparr> = (Fin 20, Fin 35)
   \<and> getBoxSize ieee \<lparr>hostStartPoint = (Fin 10, Fin 20), hostEndPoint = (Fin 30, Fin 50),
                  hostLandmarks = None\<rparr> = (Fin 20, Fin 30)
   \<and> (\<exists>(b' :: unit Box) s' c'.
         enlargeBox ieee \<lparr>startPoint = Some 0, endPoint = 1, startEndTensor = 2,
                     landmarks = None :: unit option\<rparr> (Some (Fin 2))
           [fresh \<lparr>shape = [1, 2], vals = [Fin 10, Fin 20]\<rparr>,
            fresh \<lparr>shape = [1, 2], vals = [Fin 30, Fin 50]\<rparr>,
            fresh \<lparr>shape = [1, 4], vals = [Fin 10, Fin 20, Fin 30, Fin 50]\<rparr>]
           = (Inr b', s')
         \<and> hostBox s' b' = Some c'
         \<and> hostStartPoint c' = (Fin 0, Fin 5) \<and> hostEndPoint c' = (Fin 40, Fin 65)
         \<and> getBoxSize ieee c' = (Fin 40, Fin 60)
         \<and> getBoxCenter ieee c' = (Fin 20, Fin 35))"
proof -
  let ?s = "[fresh \<lparr>shape = [1, 2], vals = [Fin 10, Fin 20]\<rparr>,
           fresh \<lparr>shape = [1, 2], vals = [Fin 30, Fin 50]\<rparr>,
           fresh \<lparr>shape = [1, 4], vals = [Fin 10, Fin 20, Fin 30, Fin 50]\<rparr>]"
  let ?b = "\<lparr>startPoint = Some 0, endPoint = 1, startEndTensor = 2, landmarks = None :: unit option\<rparr>"
  let ?c = "\<lparr>hostStartPoint = (Fin 10, Fin 20), hostEndPoint = (Fin 30, Fin 50), hostLandmarks = None\<rparr>"
  have cpu: "hostBox ?s ?b = Some ?c"
    by (simp add: hostBox_def live_def fresh_def as_pair_2)
  have e64: "exact_on (float64 ieee) (enlarge_steps64 10 30 2 @ enlarge_steps64 20 50 2)"
    and e32: "exact_on (float32 ieee) (enlarge_steps32 10 30 2 @ enlarge_steps32 20 50 2)"
    by (simp_all add: exact_on_def enlarge_steps64_def enlarge_steps32_def)
  have cen: "getBoxCenter ieee ?c = (Fin 20, Fin 35)"
    by (simp add: getBoxCenter_def num_sub_def num_div_def)
  have sz: "getBoxSize ieee ?c = (Fin 20, Fin 30)"
    by (simp add: getBoxSize_def num_sub_def)
  obtain b' :: "unit Box" and s' c' where
    r: "enlargeBox ieee ?b (Some (Fin 2)) ?s = (Inr b', s')" "hostBox s' b' = Some c'"
    and ex: "exact_on (float64 ieee) (enlarge_steps64 10 30 2 @ enlarge_steps64 20 50 2)
              \<and> exact_on (float32 ieee) (enlarge_steps32 10 30 2 @ enlarge_steps32 20 50 2) \<longrightarrow>
                getBoxCenter ieee ?c = (Fin (10 + (30 - 10) / 2), Fin (20 + (50 - 20) / 2))
              \<and> getBoxSize ieee ?c = (Fin \<bar>30 - 10\<bar>, Fin \<bar>50 - 20\<bar>)
              \<and> getBoxCenter ieee c' = getBoxCenter ieee ?c
              \<and> getBoxSize ieee c' = (Fin (\<bar>2\<bar> * \<bar>30 - 10\<bar>), Fin (\<bar>2\<bar> * \<bar>50 - 20\<bar>))
              \<and> hostStartPoint c' = (Fin (10 + (30 - 10) / 2 - \<bar>30 - 10\<bar> * 2 / 2),
                                      Fin (20 + (50 - 20) / 2 - \<bar>50 - 20\<bar> * 2 / 2))
              \<and> hostEndPoint c' = (Fin (10 + (30 - 10) / 2 + \<bar>30 - 10\<bar> * 2 / 2),
                                    Fin (20 + (50 - 20) / 2 + \<bar>50 - 20\<bar> * 2 / 2))"
    using enlargeBox_keeps_center [where 'm = unit and k = 2 and factor' = "Some (Fin 2)"
        and ar = ieee and ?x0.0 = 10 and ?y0.0 = 20 and ?x1.0 = 30 and ?y1.0 = 50, OF cpu]
    by auto
  from ex e64 e32 have e: "getBoxCenter ieee c' = (Fin 20, Fin 35)"
    "getBoxSize ieee c' = (Fin 40, Fin 60)"
    "hostStartPoint c' = (Fin 0, Fin 5)" "hostEndPoint c' = (Fin 40, Fin 65)"
    by (simp_all add: cen)
  have "\<exists>(b' :: unit Box) s' c'.
         enlargeBox ieee ?b (Some (Fin 2)) ?s = (Inr b', s') \<and> hostBox s' b' = Some c'
         \<and> hostStartPoint c' = (Fin 0, Fin 5) \<and> hostEndPoint c' = (Fin 40, Fin 65)
         \<and> getBoxSize ieee c' = (Fin 40, Fin 60)
         \<and> getBoxCenter ieee c' = (Fin 20, Fin 35)"
    using r e by blast
  with cpu e64 e32 cen sz show ?thesis by (simp only: simp_thms)
qed

text \<open>
  With the factor \<open>-1\<close> on start \<open>[0,0]\<close> and end \<open>[2,2]\<close> the result has start
  \<open>[2,2]\<close> and end \<open>[0,0]\<close>: its size is \<open>[2,2]\<close>, not \<open>-1\<close> times \<open>[2,2]\<close>.
\<close>

theorem enlargeBox_negative_factor_counterexample:
  "enlargeBox ieee \<lparr>startPoint = Some 0, endPoint = 1, startEndTensor = 2,
               landmarks = None :: unit option\<rparr> (Some (Fin (- 1)))
     [fresh \<lparr>shape = [1, 2], vals = [Fin 0, Fin 0]\<rparr>,
      fresh \<lparr>shape = [1, 2], vals = [Fin 2, Fin 2]\<rparr>,
      fresh \<lparr>shape = [1, 4], vals = [Fin 0, Fin 0, Fin 2, Fin 2]\<rparr>]
     = (Inr \<lparr>startPoint = Some 6, endPoint = 7, startEndTensor = 8,
              landmarks = None :: unit option\<rparr>,
        [fresh \<lparr>shape = [1, 2], vals = [Fin 0, Fin 0]\<rparr>,
         fresh \<lparr>shape = [1, 2], vals = [Fin 2, Fin 2]\<rparr>,
         fresh \<lparr>shape = [1, 4], vals = [Fin 0, Fin 0, Fin 2, Fin 2]\<rparr>,
         released \<lparr>shape = [1, 2], vals = [Fin 2, Fin 2]\<rparr>,
         released \<lparr>shape = [1, 2], vals = [Fin 1, Fin 1]\<rparr>,
         released \<lparr>shape = [1, 2], vals = [Fin (- 1), Fin (- 1)]\<rparr>,
         fresh \<lparr>shape = [1, 2], vals = [Fin 2, Fin 2]\<rparr>,
         fresh \<lparr>shape = [1, 2], vals = [Fin 0, Fin 0]\<rparr>,
         fresh \<lparr>shape = [1, 4], vals = [Fin 2, Fin 2, Fin 0, Fin 0]\<rparr>])
   \<and> getBoxSize ieee \<lparr>hostStartPoint = (Fin 0, Fin 0), hostEndPoint = (Fin 2, Fin 2),
                  hostLandmarks = None\<rparr> = (Fin 2, Fin 2)
   \<and> getBoxSize ieee \<lparr>hostStartPoint = (Fin 2, Fin 2), hostEndPoint = (Fin 0, Fin 0),
                  hostLandmarks = None\<rparr> = (Fin 2, Fin 2)
   \<and> (Fin 2, Fin 2) \<noteq> (num_mul (float64 ieee) (Fin (- 1)) (Fin 2),
                         num_mul (float64 ieee) (Fin (- 1)) (Fin 2))"
proof -
  let ?s = "[fresh \<lparr>shape = [1, 2], vals = [Fin 0, Fin 0]\<rparr>,
      fresh \<lparr>shape = [1, 2], vals = [Fin 2, Fin 2]\<rparr>,
      fresh \<lparr>shape = [1, 4], vals = [Fin 0, Fin 0, Fin 2, Fin 2]\<rparr>]"
  let ?b = "\<lparr>startPoint = Some 0, endPoint = 1, startEndTensor = 2, landmarks = None :: unit option\<rparr>"
  have hs: "holds ?s 0 \<lparr>shape = [1, 2], vals = [Fin 0, Fin 0]\<rparr>"
    and he: "holds ?s (endPoint ?b) \<lparr>shape = [1, 2], vals = [Fin 2, Fin 2]\<rparr>"
    by (simp_all add: holds_def fresh_def)
  have sp: "startPoint ?b = Some 0" by simp
  show ?thesis
    using enlargeBox_run [where 'm = unit and factor' = "Some (Fin (- 1))" and ar = ieee,
        OF sp hs he refl refl refl refl refl refl refl refl refl refl]
    by (simp add: as_pair_2 getBoxSize_def getBoxCenter_def num_sub_def num_div_def num_mul_def)
qed

text \<open>
  Rounding moves the center. With the factor 1 on start \<open>[0.1, 0.2]\<close> and end
  \<open>[0.4, 0.8]\<close>, taken as the 32-bit floats of \<open>float32_tenths\<close>, the center of the input
  is \<open>[67108865 / 2^28, 67108865 / 2^27]\<close>, a little above \<open>[0.25, 0.5]\<close>. Storing the
  size and the center in 32 bits rounds both, and the result has start
  \<open>[3355443 / 2^25, 3355443 / 2^24]\<close> and end \<open>[13421773 / 2^25, 13421773 / 2^24]\<close>, whose
  center is \<open>[0.25, 0.5]\<close>.
\<close>

lemma enlargeBox_rounding_example:
  "enlargeBox ieee \<lparr>startPoint = Some 0, endPoint = 1, startEndTensor = 2,
               landmarks = None :: unit option\<rparr> (Some (Fin 1))
     [fresh \<lparr>shape = [1, 2], vals = [Fin (13421773 / 134217728), Fin (13421773 / 67108864)]\<rparr>,
      fresh \<lparr>shape = [1, 2], vals = [Fin (13421773 / 33554432), Fin (13421773 / 16777216)]\<rparr>,
      fresh \<lparr>shape = [1, 4], vals = [Fin (13421773 / 134217728), Fin (13421773 / 67108864),
                                      Fin (13421773 / 33554432), Fin (13421773 / 16777216)]\<rparr>]
     = (Inr \<lparr>startPoint = Some 6, endPoint = 7, startEndTensor = 8,
              landmarks = None :: unit option\<rparr>,
        [fresh \<lparr>shape = [1, 2], vals = [Fin (13421773 / 134217728), Fin (13421773 / 67108864)]\<rparr>,
         fresh \<lparr>shape = [1, 2], vals = [Fin (13421773 / 33554432), Fin (13421773 / 16777216)]\<rparr>,
         fresh \<lparr>shape = [1, 4], vals = [Fin (13421773 / 134217728), Fin (13421773 / 67108864),
                                         Fin (13421773 / 33554432), Fin (13421773 / 16777216)]\<rparr>,
         released \<lparr>shape = [1, 2], vals = [Fin (5033165 / 16777216), Fin (5033165 / 8388608)]\<rparr>,
         released \<lparr>shape = [1, 2], vals = [Fin (5033165 / 33554432), Fin (5033165 / 16777216)]\<rparr>,
         released \<lparr>shape = [1, 2], vals = [Fin (5033165 / 33554432), Fin (5033165 / 16777216)]\<rparr>,
         fresh \<lparr>shape = [1, 2], vals = [Fin (3355443 / 33554432), Fin (3355443 / 16777216)]\<rparr>,
         fresh \<lparr>shape = [1, 2], vals = [Fin (13421773 / 33554432), Fin (13421773 / 16777216)]\<rparr>,
         fresh \<lparr>shape = [1, 4], vals = [Fin (3355443 / 33554432), Fin (3355443 / 16777216),
                                         Fin (13421773 / 33554432), Fin (13421773 / 16777216)]\<rparr>])
   \<and> getBoxCenter ieee \<lparr>hostStartPoint = (Fin (13421773 / 134217728), Fin (13421773 / 67108864)),
                          hostEndPoint = (Fin (13421773 / 33554432), Fin (13421773 / 16777216)),
                          hostLandmarks = None\<rparr>
       = (Fin (67108865 / 268435456), Fin (67108865 / 134217728))
   \<and> getBoxCenter ieee \<lparr>hostStartPoint = (Fin (3355443 / 33554432), Fin (3355443 / 16777216)),
                          hostEndPoint = (Fin (13421773 / 33554432), Fin (13421773 / 16777216)),
                          hostLandmarks = None\<rparr>
       = (Fin (1 / 4), Fin (1 / 2))"
proof -
  let ?s = "[fresh \<lparr>shape = [1, 2], vals = [Fin (13421773 / 134217728), Fin (13421773 / 67108864)]\<rparr>,
      fresh \<lparr>shape = [1, 2], vals = [Fin (13421773 / 33554432), Fin (13421773 / 16777216)]\<rparr>,
      fresh \<lparr>shape = [1, 4], vals = [Fin (13421773 / 134217728), Fin (13421773 / 67108864),
                                      Fin (13421773 / 33554432), Fin (13421773 / 16777216)]\<rparr>]"
  let ?b = "\<lparr>startPoint = Some 0, endPoint = 1, startEndTensor = 2, landmarks = None :: unit option\<rparr>"
  have hs: "holds ?s 0 \<lparr>shape = [1, 2], vals = [Fin (13421773 / 134217728), Fin (13421773 / 67108864)]\<rparr>"
    and he: "holds ?s (endPoint ?b) \<lparr>shape = [1, 2], vals = [Fin (13421773 / 33554432), Fin (13421773 / 16777216)]\<rparr>"
    by (simp_all add: holds_def fresh_def)
  have sp: "startPoint ?b = Some 0" by simp
  show ?thesis
    using enlargeBox_run [where 'm = unit and factor' = "Some (Fin 1)" and ar = ieee,
        OF sp hs he refl refl refl refl refl refl refl refl refl refl]
    by (simp add: as_pair_2 getBoxSize_def getBoxCenter_def num_sub_def num_div_def num_mul_def
          float32_size_x float32_center_x float32_size_y float32_center_y f32_exact f64_exact)
qed

section \<open>BoxDisposal\<close>

text \<open>
  C8. \<open>disposeBox\<close> never fails. When the Box is absent or its \<open>startPoint\<close> is
  absent it leaves the engine as it is; otherwise it changes no tensor's values, and a
  tensor is released afterwards exactly when it was released before or is the Box's
  \<open>startEndTensor\<close>, \<open>startPoint\<close> or \<open>endPoint\<close>.
\<close>

theorem disposeBox_releases_exactly:
  "fst (disposeBox box s) = Inr ()
   \<and> (box = None \<longrightarrow> disposeBox box s = (Inr (), s))
   \<and> (\<forall>b. box = Some b \<and> startPoint b = None \<longrightarrow> disposeBox box s = (Inr (), s))
   \<and> (\<forall>b p. box = Some b \<and> startPoint b = Some p \<longrightarrow>
         length (snd (disposeBox box s)) = length s
         \<and> (\<forall>i < length s.
               content (snd (disposeBox box s) ! i) = content (s ! i)
               \<and> (isDisposed (snd (disposeBox box s) ! i)
                    \<longleftrightarrow> isDisposed (s ! i) \<or> i \<in> {startEndTensor b, p, endPoint b})))"
  by (auto simp: disposeBox_def tf_return_def tf_bind_def dispose_def nth_list_update
           split: option.splits)

theorem disposeBox_releases_exactly_witness:
  "disposeBox (None :: unit Box option) [fresh \<lparr>shape = [1, 2], vals = [Fin 1, Fin 2]\<rparr>]
     = (Inr (), [fresh \<lparr>shape = [1, 2], vals = [Fin 1, Fin 2]\<rparr>])
   \<and> disposeBox (Some \<lparr>startPoint = None, endPoint = 1, startEndTensor = 2,
                         landmarks = None :: unit option\<rparr>)
        [fresh \<lparr>shape = [1, 2], vals = [Fin 1, Fin 2]\<rparr>,
         fresh \<lparr>shape = [1, 2], vals = [Fin 3, Fin 4]\<rparr>,
         fresh \<lparr>shape = [1, 4], vals = [Fin 1, Fin 2, Fin 3, Fin 4]\<rparr>]
     = (Inr (), [fresh \<lparr>shape = [1, 2], vals = [Fin 1, Fin 2]\<rparr>,
                 fresh \<lparr>shape = [1, 2], vals = [Fin 3, Fin 4]\<rparr>,
                 fresh \<lparr>shape = [1, 4], vals = [Fin 1, Fin 2, Fin 3, Fin 4]\<rparr>])
   \<and> disposeBox (Some \<lparr>startPoint = Some 0, endPoint = 1, startEndTensor = 2,
                         landmarks = None :: unit option\<rparr>)
        [fresh \<lparr>shape = [1, 2], vals = [Fin 1, Fin 2]\<rparr>,
         fresh \<lparr>shape = [1, 2], vals = [Fin 3, Fin 4]\<rparr>,
         fresh \<lparr>shape = [1, 4], vals = [Fin 1, Fin 2, Fin 3, Fin 4]\<rparr>,
         fresh \<lparr>shape = [1, 100, 100, 3], vals = []\<rparr>]
     = (Inr (), [released \<lparr>shape = [1, 2], vals = [Fin 1, Fin 2]\<rparr>,
                 released \<lparr>shape = [1, 2], vals = [Fin 3, Fin 4]\<rparr>,
                 released \<lparr>shape = [1, 4], vals = [Fin 1, Fin 2, Fin 3, Fin 4]\<rparr>,
                 fresh \<lparr>shape = [1, 100, 100, 3], vals = []\<rparr>])
   \<and> \<not> isDisposed (snd (disposeBox (Some \<lparr>startPoint = Some 0, endPoint = 1, startEndTensor = 2,
                         landmarks = None :: unit option\<rparr>)
        [fresh \<lparr>shape = [1, 2], vals = [Fin 1, Fin 2]\<rparr>,
         fresh \<lparr>shape = [1, 2], vals = [Fin 3, Fin 4]\<rparr>,
         fresh \<lparr>shape = [1, 4], vals = [Fin 1, Fin 2, Fin 3, Fin 4]\<rparr>,
         fresh \<lparr>shape = [1, 100, 100, 3], vals = []\<rparr>]) ! 3)"
proof -
  let ?b = "\<lparr>startPoint = Some 0, endPoint = 1, startEndTensor = 2, landmarks = None :: unit option\<rparr>"
  let ?s = "[fresh \<lparr>shape = [1, 2], vals = [Fin 1, Fin 2]\<rparr>,
         fresh \<lparr>shape = [1, 2], vals = [Fin 3, Fin 4]\<rparr>,
         fresh \<lparr>shape = [1, 4], vals = [Fin 1, Fin 2, Fin 3, Fin 4]\<rparr>,
         fresh \<lparr>shape = [1, 100, 100, 3], vals = []\<rparr>]"
  have "isDisposed (snd (disposeBox (Some ?b) ?s) ! 3)
          \<longleftrightarrow> isDisposed (?s ! 3) \<or> 3 \<in> {startEndTensor ?b, 0, endPoint ?b}"
    using disposeBox_releases_exactly [where box = "Some ?b" and s = ?s] by simp
  then have 4: "\<not> isDisposed (snd (disposeBox (Some ?b) ?s) ! 3)"
    by (simp add: fresh_def)
  have 3: "disposeBox (Some ?b) ?s
     = (Inr (), [released \<lparr>shape = [1, 2], vals = [Fin 1, Fin 2]\<rparr>,
                 released \<lparr>shape = [1, 2], vals = [Fin 3, Fin 4]\<rparr>,
                 released \<lparr>shape = [1, 4], vals = [Fin 1, Fin 2, Fin 3, Fin 4]\<rparr>,
                 fresh \<lparr>shape = [1, 100, 100, 3], vals = []\<rparr>])"
    by (simp add: disposeBox_def tf_bind_def dispose_def fresh_def released_def)
  show ?thesis
    using 3 4 disposeBox_releases_exactly [where box = "None :: unit Box option"]
      disposeBox_releases_exactly [where box = "Some \<lparr>startPoint = None, endPoint = 1, startEndTensor = 2,
                         landmarks = None :: unit option\<rparr>"]
    by simp
qed

section \<open>Transforms and their input\<close>

text \<open>
  C9. \<open>scaleBoxCoordinates\<close> and \<open>enlargeBox\<close> leave every tensor that existed
  before the call as it was, values and release mark alike, whether the call succeeds or
  fails; so the tensors of the input Box are neither changed nor released. When the call
  returns a Box, its \<open>startPoint\<close>, \<open>endPoint\<close> and \<open>startEndTensor\<close> are three
  different handles allocated during the call and not released.
\<close>

theorem transforms_allocate_new_box:
  "preserved s (snd (scaleBoxCoordinates ar box f s :: (error + 'm Box) \<times> engine))
   \<and> (\<forall>(b :: 'm Box) s'. scaleBoxCoordinates ar box f s = (Inr b, s') \<longrightarrow>
         (\<exists>p. startPoint b = Some p \<and> fresh_in s s' p \<and> fresh_in s s' (endPoint b)
              \<and> fresh_in s s' (startEndTensor b) \<and> distinct [p, endPoint b, startEndTensor b]))
   \<and> preserved s (snd (enlargeBox ar box k s :: (error + 'm Box) \<times> engine))
   \<and> (\<forall>(b :: 'm Box) s'. enlargeBox ar box k s = (Inr b, s') \<longrightarrow>
         (\<exists>p. startPoint b = Some p \<and> fresh_in s s' p \<and> fresh_in s s' (endPoint b)
              \<and> fresh_in s s' (startEndTensor b) \<and> distinct [p, endPoint b, startEndTensor b]))"
proof (intro conjI allI impI)
  show "preserved s (snd (scaleBoxCoordinates ar box f s :: (error + 'm Box) \<times> engine))"
    by (rule preserves_scaleBoxCoordinates [unfolded preserves_def, rule_format])
next
  show "preserved s (snd (enlargeBox ar box k s :: (error + 'm Box) \<times> engine))"
    by (rule preserves_enlargeBox [unfolded preserves_def, rule_format])
next
  fix b :: "'m Box" and s'
  assume "scaleBoxCoordinates ar box f s = (Inr b, s')"
  then obtain t1 t2 t3 t4 t5 where
    "b = \<lparr>startPoint = Some (length s + 3), endPoint = length s + 4,
          startEndTensor = length s + 2, landmarks = None\<rparr>"
    "s' = s @ [fresh t1, fresh t2, fresh t3, fresh t4, fresh t5]"
    using scaleBoxCoordinates_InrD by blast
  then show "\<exists>p. startPoint b = Some p \<and> fresh_in s s' p \<and> fresh_in s s' (endPoint b)
              \<and> fresh_in s s' (startEndTensor b) \<and> distinct [p, endPoint b, startEndTensor b]"
    by (simp add: fresh_in_def fresh_def nth_append)
next
  fix b :: "'m Box" and s'
  assume "enlargeBox ar box k s = (Inr b, s')"
  then obtain t1 t2 t3 t4 t5 t6 where
    "b = \<lparr>startPoint = Some (length s + 3), endPoint = length s + 4,
          startEndTensor = length s + 5, landmarks = None\<rparr>"
    "s' = s @ [released t1, released t2, released t3, fresh t4, fresh t5, fresh t6]"
    using enlargeBox_InrD by blast
  then show "\<exists>p. startPoint b = Some p \<and> fresh_in s s' p \<and> fresh_in s s' (endPoint b)
              \<and> fresh_in s s' (startEndTensor b) \<and> distinct [p, endPoint b, startEndTensor b]"
    by (simp add: fresh_in_def fresh_def nth_append)
qed

theorem transforms_allocate_new_box_witness:
  "scaleBoxCoordinates ieee
     \<lparr>startPoint = Some 0, endPoint = 1, startEndTensor = 2, landmarks = None :: unit option\<rparr>
     (FactorPair (Fin 2) (Fin 2))
     [fresh \<lparr>shape = [1, 2], vals = [Fin 1, Fin 2]\<rparr>,
      fresh \<lparr>shape = [1, 2], vals = [Fin 3, Fin 4]\<rparr>,
      fresh \<lparr>shape = [1, 4], vals = [Fin 1, Fin 2, Fin 3, Fin 4]\<rparr>]
     = (Inr \<lparr>startPoint = Some 6, endPoint = 7, startEndTensor = 5,
              landmarks = None :: unit option\<rparr>,
        [fresh \<lparr>shape = [1, 2], vals = [Fin 1, Fin 2]\<rparr>,
         fresh \<lparr>shape = [1, 2], vals = [Fin 3, Fin 4]\<rparr>,
         fresh \<lparr>shape = [1, 4], vals = [Fin 1, Fin 2, Fin 3, Fin 4]\<rparr>,
         fresh \<lparr>shape = [1, 2], vals = [Fin 2, Fin 4]\<rparr>,
         fresh \<lparr>shape = [1, 2], vals = [Fin 6, Fin 8]\<rparr>,
         fresh \<lparr>shape = [1, 4], vals = [Fin 2, Fin 4, Fin 6, Fin 8]\<rparr>,
         fresh \<lparr>shape = [1, 2], vals = [Fin 2, Fin 4]\<rparr>,
         fresh \<lparr>shape = [1, 2], vals = [Fin 6, Fin 8]\<rparr>])
   \<and> preserved
        [fresh \<lparr>shape = [1, 2], vals = [Fin 1, Fin 2]\<rparr>,
         fresh \<lparr>shape = [1, 2], vals = [Fin 3, Fin 4]\<rparr>,
         fresh \<lparr>shape = [1, 4], vals = [Fin 1, Fin 2, Fin 3, Fin 4]\<rparr>]
        [fresh \<lparr>shape = [1, 2], vals = [Fin 1, Fin 2]\<rparr>,
         fresh \<lparr>shape = [1, 2], vals = [Fin 3, Fin 4]\<rparr>,
         fresh \<lparr>shape = [1, 4], vals = [Fin 1, Fin 2, Fin 3, Fin 4]\<rparr>,
         fresh \<lparr>shape = [1, 2], vals = [Fin 2, Fin 4]\<rparr>,
         fresh \<lparr>shape = [1, 2], vals = [Fin 6, Fin 8]\<rparr>,
         fresh \<lparr>shape = [1, 4], vals = [Fin 2, Fin 4, Fin 6, Fin 8]\<rparr>,
         fresh \<lparr>shape = [1, 2], vals = [Fin 2, Fin 4]\<rparr>,
         fresh \<lparr>shape = [1, 2], vals = [Fin 6, Fin 8]\<rparr>]
   \<and> fresh_in
               [fresh \<lparr>shape = [1, 2], vals = [Fin 1, Fin 2]\<rparr>,
                fresh \<lparr>shape = [1, 2], vals = [Fin 3, Fin 4]\<rparr>,
                fresh \<lparr>shape = [1, 4], vals = [Fin 1, Fin 2, Fin 3, Fin 4]\<rparr>]
               [fresh \<lparr>shape = [1, 2], vals = [Fin 1, Fin 2]\<rparr>,
                fresh \<lparr>shape = [1, 2], vals = [Fin 3, Fin 4]\<rparr>,
                fresh \<lparr>shape = [1, 4], vals = [Fin 1, Fin 2, Fin 3, Fin 4]\<rparr>,
                fresh \<lparr>shape = [1, 2], vals = [Fin 2, Fin 4]\<rparr>,
                fresh \<lparr>shape = [1, 2], vals = [Fin 6, Fin 8]\<rparr>,
                fresh \<lparr>shape = [1, 4], vals = [Fin 2, Fin 4, Fin 6, Fin 8]\<rparr>,
                fresh \<lparr>shape = [1, 2], vals = [Fin 2, Fin 4]\<rparr>,
                fresh \<lparr>shape = [1, 2], vals = [Fin 6, Fin 8]\<rparr>] 6
   \<and> fresh_in
               [fresh \<lparr>shape = [1, 2], vals = [Fin 1, Fin 2]\<rparr>,
                fresh \<lparr>shape = [1, 2], vals = [Fin 3, Fin 4]\<rparr>,
                fresh \<lparr>shape = [1, 4], vals = [Fin 1, Fin 2, Fin 3, Fin 4]\<rparr>]
               [fresh \<lparr>shape = [1, 2], vals = [Fin 1, Fin 2]\<rparr>,
                fresh \<lparr>shape = [1, 2], vals = [Fin 3, Fin 4]\<rparr>,
                fresh \<lparr>shape = [1, 4], vals = [Fin 1, Fin 2, Fin 3, Fin 4]\<rparr>,
                fresh \<lparr>shape = [1, 2], vals = [Fin 2, Fin 4]\<rparr>,
                fresh \<lparr>shape = [1, 2], vals = [Fin 6, Fin 8]\<rparr>,
                fresh \<lparr>shape = [1, 4], vals = [Fin 2, Fin 4, Fin 6, Fin 8]\<rparr>,
                fresh \<lparr>shape = [1, 2], vals = [Fin 2, Fin 4]\<rparr>,
                fresh \<lparr>shape = [1, 2], vals = [Fin 6, Fin 8]\<rparr>] 7
   \<and> fresh_in
               [fresh \<lparr>shape = [1, 2], vals = [Fin 1, Fin 2]\<rparr>,
                fresh \<lparr>shape = [1, 2], vals = [Fin 3, Fin 4]\<rparr>,
                fresh \<lparr>shape = [1, 4], vals = [Fin 1, Fin 2, Fin 3, Fin 4]\<rparr>]
               [fresh \<lparr>shape = [1, 2], vals = [Fin 1, Fin 2]\<rparr>,
                fresh \<lparr>shape = [1, 2], vals = [Fin 3, Fin 4]\<rparr>,
                fresh \<lparr>shape = [1, 4], vals = [Fin 1, Fin 2, Fin 3, Fin 4]\<rparr>,
                fresh \<lparr>shape = [1, 2], vals = [Fin 2, Fin 4]\<rparr>,
                fresh \<lparr>shape = [1, 2], vals = [Fin 6, Fin 8]\<rparr>,
                fresh \<lparr>shape = [1, 4], vals = [Fin 2, Fin 4, Fin 6, Fin 8]\<rparr>,
                fresh \<lparr>shape = [1, 2], vals = [Fin 2, Fin 4]\<rparr>,
                fresh \<lparr>shape = [1, 2], vals = [Fin 6, Fin 8]\<rparr>] 5
   \<and> enlargeBox ieee
       \<lparr>startPoint = Some 0, endPoint = 1, startEndTensor = 2, landmarks = None :: unit option\<rparr>
       (Some (Fin 2))
       [fresh \<lparr>shape = [1, 2], vals = [Fin 1, Fin 2]\<rparr>,
        fresh \<lparr>shape = [1, 2], vals = [Fin 3, Fin 4]\<rparr>,
        fresh \<lparr>shape = [1, 4], vals = [Fin 1, Fin 2, Fin 3, Fin 4]\<rparr>]
     = (Inr \<lparr>startPoint = Some 6, endPoint = 7, startEndTensor = 8,
              landmarks = None :: unit option\<rparr>,
        [fresh \<lparr>shape = [1, 2], vals = [Fin 1, Fin 2]\<rparr>,
         fresh \<lparr>shape = [1, 2], vals = [Fin 3, Fin 4]\<rparr>,
         fresh \<lparr>shape = [1, 4], vals = [Fin 1, Fin 2, Fin 3, Fin 4]\<rparr>,
         released \<lparr>shape = [1, 2], vals = [Fin 2, Fin 2]\<rparr>,
         released \<lparr>shape = [1, 2], vals = [Fin 1, Fin 1]\<rparr>,
         released \<lparr>shape = [1, 2], vals = [Fin 2, Fin 2]\<rparr>,
         fresh \<lparr>shape = [1, 2], vals = [Fin 0, Fin 1]\<rparr>,
         fresh \<lparr>shape = [1, 2], vals = [Fin 4, Fin 5]\<rparr>,
         fresh \<lparr>shape = [1, 4], vals = [Fin 0, Fin 1, Fin 4, Fin 5]\<rparr>])
   \<and> fresh_in
               [fresh \<lparr>shape = [1, 2], vals = [Fin 1, Fin 2]\<rparr>,
                fresh \<lparr>shape = [1, 2], vals = [Fin 3, Fin 4]\<rparr>,
                fresh \<lparr>shape = [1, 4], vals = [Fin 1, Fin 2, Fin 3, Fin 4]\<rparr>]
               [fresh \<lparr>shape = [1, 2], vals = [Fin 1, Fin 2]\<rparr>,
                fresh \<lparr>shape = [1, 2], vals = [Fin 3, Fin 4]\<rparr>,
                fresh \<lparr>shape = [1, 4], vals = [Fin 1, Fin 2, Fin 3, Fin 4]\<rparr>,
                released \<lparr>shape = [1, 2], vals = [Fin 2, Fin 2]\<rparr>,
                released \<lparr>shape = [1, 2], vals = [Fin 1, Fin 1]\<rparr>,
                released \<lparr>shape = [1, 2], vals = [Fin 2, Fin 2]\<rparr>,
                fresh \<lparr>shape = [1, 2], vals = [Fin 0, Fin 1]\<rparr>,
                fresh \<lparr>shape = [1, 2], vals = [Fin 4, Fin 5]\<rparr>,
                fresh \<lparr>shape = [1, 4], vals = [Fin 0, Fin 1, Fin 4, Fin 5]\<rparr>] 6
   \<and> fresh_in
               [fresh \<lparr>shape = [1, 2], vals = [Fin 1, Fin 2]\<rparr>,
                fresh \<lparr>shape = [1, 2], vals = [Fin 3, Fin 4]\<rparr>,
                fresh \<lparr>shape = [1, 4], vals = [Fin 1, Fin 2, Fin 3, Fin 4]\<rparr>]
               [fresh \<lparr>shape = [1, 2], vals = [Fin 1, Fin 2]\<rparr>,
                fresh \<lparr>shape = [1, 2], vals = [Fin 3, Fin 4]\<rparr>,
                fresh \<lparr>shape = [1, 4], vals = [Fin 1, Fin 2, Fin 3, Fin 4]\<rparr>,
                released \<lparr>shape = [1, 2], vals = [Fin 2, Fin 2]\<rparr>,
                released \<lparr>shape = [1, 2], vals = [Fin 1, Fin 1]\<rparr>,
                released \<lparr>shape = [1, 2], vals = [Fin 2, Fin 2]\<rparr>,
                fresh \<lparr>shape = [1, 2], vals = [Fin 0, Fin 1]\<rparr>,
                fresh \<lparr>shape = [1, 2], vals = [Fin 4, Fin 5]\<rparr>,
                fresh \<lparr>shape = [1, 4], vals = [Fin 0, Fin 1, Fin 4, Fin 5]\<rparr>] 7
   \<and> fresh_in
               [fresh \<lparr>shape = [1, 2], vals = [Fin 1, Fin 2]\<rparr>,
                fresh \<lparr>shape = [1, 2], vals = [Fin 3, Fin 4]\<rparr>,
                fresh \<lparr>shape = [1, 4], vals = [Fin 1, Fin 2, Fin 3, Fin 4]\<rparr>]
               [fresh \<lparr>shape = [1, 2], vals = [Fin 1, Fin 2]\<rparr>,
                fresh \<lparr>shape = [1, 2], vals = [Fin 3, Fin 4]\<rparr>,
                fresh \<lparr>shape = [1, 4], vals = [Fin 1, Fin 2, Fin 3, Fin 4]\<rparr>,
                released \<lparr>shape = [1, 2], vals = [Fin 2, Fin 2]\<rparr>,
                released \<lparr>shape = [1, 2], vals = [Fin 1, Fin 1]\<rparr>,
                released \<lparr>shape = [1, 2], vals = [Fin 2, Fin 2]\<rparr>,
                fresh \<lparr>shape = [1, 2], vals = [Fin 0, Fin 1]\<rparr>,
                fresh \<lparr>shape = [1, 2], vals = [Fin 4, Fin 5]\<rparr>,
                fresh \<lparr>shape = [1, 4], vals = [Fin 0, Fin 1, Fin 4, Fin 5]\<rparr>] 8"
proof -
  let ?s = "[fresh \<lparr>shape = [1, 2], vals = [Fin 1, Fin 2]\<rparr>,
      fresh \<lparr>shape = [1, 2], vals = [Fin 3, Fin 4]\<rparr>,
      fresh \<lparr>shape = [1, 4], vals = [Fin 1, Fin 2, Fin 3, Fin 4]\<rparr>]"
  let ?b = "\<lparr>startPoint = Some 0, endPoint = 1, startEndTensor = 2, landmarks = None :: unit option\<rparr>"
  let ?bs = "\<lparr>startPoint = Some 6, endPoint = 7, startEndTensor = 5, landmarks = None :: unit option\<rparr>"
  let ?ss = "[fresh \<lparr>shape = [1, 2], vals = [Fin 1, Fin 2]\<rparr>,
         fresh \<lparr>shape = [1, 2], vals = [Fin 3, Fin 4]\<rparr>,
         fresh \<lparr>shape = [1, 4], vals = [Fin 1, Fin 2, Fin 3, Fin 4]\<rparr>,
         fresh \<lparr>shape = [1, 2], vals = [Fin 2, Fin 4]\<rparr>,
         fresh \<lparr>shape = [1, 2], vals = [Fin 6, Fin 8]\<rparr>,
         fresh \<lparr>shape = [1, 4], vals = [Fin 2, Fin 4, Fin 6, Fin 8]\<rparr>,
         fresh \<lparr>shape = [1, 2], vals = [Fin 2, Fin 4]\<rparr>,
         fresh \<lparr>shape = [1, 2], vals = [Fin 6, Fin 8]\<rparr>]"
  let ?be = "\<lparr>startPoint = Some 6, endPoint = 7, startEndTensor = 8, landmarks = None :: unit option\<rparr>"
  let ?se = "[fresh \<lparr>shape = [1, 2], vals = [Fin 1, Fin 2]\<rparr>,
         fresh \<lparr>shape = [1, 2], vals = [Fin 3, Fin 4]\<rparr>,
         fresh \<lparr>shape = [1, 4], vals = [Fin 1, Fin 2, Fin 3, Fin 4]\<rparr>,
         released \<lparr>shape = [1, 2], vals = [Fin 2, Fin 2]\<rparr>,
         released \<lparr>shape = [1, 2], vals = [Fin 1, Fin 1]\<rparr>,
         released \<lparr>shape = [1, 2], vals = [Fin 2, Fin 2]\<rparr>,
         fresh \<lparr>shape = [1, 2], vals = [Fin 0, Fin 1]\<rparr>,
         fresh \<lparr>shape = [1, 2], vals = [Fin 4, Fin 5]\<rparr>,
         fresh \<lparr>shape = [1, 4], vals = [Fin 0, Fin 1, Fin 4, Fin 5]\<rparr>]"
  have sp: "startPoint ?b = Some 0" by simp
  have hs: "holds ?s 0 \<lparr>shape = [1, 2], vals = [Fin 1, Fin 2]\<rparr>"
    and he: "holds ?s (endPoint ?b) \<lparr>shape = [1, 2], vals = [Fin 3, Fin 4]\<rparr>"
    by (simp_all add: holds_def fresh_def)
  have f: "factor_holds ieee ?s (FactorPair (Fin 2) (Fin 2)) (tensor1d [Fin 2, Fin 2])"
    by (simp add: factor_holds_def to_float32_tensor1d)
  have run_s: "scaleBoxCoordinates ieee ?b (FactorPair (Fin 2) (Fin 2)) ?s = (Inr ?bs, ?ss)"
    using scaleBoxCoordinates_run [where 'm = unit and ar = ieee, OF sp hs he f]
    by (simp add: num_mul_def)
  have run_e: "enlargeBox ieee ?b (Some (Fin 2)) ?s = (Inr ?be, ?se)"
    using enlargeBox_run [where 'm = unit and factor' = "Some (Fin 2)" and ar = ieee, OF sp hs he refl refl refl refl refl refl refl refl refl refl]
    by (simp add: as_pair_2 getBoxSize_def getBoxCenter_def num_sub_def num_div_def num_mul_def)
  note t = transforms_allocate_new_box [where 'm = unit and s = ?s and box = ?b and ar = ieee
      and f = "FactorPair (Fin 2) (Fin 2)" and k = "Some (Fin 2)"]
  from t have "preserved ?s (snd (scaleBoxCoordinates ieee ?b (FactorPair (Fin 2) (Fin 2)) ?s
                                   :: (error + unit Box) \<times> engine))"
    by blast
  then have 1: "preserved ?s ?ss" by (simp only: run_s snd_conv)
  from t run_s have "\<exists>p. startPoint ?bs = Some p \<and> fresh_in ?s ?ss p \<and> fresh_in ?s ?ss (endPoint ?bs)
              \<and> fresh_in ?s ?ss (startEndTensor ?bs) \<and> distinct [p, endPoint ?bs, startEndTensor ?bs]"
    by blast
  then have 2: "fresh_in ?s ?ss 6 \<and> fresh_in ?s ?ss 7 \<and> fresh_in ?s ?ss 5" by simp
  from t run_e have "\<exists>p. startPoint ?be = Some p \<and> fresh_in ?s ?se p \<and> fresh_in ?s ?se (endPoint ?be)
              \<and> fresh_in ?s ?se (startEndTensor ?be) \<and> distinct [p, endPoint ?be, startEndTensor ?be]"
    by blast
  then have 3: "fresh_in ?s ?se 6 \<and> fresh_in ?s ?se 7 \<and> fresh_in ?s ?se 8" by simp
  from run_s 1 2 run_e 3 show ?thesis by blast
qed

section \<open>BoxCropper\<close>

text \<open>
  C2. For a Box whose \<open>startEndTensor\<close> is the \<open>[1,4]\<close> tensor
  \<open>[x0, y0, x1, y1]\<close>, an image of shape \<open>[1, h, w, ch]\<close> and a crop size of at least
  1 by 1, \<open>cutBoxFromImageAndResize\<close> hands the resampling primitive the \<open>[1,4]\<close>
  tensor \<open>[y0 / h, x0 / w, y1 / h, x1 / w]\<close> of 32-bit quotients and the box index
  \<open>[0]\<close>. Each of the four coordinates lies between 0 and 1 when the box lies inside the
  image: \<open>0 \<le> x0, x1 \<le> w\<close> and \<open>0 \<le> y0, y1 \<le> h\<close>, with \<open>h\<close> and \<open>w\<close> positive
  and stored exactly, for a rounding that keeps values between 0 and 1 there; \<open>ieee\<close>
  is such a rounding, and it stores every dimension below \<open>2^24\<close> exactly.
\<close>

theorem cutBox_hands_normalized_yxyx:
  assumes "holds s (startEndTensor box) \<lparr>shape = [1, 4], vals = [x0, y0, x1, y1]\<rparr>"
    and "holds s image' img" "shape img = [1, h, w, ch]"
    and "1 \<le> fst cropSize" "1 \<le> snd cropSize"
  shows "\<exists>out. cutBoxFromImageAndResize ar smp box image' cropSize s = (Inr (length s + 7), out)
           \<and> vals (content (out ! (length s + 7)))
               = smp img \<lparr>shape = [1, 4],
                           vals = [num_div (float32 ar) y0 (store (float32 ar) (Fin (real h))),
                                   num_div (float32 ar) x0 (store (float32 ar) (Fin (real w))),
                                   num_div (float32 ar) y1 (store (float32 ar) (Fin (real h))),
                                   num_div (float32 ar) x1 (store (float32 ar) (Fin (real w)))]\<rparr>
                     [0] cropSize
           \<and> (\<forall>a b c d. x0 = Fin a \<and> y0 = Fin b \<and> x1 = Fin c \<and> y1 = Fin d
                  \<and> keeps_unit (float32 ar) \<and> exact_on (float32 ar) [real h, real w]
                  \<and> 0 < h \<and> 0 < w \<and> 0 \<le> a \<and> a \<le> real w \<and> 0 \<le> c \<and> c \<le> real w
                  \<and> 0 \<le> b \<and> b \<le> real h \<and> 0 \<le> d \<and> d \<le> real h
                \<longrightarrow> in_unit (num_div (float32 ar) y0 (store (float32 ar) (Fin (real h))))
                  \<and> in_unit (num_div (float32 ar) x0 (store (float32 ar) (Fin (real w))))
                  \<and> in_unit (num_div (float32 ar) y1 (store (float32 ar) (Fin (real h))))
                  \<and> in_unit (num_div (float32 ar) x1 (store (float32 ar) (Fin (real w)))))"
proof -
  let ?RC = "\<lparr>shape = [1, 4],
                           vals = [num_div (float32 ar) y0 (store (float32 ar) (Fin (real h))),
                                   num_div (float32 ar) x0 (store (float32 ar) (Fin (real w))),
                                   num_div (float32 ar) y1 (store (float32 ar) (Fin (real h))),
                                   num_div (float32 ar) x1 (store (float32 ar) (Fin (real w)))]\<rparr>"
  let ?out = "s @ [released \<lparr>shape = [1, 1], vals = [y0]\<rparr>,
                   released \<lparr>shape = [1, 1], vals = [x0]\<rparr>,
                   released \<lparr>shape = [1, 1], vals = [y1]\<rparr>,
                   released \<lparr>shape = [1, 1], vals = [x1]\<rparr>,
                   released \<lparr>shape = [4, 1], vals = [y0, x0, y1, x1]\<rparr>,
                   released \<lparr>shape = [1, 4], vals = [y0, x0, y1, x1]\<rparr>,
                   released ?RC,
                   fresh \<lparr>shape = [1, nat (fst cropSize), nat (snd cropSize), ch],
                          vals = smp img ?RC [0] cropSize\<rparr>]"
  have run: "cutBoxFromImageAndResize ar smp box image' cropSize s = (Inr (length s + 7), ?out)"
    using assms refl by (rule cutBox_run)
  have v: "vals (content (?out ! (length s + 7))) = smp img ?RC [0] cropSize"
    by (simp add: nth_append fresh_def)
  have u: "\<forall>a b c d. x0 = Fin a \<and> y0 = Fin b \<and> x1 = Fin c \<and> y1 = Fin d
                  \<and> keeps_unit (float32 ar) \<and> exact_on (float32 ar) [real h, real w]
                  \<and> 0 < h \<and> 0 < w \<and> 0 \<le> a \<and> a \<le> real w \<and> 0 \<le> c \<and> c \<le> real w
                  \<and> 0 \<le> b \<and> b \<le> real h \<and> 0 \<le> d \<and> d \<le> real h
                \<longrightarrow> in_unit (num_div (float32 ar) y0 (store (float32 ar) (Fin (real h))))
                  \<and> in_unit (num_div (float32 ar) x0 (store (float32 ar) (Fin (real w))))
                  \<and> in_unit (num_div (float32 ar) y1 (store (float32 ar) (Fin (real h))))
                  \<and> in_unit (num_div (float32 ar) x1 (store (float32 ar) (Fin (real w))))"
  proof (intro allI impI)
    fix a b c d
    assume A: "x0 = Fin a \<and> y0 = Fin b \<and> x1 = Fin c \<and> y1 = Fin d
                  \<and> keeps_unit (float32 ar) \<and> exact_on (float32 ar) [real h, real w]
                  \<and> 0 < h \<and> 0 < w \<and> 0 \<le> a \<and> a \<le> real w \<and> 0 \<le> c \<and> c \<le> real w
                  \<and> 0 \<le> b \<and> b \<le> real h \<and> 0 \<le> d \<and> d \<le> real h"
    then have k: "keeps_unit (float32 ar)"
      and eh: "float32 ar (real h) = Some (real h)" and ew: "float32 ar (real w) = Some (real w)"
      and p: "0 < h" "0 < w"
      and xs: "x0 = Fin a" "y0 = Fin b" "x1 = Fin c" "y1 = Fin d"
      and bs: "0 \<le> a" "a \<le> real w" "0 \<le> c" "c \<le> real w"
              "0 \<le> b" "b \<le> real h" "0 \<le> d" "d \<le> real h"
      by (simp_all add: exact_on_def)
    show "in_unit (num_div (float32 ar) y0 (store (float32 ar) (Fin (real h))))
                  \<and> in_unit (num_div (float32 ar) x0 (store (float32 ar) (Fin (real w))))
                  \<and> in_unit (num_div (float32 ar) y1 (store (float32 ar) (Fin (real h))))
                  \<and> in_unit (num_div (float32 ar) x1 (store (float32 ar) (Fin (real w))))"
      unfolding xs
      by (intro conjI unit_quotient [OF k eh p(1)] unit_quotient [OF k ew p(2)] bs)
  qed
  from run v u show ?thesis by blast
qed

theorem cutBox_hands_normalized_yxyx_witness:
  "holds [fresh \<lparr>shape = [1, 2], vals = [Fin 25, Fin 50]\<rparr>,
          fresh \<lparr>shape = [1, 2], vals = [Fin 75, Fin 100]\<rparr>,
          fresh \<lparr>shape = [1, 4], vals = [Fin 25, Fin 50, Fin 75, Fin 100]\<rparr>,
          fresh \<lparr>shape = [1, 100, 100, 3], vals = replicate 30000 (Fin 0)\<rparr>] 2
         \<lparr>shape = [1, 4], vals = [Fin 25, Fin 50, Fin 75, Fin 100]\<rparr>
   \<and> holds [fresh \<lparr>shape = [1, 2], vals = [Fin 25, Fin 50]\<rparr>,
          fresh \<lparr>shape = [1, 2], vals = [Fin 75, Fin 100]\<rparr>,
          fresh \<lparr>shape = [1, 4], vals = [Fin 25, Fin 50, Fin 75, Fin 100]\<rparr>,
          fresh \<lparr>shape = [1, 100, 100, 3], vals = replicate 30000 (Fin 0)\<rparr>] 3
         \<lparr>shape = [1, 100, 100, 3], vals = replicate 30000 (Fin 0)\<rparr>
   \<and> (\<exists>out. cutBoxFromImageAndResize ieee (\<lambda>img boxes boxInd cropSize. vals boxes)
               \<lparr>startPoint = Some 0, endPoint = 1, startEndTensor = 2,
                 landmarks = None :: unit option\<rparr> 3 (50, 50)
               [fresh \<lparr>shape = [1, 2], vals = [Fin 25, Fin 50]\<rparr>,
                fresh \<lparr>shape = [1, 2], vals = [Fin 75, Fin 100]\<rparr>,
                fresh \<lparr>shape = [1, 4], vals = [Fin 25, Fin 50, Fin 75, Fin 100]\<rparr>,
                fresh \<lparr>shape = [1, 100, 100, 3], vals = replicate 30000 (Fin 0)\<rparr>]
             = (Inr 11, out)
           \<and> vals (content (out ! 11)) = [Fin (1 / 2), Fin (1 / 4), Fin 1, Fin (3 / 4)])
   \<and> in_unit (Fin (1 / 2)) \<and> in_unit (Fin (1 / 4)) \<and> in_unit (Fin 1)
   \<and> in_unit (Fin (3 / 4))"
proof -
  let ?img = "\<lparr>shape = [1, 100, 100, 3], vals = replicate 30000 (Fin 0)\<rparr>"
  let ?s = "[fresh \<lparr>shape = [1, 2], vals = [Fin 25, Fin 50]\<rparr>,
          fresh \<lparr>shape = [1, 2], vals = [Fin 75, Fin 100]\<rparr>,
          fresh \<lparr>shape = [1, 4], vals = [Fin 25, Fin 50, Fin 75, Fin 100]\<rparr>,
          fresh ?img]"
  let ?b = "\<lparr>startPoint = Some 0, endPoint = 1, startEndTensor = 2, landmarks = None :: unit option\<rparr>"
  have h1: "holds ?s (startEndTensor ?b) \<lparr>shape = [1, 4], vals = [Fin 25, Fin 50, Fin 75, Fin 100]\<rparr>"
    and h2: "holds ?s 3 ?img"
    by (simp_all add: holds_def fresh_def)
  have sh: "shape ?img = [1, 100, 100, 3]" by simp
  have cs: "1 \<le> fst (50 :: int, 50 :: int)" "1 \<le> snd (50 :: int, 50 :: int)" by simp_all
  note t = cutBox_hands_normalized_yxyx [where smp = "\<lambda>img boxes boxInd cropSize. vals boxes"
      and ar = ieee, OF h1 h2 sh cs]
  from t obtain out where
    r: "cutBoxFromImageAndResize ieee (\<lambda>img boxes boxInd cropSize. vals boxes) ?b 3 (50, 50) ?s
          = (Inr (length ?s + 7), out)"
    and v: "vals (content (out ! (length ?s + 7)))
          = vals \<lparr>shape = [1, 4],
                   vals = [num_div (float32 ieee) (Fin 50)
                             (store (float32 ieee) (Fin (real 100))),
                           num_div (float32 ieee) (Fin 25)
                             (store (float32 ieee) (Fin (real 100))),
                           num_div (float32 ieee) (Fin 100)
                             (store (float32 ieee) (Fin (real 100))),
                           num_div (float32 ieee) (Fin 75)
                             (store (float32 ieee) (Fin (real 100)))]\<rparr>"
    by blast
  from r have r': "cutBoxFromImageAndResize ieee (\<lambda>img boxes boxInd cropSize. vals boxes) ?b 3 (50, 50) ?s
          = (Inr 11, out)" by simp
  have q: "round_to (float32 ieee) (1 / 2) = Fin (1 / 2)"
    "round_to (float32 ieee) (1 / 4) = Fin (1 / 4)"
    "round_to (float32 ieee) (3 / 4) = Fin (3 / 4)"
    using float32_dyadic [of 1 1] float32_dyadic [of 1 2] float32_dyadic [of 3 2]
    by (simp_all add: round_to_def)
  from v have v': "vals (content (out ! 11)) = [Fin (1 / 2), Fin (1 / 4), Fin 1, Fin (3 / 4)]"
    by (simp add: num_div_def q)
  from t have
    "\<forall>a b c d. Fin 25 = Fin a \<and> Fin 50 = Fin b \<and> Fin 75 = Fin c \<and> Fin 100 = Fin d
        \<and> keeps_unit (float32 ieee) \<and> exact_on (float32 ieee) [real 100, real 100]
        \<and> 0 < (100 :: nat) \<and> 0 < (100 :: nat) \<and> 0 \<le> a \<and> a \<le> real 100 \<and> 0 \<le> c \<and> c \<le> real 100
        \<and> 0 \<le> b \<and> b \<le> real 100 \<and> 0 \<le> d \<and> d \<le> real 100
      \<longrightarrow> in_unit (num_div (float32 ieee) (Fin 50) (store (float32 ieee) (Fin (real 100))))
        \<and> in_unit (num_div (float32 ieee) (Fin 25) (store (float32 ieee) (Fin (real 100))))
        \<and> in_unit (num_div (float32 ieee) (Fin 100) (store (float32 ieee) (Fin (real 100))))
        \<and> in_unit (num_div (float32 ieee) (Fin 75) (store (float32 ieee) (Fin (real 100))))"
    by blast
  moreover have "keeps_unit (float32 ieee)"
    and "exact_on (float32 ieee) [real 100, real 100]"
    by (simp_all add: keeps_unit_float32 exact_on_def)
  ultimately have
    "in_unit (num_div (float32 ieee) (Fin 50) (store (float32 ieee) (Fin (real 100))))
        \<and> in_unit (num_div (float32 ieee) (Fin 25) (store (float32 ieee) (Fin (real 100))))
        \<and> in_unit (num_div (float32 ieee) (Fin 100) (store (float32 ieee) (Fin (real 100))))
        \<and> in_unit (num_div (float32 ieee) (Fin 75) (store (float32 ieee) (Fin (real 100))))"
    by simp
  then have u: "in_unit (Fin (1 / 2)) \<and> in_unit (Fin (1 / 4)) \<and> in_unit (Fin 1) \<and> in_unit (Fin (3 / 4))"
    by (simp add: num_div_def)
  from h1 h2 r' v' u show ?thesis by (simp del: in_unit.simps)
qed

text \<open>
  The box \<open>[0, 0, 200, 200]\<close> on an image of shape \<open>[1, 100, 100, 3]\<close>: the primitive
  is handed \<open>[0, 0, 2, 2]\<close>, and 2 is not between 0 and 1. The sampler of this run returns
  the box coordinates it receives, so they are the values of the result.
\<close>

theorem cutBox_outside_image_counterexample:
  "cutBoxFromImageAndResize ieee (\<lambda>img boxes boxInd cropSize. vals boxes)
     \<lparr>startPoint = Some 0, endPoint = 1, startEndTensor = 2, landmarks = None :: unit option\<rparr>
     3 (50, 50)
     [fresh \<lparr>shape = [1, 2], vals = [Fin 0, Fin 0]\<rparr>,
      fresh \<lparr>shape = [1, 2], vals = [Fin 200, Fin 200]\<rparr>,
      fresh \<lparr>shape = [1, 4], vals = [Fin 0, Fin 0, Fin 200, Fin 200]\<rparr>,
      fresh \<lparr>shape = [1, 100, 100, 3], vals = replicate 30000 (Fin 0)\<rparr>]
     = (Inr 11,
        [fresh \<lparr>shape = [1, 2], vals = [Fin 0, Fin 0]\<rparr>,
         fresh \<lparr>shape = [1, 2], vals = [Fin 200, Fin 200]\<rparr>,
         fresh \<lparr>shape = [1, 4], vals = [Fin 0, Fin 0, Fin 200, Fin 200]\<rparr>,
         fresh \<lparr>shape = [1, 100, 100, 3], vals = replicate 30000 (Fin 0)\<rparr>,
         released \<lparr>shape = [1, 1], vals = [Fin 0]\<rparr>,
         released \<lparr>shape = [1, 1], vals = [Fin 0]\<rparr>,
         released \<lparr>shape = [1, 1], vals = [Fin 200]\<rparr>,
         released \<lparr>shape = [1, 1], vals = [Fin 200]\<rparr>,
         released \<lparr>shape = [4, 1], vals = [Fin 0, Fin 0, Fin 200, Fin 200]\<rparr>,
         released \<lparr>shape = [1, 4], vals = [Fin 0, Fin 0, Fin 200, Fin 200]\<rparr>,
         released \<lparr>shape = [1, 4], vals = [Fin 0, Fin 0, Fin 2, Fin 2]\<rparr>,
         fresh \<lparr>shape = [1, 50, 50, 3], vals = [Fin 0, Fin 0, Fin 2, Fin 2]\<rparr>])
   \<and> \<not> in_unit (Fin 2)"
proof -
  let ?img = "\<lparr>shape = [1, 100, 100, 3], vals = replicate 30000 (Fin 0)\<rparr>"
  let ?s = "[fresh \<lparr>shape = [1, 2], vals = [Fin 0, Fin 0]\<rparr>,
      fresh \<lparr>shape = [1, 2], vals = [Fin 200, Fin 200]\<rparr>,
      fresh \<lparr>shape = [1, 4], vals = [Fin 0, Fin 0, Fin 200, Fin 200]\<rparr>,
      fresh ?img]"
  let ?b = "\<lparr>startPoint = Some 0, endPoint = 1, startEndTensor = 2, landmarks = None :: unit option\<rparr>"
  have h1: "holds ?s (startEndTensor ?b) \<lparr>shape = [1, 4], vals = [Fin 0, Fin 0, Fin 200, Fin 200]\<rparr>"
    and h2: "holds ?s 3 ?img"
    by (simp_all add: holds_def fresh_def)
  have sh: "shape ?img = [1, 100, 100, 3]" by simp
  have cs: "1 \<le> fst (50 :: int, 50 :: int)" "1 \<le> snd (50 :: int, 50 :: int)" by simp_all
  show ?thesis
    using cutBox_run [where smp = "\<lambda>img boxes boxInd cropSize. vals boxes" and ar = ieee,
        OF h1 h2 sh cs refl]
    by (simp add: num_div_def)
qed

text \<open>
  C3. For a Box whose \<open>startEndTensor\<close> is a \<open>[1,4]\<close> tensor of any four coordinates,
  an image of shape \<open>[1, h, w, ch]\<close> and a crop size \<open>(cropHeight, cropWidth)\<close> of at
  least 1 by 1, \<open>cutBoxFromImageAndResize\<close> returns a tensor of shape
  \<open>[1, cropHeight, cropWidth, ch]\<close> that is not released. The witness is the example of
  the specification: a \<open>[1,100,100,3]\<close> image, the Box covering it, crop size \<open>[50,50]\<close>.
\<close>

theorem cutBox_output_shape:
  assumes "holds s (startEndTensor box) \<lparr>shape = [1, 4], vals = [x0, y0, x1, y1]\<rparr>"
    and "holds s image' img" "shape img = [1, h, w, ch]"
    and "1 \<le> fst cropSize" "1 \<le> snd cropSize"
  shows "\<exists>r out. cutBoxFromImageAndResize ar smp box image' cropSize s = (Inr r, out)
           \<and> r < length out \<and> \<not> isDisposed (out ! r)
           \<and> shape (content (out ! r)) = [1, nat (fst cropSize), nat (snd cropSize), ch]"
proof -
  let ?RC = "\<lparr>shape = [1, 4],
                           vals = [num_div (float32 ar) y0 (store (float32 ar) (Fin (real h))),
                                   num_div (float32 ar) x0 (store (float32 ar) (Fin (real w))),
                                   num_div (float32 ar) y1 (store (float32 ar) (Fin (real h))),
                                   num_div (float32 ar) x1 (store (float32 ar) (Fin (real w)))]\<rparr>"
  let ?out = "s @ [released \<lparr>shape = [1, 1], vals = [y0]\<rparr>,
                   released \<lparr>shape = [1, 1], vals = [x0]\<rparr>,
                   released \<lparr>shape = [1, 1], vals = [y1]\<rparr>,
                   released \<lparr>shape = [1, 1], vals = [x1]\<rparr>,
                   released \<lparr>shape = [4, 1], vals = [y0, x0, y1, x1]\<rparr>,
                   released \<lparr>shape = [1, 4], vals = [y0, x0, y1, x1]\<rparr>,
                   released ?RC,
                   fresh \<lparr>shape = [1, nat (fst cropSize), nat (snd cropSize), ch],
                          vals = smp img ?RC [0] cropSize\<rparr>]"
  have run: "cutBoxFromImageAndResize ar smp box image' cropSize s = (Inr (length s + 7), ?out)"
    using assms refl by (rule cutBox_run)
  have "length s + 7 < length ?out \<and> \<not> isDisposed (?out ! (length s + 7))
           \<and> shape (content (?out ! (length s + 7))) = [1, nat (fst cropSize), nat (snd cropSize), ch]"
    by (simp add: nth_append fresh_def)
  with run show ?thesis by blast
qed

theorem cutBox_output_shape_witness:
  "holds [fresh \<lparr>shape = [1, 2], vals = [Fin 0, Fin 0]\<rparr>,
          fresh \<lparr>shape = [1, 2], vals = [Fin 100, Fin 100]\<rparr>,
          fresh \<lparr>shape = [1, 4], vals = [Fin 0, Fin 0, Fin 100, Fin 100]\<rparr>,
          fresh \<lparr>shape = [1, 100, 100, 3], vals = replicate 30000 (Fin 0)\<rparr>] 2
         \<lparr>shape = [1, 4], vals = [Fin 0, Fin 0, Fin 100, Fin 100]\<rparr>
   \<and> holds [fresh \<lparr>shape = [1, 2], vals = [Fin 0, Fin 0]\<rparr>,
          fresh \<lparr>shape = [1, 2], vals = [Fin 100, Fin 100]\<rparr>,
          fresh \<lparr>shape = [1, 4], vals = [Fin 0, Fin 0, Fin 100, Fin 100]\<rparr>,
          fresh \<lparr>shape = [1, 100, 100, 3], vals = replicate 30000 (Fin 0)\<rparr>] 3
         \<lparr>shape = [1, 100, 100, 3], vals = replicate 30000 (Fin 0)\<rparr>
   \<and> (\<exists>r out. cutBoxFromImageAndResize ieee (\<lambda>img boxes boxInd cropSize. [])
               \<lparr>startPoint = Some 0, endPoint = 1, startEndTensor = 2,
                 landmarks = None :: unit option\<rparr> 3 (50, 50)
               [fresh \<lparr>shape = [1, 2], vals = [Fin 0, Fin 0]\<rparr>,
                fresh \<lparr>shape = [1, 2], vals = [Fin 100, Fin 100]\<rparr>,
                fresh \<lparr>shape = [1, 4], vals = [Fin 0, Fin 0, Fin 100, Fin 100]\<rparr>,
                fresh \<lparr>shape = [1, 100, 100, 3], vals = replicate 30000 (Fin 0)\<rparr>]
             = (Inr r, out)
           \<and> r < length out \<and> \<not> isDisposed (out ! r)
           \<and> shape (content (out ! r)) = [1, 50, 50, 3])"
proof -
  let ?img = "\<lparr>shape = [1, 100, 100, 3], vals = replicate 30000 (Fin 0)\<rparr>"
  let ?s = "[fresh \<lparr>shape = [1, 2], vals = [Fin 0, Fin 0]\<rparr>,
          fresh \<lparr>shape = [1, 2], vals = [Fin 100, Fin 100]\<rparr>,
          fresh \<lparr>shape = [1, 4], vals = [Fin 0, Fin 0, Fin 100, Fin 100]\<rparr>,
          fresh ?img]"
  let ?b = "\<lparr>startPoint = Some 0, endPoint = 1, startEndTensor = 2, landmarks = None :: unit option\<rparr>"
  have h1: "holds ?s (startEndTensor ?b) \<lparr>shape = [1, 4], vals = [Fin 0, Fin 0, Fin 100, Fin 100]\<rparr>"
    and h2: "holds ?s 3 ?img"
    by (simp_all add: holds_def fresh_def)
  have sh: "shape ?img = [1, 100, 100, 3]" by simp
  have cs: "1 \<le> fst (50 :: int, 50 :: int)" "1 \<le> snd (50 :: int, 50 :: int)" by simp_all
  have "\<exists>r out. cutBoxFromImageAndResize ieee (\<lambda>img boxes boxInd cropSize. []) ?b 3 (50, 50) ?s = (Inr r, out)
           \<and> r < length out \<and> \<not> isDisposed (out ! r)
           \<and> shape (content (out ! r)) = [1, nat (fst (50 :: int, 50 :: int)), nat (snd (50 :: int, 50 :: int)), 3]"
    by (rule cutBox_output_shape [where ar = ieee, OF h1 h2 sh cs])
  then have "\<exists>r out. cutBoxFromImageAndResize ieee (\<lambda>img boxes boxInd cropSize. []) ?b 3 (50, 50) ?s = (Inr r, out)
           \<and> r < length out \<and> \<not> isDisposed (out ! r)
           \<and> shape (content (out ! r)) = [1, 50, 50, 3]"
    by simp
  with h1 h2 show ?thesis by simp
qed

text \<open>
  The crop size \<open>[0, 5]\<close> on a \<open>[1,100,100,3]\<close> image with the Box covering it: the
  resampling primitive refuses a crop height below 1, so the call fails with
  \<open>InvalidArgument\<close> and returns no tensor at all; the seven tensors allocated on the way
  are released.
\<close>

theorem cutBox_crop_size_counterexample:
  "cutBoxFromImageAndResize ieee (\<lambda>img boxes boxInd cropSize. [])
     \<lparr>startPoint = Some 0, endPoint = 1, startEndTensor = 2, landmarks = None :: unit option\<rparr>
     3 (0, 5)
     [fresh \<lparr>shape = [1, 2], vals = [Fin 0, Fin 0]\<rparr>,
      fresh \<lparr>shape = [1, 2], vals = [Fin 100, Fin 100]\<rparr>,
      fresh \<lparr>shape = [1, 4], vals = [Fin 0, Fin 0, Fin 100, Fin 100]\<rparr>,
      fresh \<lparr>shape = [1, 100, 100, 3], vals = replicate 30000 (Fin 0)\<rparr>]
     = (Inl InvalidArgument,
        [fresh \<lparr>shape = [1, 2], vals = [Fin 0, Fin 0]\<rparr>,
         fresh \<lparr>shape = [1, 2], vals = [Fin 100, Fin 100]\<rparr>,
         fresh \<lparr>shape = [1, 4], vals = [Fin 0, Fin 0, Fin 100, Fin 100]\<rparr>,
         fresh \<lparr>shape = [1, 100, 100, 3], vals = replicate 30000 (Fin 0)\<rparr>,
         released \<lparr>shape = [1, 1], vals = [Fin 0]\<rparr>,
         released \<lparr>shape = [1, 1], vals = [Fin 0]\<rparr>,
         released \<lparr>shape = [1, 1], vals = [Fin 100]\<rparr>,
         released \<lparr>shape = [1, 1], vals = [Fin 100]\<rparr>,
         released \<lparr>shape = [4, 1], vals = [Fin 0, Fin 0, Fin 100, Fin 100]\<rparr>,
         released \<lparr>shape = [1, 4], vals = [Fin 0, Fin 0, Fin 100, Fin 100]\<rparr>,
         released \<lparr>shape = [1, 4], vals = [Fin 0, Fin 0, Fin 1, Fin 1]\<rparr>])"
proof -
  let ?img = "\<lparr>shape = [1, 100, 100, 3], vals = replicate 30000 (Fin 0)\<rparr>"
  let ?s = "[fresh \<lparr>shape = [1, 2], vals = [Fin 0, Fin 0]\<rparr>,
      fresh \<lparr>shape = [1, 2], vals = [Fin 100, Fin 100]\<rparr>,
      fresh \<lparr>shape = [1, 4], vals = [Fin 0, Fin 0, Fin 100, Fin 100]\<rparr>,
      fresh ?img]"
  let ?b = "\<lparr>startPoint = Some 0, endPoint = 1, startEndTensor = 2, landmarks = None :: unit option\<rparr>"
  have h1: "holds ?s (startEndTensor ?b) \<lparr>shape = [1, 4], vals = [Fin 0, Fin 0, Fin 100, Fin 100]\<rparr>"
    and h2: "holds ?s 3 ?img"
    by (simp_all add: holds_def fresh_def)
  have sh: "shape ?img = [1, 100, 100, 3]" by simp
  have cs: "\<not> (1 \<le> fst (0 :: int, 5 :: int) \<and> 1 \<le> snd (0 :: int, 5 :: int))" by simp
  show ?thesis
    using cutBox_reject [where smp = "\<lambda>img boxes boxInd cropSize. []" and ar = ieee,
        OF h1 h2 sh cs refl]
    by (simp add: num_div_def)
qed

text \<open>
  C10. \<open>cutBoxFromImageAndResize\<close> reads only the \<open>startEndTensor\<close> field of its Box:
  two Boxes with the same \<open>startEndTensor\<close>, whatever their other fields, give the same
  result and the same engine state for the same sampler, image, crop size and starting
  state.
\<close>

theorem cutBox_reads_only_startEndTensor:
  "startEndTensor b1 = startEndTensor b2 \<Longrightarrow>
   cutBoxFromImageAndResize ar smp b1 image' cropSize s
     = cutBoxFromImageAndResize ar smp b2 image' cropSize s"
  by (simp add: cutBoxFromImageAndResize_def)

theorem cutBox_reads_only_startEndTensor_witness:
  "startEndTensor \<lparr>startPoint = Some 0, endPoint = 1, startEndTensor = 2,
                    landmarks = None :: unit option\<rparr>
     = startEndTensor \<lparr>startPoint = None, endPoint = 9, startEndTensor = 2,
                        landmarks = Some [(1 :: nat, 2 :: nat)]\<rparr>
   \<and> cutBoxFromImageAndResize ieee (\<lambda>img boxes boxInd cropSize. vals boxes)
        \<lparr>startPoint = Some 0, endPoint = 1, startEndTensor = 2, landmarks = None :: unit option\<rparr>
        3 (50, 50)
        [fresh \<lparr>shape = [1, 2], vals = [Fin 0, Fin 0]\<rparr>,
         fresh \<lparr>shape = [1, 2], vals = [Fin 100, Fin 100]\<rparr>,
         fresh \<lparr>shape = [1, 4], vals = [Fin 0, Fin 0, Fin 100, Fin 100]\<rparr>,
         fresh \<lparr>shape = [1, 100, 100, 3], vals = replicate 30000 (Fin 0)\<rparr>]
     = cutBoxFromImageAndResize ieee (\<lambda>img boxes boxInd cropSize. vals boxes)
        \<lparr>startPoint = None, endPoint = 9, startEndTensor = 2,
          landmarks = Some [(1 :: nat, 2 :: nat)]\<rparr>
        3 (50, 50)
        [fresh \<lparr>shape = [1, 2], vals = [Fin 0, Fin 0]\<rparr>,
         fresh \<lparr>shape = [1, 2], vals = [Fin 100, Fin 100]\<rparr>,
         fresh \<lparr>shape = [1, 4], vals = [Fin 0, Fin 0, Fin 100, Fin 100]\<rparr>,
         fresh \<lparr>shape = [1, 100, 100, 3], vals = replicate 30000 (Fin 0)\<rparr>]"
proof -
  have e: "startEndTensor \<lparr>startPoint = Some 0, endPoint = 1, startEndTensor = 2,
                    landmarks = None :: unit option\<rparr>
     = startEndTensor \<lparr>startPoint = None, endPoint = 9, startEndTensor = 2,
                        landmarks = Some [(1 :: nat, 2 :: nat)]\<rparr>"
    by simp
  from e cutBox_reads_only_startEndTensor [where ar = ieee, OF e] show ?thesis by blast
qed

end
